theory Spec2Isabelle
  imports Complex_Main "HOL-Library.Word"
begin

section \<open>Failures\<close>

text \<open>
  Every way in which the C++ code can leave a routine without a result is a value of
  \<open>error\<close>: an exception thrown by the configuration reader, and the undefined
  behaviour of an integer remainder by zero or of an index beyond the end of a
  \<^verbatim>\<open>std::vector\<close>.
\<close>

datatype error =
    OutOfRange string
  | TypeError string
  | InvalidArgument string
  | DivisionByZero
  | IndexOutOfRange

section \<open>Reading the run parameters (Solver.cpp, runSolver)\<close>

text \<open>
  The \<^verbatim>\<open>configuration\<close> table of the input file, after \<^verbatim>\<open>toml::parse\<close>. The
  toml11 accessors are modelled by their documented behaviour: \<^verbatim>\<open>toml::find\<close>
  throws \<^verbatim>\<open>std::out_of_range\<close> for a key that the table does not hold, and
  \<^verbatim>\<open>as_floating\<close> throws \<^verbatim>\<open>toml::type_error\<close> for a value that is not a float.
\<close>

datatype toml_value =
    TomlInteger int
  | TomlFloating real
  | TomlString string
  | TomlBoolean bool

type_synonym toml_table = "string \<Rightarrow> toml_value option"

definition toml_find :: "toml_table \<Rightarrow> string \<Rightarrow> error + toml_value" where
  "toml_find config key = (case config key of None \<Rightarrow> Inl (OutOfRange key) | Some v \<Rightarrow> Inr v)"

definition toml_count :: "toml_table \<Rightarrow> string \<Rightarrow> nat" where
  "toml_count config key = (case config key of None \<Rightarrow> 0 | Some v \<Rightarrow> 1)"

definition is_integer :: "toml_value \<Rightarrow> bool" where
  "is_integer v = (case v of TomlInteger i \<Rightarrow> True | _ \<Rightarrow> False)"

definition is_floating :: "toml_value \<Rightarrow> bool" where
  "is_floating v = (case v of TomlFloating r \<Rightarrow> True | _ \<Rightarrow> False)"

definition as_floating :: "toml_value \<Rightarrow> error + real" where
  "as_floating v = (case v of TomlFloating r \<Rightarrow> Inr r | _ \<Rightarrow> Inl (TypeError ''floating''))"

text \<open>The C++ \<^verbatim>\<open>!n\<close> on an integer: 1 when \<open>n\<close> is zero, else 0.\<close>

definition lnot :: "nat \<Rightarrow> nat" where
  "lnot n = (if n = 0 then 1 else 0)"

text \<open>
  The four reads of runSolver, in the order of the source. Each one calls
  \<^verbatim>\<open>toml::find\<close> first and tests \<^verbatim>\<open>!config.count(key) == 1\<close> afterwards.
\<close>

definition read_delta_t :: "toml_table \<Rightarrow> error + real" where
  "read_delta_t config =
     (case toml_find config ''delta_t'' of
        Inl e \<Rightarrow> Inl e
      | Inr printdt \<Rightarrow>
          if lnot (toml_count config ''delta_t'') = 1
          then Inl (InvalidArgument ''delta_t unspecified or specified more than once'')
          else if is_integer printdt then as_floating printdt
          else if is_floating printdt then as_floating printdt
          else Inl (InvalidArgument ''delta_t specified incorrrectly''))"

definition read_t_final :: "toml_table \<Rightarrow> error + real" where
  "read_t_final config =
     (case toml_find config ''t_final'' of
        Inl e \<Rightarrow> Inl e
      | Inr tEnd \<Rightarrow>
          if lnot (toml_count config ''t_final'') = 1
          then Inl (InvalidArgument ''tEnd unspecified or specified more than once'')
          else if is_integer tEnd then as_floating tEnd
          else if is_floating tEnd then as_floating tEnd
          else Inl (InvalidArgument ''tEnd specified incorrrectly''))"

definition read_Relative_tolerance :: "toml_table \<Rightarrow> error + real" where
  "read_Relative_tolerance config =
     (case toml_find config ''Relative_tolerance'' of
        Inl e \<Rightarrow> Inl e
      | Inr relTol \<Rightarrow>
          if lnot (toml_count config ''Relative_tolerance'') = 1 then Inr (1 / 100000)
          else if is_integer relTol then as_floating relTol
          else if is_floating relTol then as_floating relTol
          else Inl (InvalidArgument ''relative_tolerance specified incorrrectly''))"

definition read_Absolute_tolerance :: "toml_table \<Rightarrow> error + real" where
  "read_Absolute_tolerance config =
     (case toml_find config ''Absolute_tolerance'' of
        Inl e \<Rightarrow> Inl e
      | Inr absTol \<Rightarrow>
          if lnot (toml_count config ''Absolute_tolerance'') = 1 then Inr (1 / 100000)
          else if is_integer absTol then as_floating absTol
          else if is_floating absTol then as_floating absTol
          else Inl (InvalidArgument ''Absolute_tolerance specified incorrrectly''))"

record run_parameters =
  deltatPrint :: real
  tFinal :: real
  rtol :: real
  atol :: real

definition runSolver_readFile :: "toml_table \<Rightarrow> error + run_parameters" where
  "runSolver_readFile config =
     (case read_delta_t config of Inl e \<Rightarrow> Inl e | Inr dtp \<Rightarrow>
      case read_t_final config of Inl e \<Rightarrow> Inl e | Inr tf \<Rightarrow>
      case read_Relative_tolerance config of Inl e \<Rightarrow> Inl e | Inr rtv \<Rightarrow>
      case read_Absolute_tolerance config of Inl e \<Rightarrow> Inl e | Inr atv \<Rightarrow>
        Inr \<lparr>deltatPrint = dtp, tFinal = tf, rtol = rtv, atol = atv\<rparr>)"

text \<open>A configuration with every required key and neither tolerance.\<close>

definition config_no_tolerances :: toml_table where
  "config_no_tolerances = map_of
     [(''Polynomial_degree'', TomlInteger 2),
      (''Grid_size'', TomlInteger 20),
      (''Number_of_channels'', TomlInteger 1),
      (''Lower_boundary'', TomlFloating 0),
      (''Upper_boundary'', TomlFloating 1),
      (''LB_Type'', TomlString ''Dirichlet''),
      (''UB_Type'', TomlString ''Dirichlet''),
      (''Initial_condition'', TomlString ''Sine''),
      (''Diffusion_case'', TomlString ''1DLinearTest''),
      (''Reaction_case'', TomlString ''1DLinearTest''),
      (''delta_t'', TomlFloating (1 / 100)),
      (''t_final'', TomlFloating (1 / 10))]"

section \<open>Dense matrices, vectors and loops\<close>

text \<open>
  The solver computes in \<^verbatim>\<open>double\<close>. The model is polymorphic in the type \<open>'a\<close>
  of these values and uses only the operations the code applies to them, so that it can
  be read over the reals (the results on the assembled blocks) and over a type with a
  not-a-number value (the results on failures). Positions and times are reals.

  An Eigen vector is its entry function, an Eigen matrix the function of the row and the
  column; their dimensions are the ones of the constructor calls in the source, all of
  them products of \<^verbatim>\<open>k + 1\<close>, \<^verbatim>\<open>nVar\<close> and \<^verbatim>\<open>nCells\<close>.
\<close>

type_synonym 'a vec = "nat \<Rightarrow> 'a"
type_synonym 'a mat = "nat \<Rightarrow> nat \<Rightarrow> 'a"

text \<open>\<^verbatim>\<open>for (i = 0; i < n; i++) body\<close>, iterations in ascending order.\<close>

primrec forloop :: "nat \<Rightarrow> (nat \<Rightarrow> 's \<Rightarrow> 's) \<Rightarrow> 's \<Rightarrow> 's" where
  "forloop 0 body s = s"
| "forloop (Suc n) body s = body n (forloop n body s)"

text \<open>The same loop when the body can fail: the first failure ends it.\<close>

primrec forloopE :: "nat \<Rightarrow> (nat \<Rightarrow> 's \<Rightarrow> error + 's) \<Rightarrow> 's \<Rightarrow> error + 's" where
  "forloopE 0 body s = Inr s"
| "forloopE (Suc n) body s =
     (case forloopE n body s of Inl e \<Rightarrow> Inl e | Inr s' \<Rightarrow> body n s')"

definition vzero :: "'a::zero vec" where
  "vzero = (\<lambda>i. 0)"

definition mzero :: "'a::zero mat" where
  "mzero = (\<lambda>i j. 0)"

definition mtranspose :: "'a mat \<Rightarrow> 'a mat" where
  "mtranspose M = (\<lambda>i j. M j i)"

definition mneg :: "'a::uminus mat \<Rightarrow> 'a mat" where
  "mneg M = (\<lambda>i j. - M i j)"

definition madd :: "'a::plus mat \<Rightarrow> 'a mat \<Rightarrow> 'a mat" where
  "madd M N = (\<lambda>i j. M i j + N i j)"

definition msub :: "'a::minus mat \<Rightarrow> 'a mat \<Rightarrow> 'a mat" where
  "msub M N = (\<lambda>i j. M i j - N i j)"

definition vadd :: "'a::plus vec \<Rightarrow> 'a vec \<Rightarrow> 'a vec" where
  "vadd v w = (\<lambda>i. v i + w i)"

definition vsub :: "'a::minus vec \<Rightarrow> 'a vec \<Rightarrow> 'a vec" where
  "vsub v w = (\<lambda>i. v i - w i)"

definition vneg :: "'a::uminus vec \<Rightarrow> 'a vec" where
  "vneg v = (\<lambda>i. - v i)"

text \<open>\<^verbatim>\<open>M.block(r, c, h, w)\<close> read, assigned and incremented.\<close>

definition block :: "'a mat \<Rightarrow> nat \<Rightarrow> nat \<Rightarrow> nat \<Rightarrow> nat \<Rightarrow> 'a mat" where
  "block M r c h w = (\<lambda>i j. M (r + i) (c + j))"

definition set_block :: "'a mat \<Rightarrow> nat \<Rightarrow> nat \<Rightarrow> nat \<Rightarrow> nat \<Rightarrow> 'a mat \<Rightarrow> 'a mat" where
  "set_block M r c h w B =
     (\<lambda>i j. if r \<le> i \<and> i < r + h \<and> c \<le> j \<and> j < c + w then B (i - r) (j - c) else M i j)"

definition add_block :: "'a::plus mat \<Rightarrow> nat \<Rightarrow> nat \<Rightarrow> nat \<Rightarrow> nat \<Rightarrow> 'a mat \<Rightarrow> 'a mat" where
  "add_block M r c h w B =
     (\<lambda>i j. if r \<le> i \<and> i < r + h \<and> c \<le> j \<and> j < c + w then M i j + B (i - r) (j - c)
            else M i j)"

text \<open>The same for a segment of a vector (\<^verbatim>\<open>v.block(r, 0, h, 1)\<close>).\<close>

definition vblock :: "'a vec \<Rightarrow> nat \<Rightarrow> nat \<Rightarrow> 'a vec" where
  "vblock v r h = (\<lambda>i. v (r + i))"

definition set_vblock :: "'a vec \<Rightarrow> nat \<Rightarrow> nat \<Rightarrow> 'a vec \<Rightarrow> 'a vec" where
  "set_vblock v r h b = (\<lambda>i. if r \<le> i \<and> i < r + h then b (i - r) else v i)"

definition add_vblock :: "'a::plus vec \<Rightarrow> nat \<Rightarrow> nat \<Rightarrow> 'a vec \<Rightarrow> 'a vec" where
  "add_vblock v r h b = (\<lambda>i. if r \<le> i \<and> i < r + h then v i + b (i - r) else v i)"

definition sub_vblock :: "'a::minus vec \<Rightarrow> nat \<Rightarrow> nat \<Rightarrow> 'a vec \<Rightarrow> 'a vec" where
  "sub_vblock v r h b = (\<lambda>i. if r \<le> i \<and> i < r + h then v i - b (i - r) else v i)"

text \<open>Products, with the inner dimension \<open>n\<close>.\<close>

primrec dot :: "nat \<Rightarrow> 'a::{zero,plus,times} vec \<Rightarrow> 'a vec \<Rightarrow> 'a" where
  "dot 0 v w = 0"
| "dot (Suc n) v w = dot n v w + v n * w n"

definition mat_vec :: "nat \<Rightarrow> 'a::{zero,plus,times} mat \<Rightarrow> 'a vec \<Rightarrow> 'a vec" where
  "mat_vec n M v = (\<lambda>i. dot n (M i) v)"

definition mat_mat :: "nat \<Rightarrow> 'a::{zero,plus,times} mat \<Rightarrow> 'a mat \<Rightarrow> 'a mat" where
  "mat_mat n M N = (\<lambda>i j. dot n (M i) (\<lambda>l. N l j))"

section \<open>The solver's data (SystemSolver.hpp, gridStructures.hpp)\<close>

record Interval =
  x_l :: real
  x_u :: real

record 'a BoundaryConditions =
  LowerBound :: real
  UpperBound :: real
  isLBoundDirichlet :: bool
  isUBoundDirichlet :: bool
  g_D :: "real \<Rightarrow> real \<Rightarrow> 'a"
  g_N :: "real \<Rightarrow> real \<Rightarrow> 'a"

text \<open>
  A \<^verbatim>\<open>DGApprox\<close> does not own its coefficients: for every variable and cell it holds
  an \<^verbatim>\<open>Eigen::Map\<close> into an array, here the offset into the array and the length.
  \<open>dg_of\<close> reads all coefficients of such a field from the array it is bound to, as a
  table indexed by variable, cell and basis index.
\<close>

type_synonym view = "nat \<times> nat"
type_synonym Coeff_t = "(Interval \<times> view) list list"
type_synonym 'a dg = "nat \<Rightarrow> nat \<Rightarrow> 'a vec"

definition view_read :: "'a vec \<Rightarrow> view \<Rightarrow> 'a vec" where
  "view_read Y vw = (\<lambda>j. Y (fst vw + j))"

definition view_write :: "'a vec \<Rightarrow> view \<Rightarrow> 'a vec \<Rightarrow> 'a vec" where
  "view_write Y vw b = set_vblock Y (fst vw) (snd vw) b"

definition dg_of :: "'a vec \<Rightarrow> Coeff_t \<Rightarrow> 'a dg" where
  "dg_of Y cs = (\<lambda>var i. view_read Y (snd (cs ! var ! i)))"

text \<open>
  Modelled from the spec: the diffusion and source providers (DiffusionObj.hpp and
  SourceObj.hpp are not part of the sources). Per variable they give the functions
  \<open>\<kappa>\<close> and \<open>f\<close> of the position and the fields \<open>q\<close> and \<open>u\<close>, and per cell the
  Jacobian blocks of size \<open>nVar (k+1)\<close>.
\<close>

record 'a DiffusionObj =
  getKappaFunc :: "nat \<Rightarrow> real \<Rightarrow> 'a dg \<Rightarrow> 'a dg \<Rightarrow> 'a"
  NLqMat :: "'a dg \<Rightarrow> 'a dg \<Rightarrow> Interval \<Rightarrow> 'a mat"
  NLuMat :: "'a dg \<Rightarrow> 'a dg \<Rightarrow> Interval \<Rightarrow> 'a mat"

record 'a SourceObj =
  getSourceFunc :: "nat \<Rightarrow> real \<Rightarrow> 'a dg \<Rightarrow> 'a dg \<Rightarrow> 'a"
  setdFdqMat :: "'a dg \<Rightarrow> 'a dg \<Rightarrow> Interval \<Rightarrow> 'a mat"
  setdFduMat :: "'a dg \<Rightarrow> 'a dg \<Rightarrow> Interval \<Rightarrow> 'a mat"

text \<open>
  Modelled from the spec: the operations of \<^verbatim>\<open>DGApprox\<close> and \<^verbatim>\<open>LegendreBasis\<close>
  (gridStructures.hpp is not part of the sources) and the two Eigen operations that are
  not entry-wise, as parameters of the model: the basis function \<open>\<phi>\<^sub>j\<close> of a cell, the
  mass and derivative matrices without and with a weight, the quadrature
  \<^verbatim>\<open>CellProduct\<close>, the projection that \<^verbatim>\<open>operator=\<close> performs on one cell, the
  evaluation of a coefficient vector, the membership test of an interval,
  \<^verbatim>\<open>FullPivLU::solve\<close> for a square matrix of the given dimension, and \<^verbatim>\<open>norm\<close>.
\<close>

record 'a dg_ops =
  phi :: "Interval \<Rightarrow> nat \<Rightarrow> real \<Rightarrow> 'a"
  MassMatrix :: "Interval \<Rightarrow> 'a mat"
  MassMatrixW :: "Interval \<Rightarrow> (real \<Rightarrow> 'a) \<Rightarrow> 'a mat"
  DerivativeMatrix :: "Interval \<Rightarrow> 'a mat"
  DerivativeMatrixW :: "Interval \<Rightarrow> (real \<Rightarrow> 'a) \<Rightarrow> 'a mat"
  CellProduct :: "Interval \<Rightarrow> (real \<Rightarrow> 'a) \<Rightarrow> (real \<Rightarrow> 'a) \<Rightarrow> 'a"
  project :: "Interval \<Rightarrow> (real \<Rightarrow> 'a) \<Rightarrow> 'a vec"
  Evaluate :: "Interval \<Rightarrow> 'a vec \<Rightarrow> real \<Rightarrow> 'a"
  I_contains :: "Interval \<Rightarrow> real \<Rightarrow> bool"
  lu_solve :: "nat \<Rightarrow> 'a mat \<Rightarrow> 'a vec \<Rightarrow> 'a vec"
  vnorm :: "nat \<Rightarrow> 'a vec \<Rightarrow> 'a"

text \<open>
  The members of \<^verbatim>\<open>SystemSolver\<close> that the routines below read or write. \<open>kdeg\<close> is
  the member \<^verbatim>\<open>k\<close>, \<open>gridCells\<close> is \<^verbatim>\<open>grid.gridCells\<close>, \<open>sig_coeffs\<close> is
  \<^verbatim>\<open>sig.coeffs\<close> and so on, \<open>H_global\<close> is the matrix whose factorisation the member
  of that name holds, \<open>alpha_shift\<close> is \<^verbatim>\<open>alpha\<close> and \<open>testing\<close> is what
  \<^verbatim>\<open>isTesting()\<close> returns.
\<close>

record 'a SystemSolver =
  gridCells :: "Interval list"
  kdeg :: nat
  nCells :: nat
  nVar :: nat
  RHS :: "real \<Rightarrow> 'a"
  tau :: "real \<Rightarrow> 'a"
  c_fn :: "real \<Rightarrow> 'a"
  BCs :: "'a BoundaryConditions"
  diffObj :: "'a DiffusionObj"
  sourceObj :: "'a SourceObj"
  sig_coeffs :: Coeff_t
  q_coeffs :: Coeff_t
  u_coeffs :: Coeff_t
  dsigdt_coeffs :: Coeff_t
  dqdt_coeffs :: Coeff_t
  dudt_coeffs :: Coeff_t
  lambda :: "view option"
  dlamdt :: "view option"
  XMats :: "'a mat list"
  MBlocks :: "'a mat list"
  CEBlocks :: "'a mat list"
  CG_cellwise :: "'a mat list"
  RF_cellwise :: "'a vec list"
  A_cellwise :: "'a mat list"
  B_cellwise :: "'a mat list"
  D_cellwise :: "'a mat list"
  E_cellwise :: "'a mat list"
  C_cellwise :: "'a mat list"
  G_cellwise :: "'a mat list"
  H_cellwise :: "'a mat list"
  K_global :: "'a mat"
  L_global :: "'a vec"
  H_global :: "'a mat"
  H_global_mat :: "'a mat"
  initialised :: bool
  alpha_shift :: 'a
  total_steps :: "32 word"
  resNorm :: 'a
  testing :: bool

section \<open>Assembly (SystemSolver::initialiseMatrices, updateBoundaryConditions)\<close>

definition mset :: "'a mat \<Rightarrow> nat \<Rightarrow> nat \<Rightarrow> 'a \<Rightarrow> 'a mat" where
  "mset M i j x = M(i := (M i)(j := x))"

definition clearCellwiseVecs :: "'a SystemSolver \<Rightarrow> 'a SystemSolver" where
  "clearCellwiseVecs s =
     s\<lparr>XMats := [], MBlocks := [], CG_cellwise := [], RF_cellwise := [], A_cellwise := [],
       B_cellwise := [], E_cellwise := [], C_cellwise := [], G_cellwise := [],
       H_cellwise := []\<rparr>"

text \<open>
  \<^verbatim>\<open>Dvar\<close> of a cell: the weighted derivative matrix, multiplied by \<open>-1.0\<close> and
  transposed in place, then the boundary terms added entry by entry.
\<close>

definition Dvar_cell ::
  "'a::{one,uminus,plus,times} dg_ops \<Rightarrow> 'a SystemSolver \<Rightarrow> Interval \<Rightarrow> 'a mat" where
  "Dvar_cell ops s I =
     (let D0 = DerivativeMatrixW ops I (c_fn s);
          D1 = (\<lambda>i j. D0 i j * (- 1));
          D2 = mtranspose D1
      in forloop (kdeg s + 1) (\<lambda>i Dv.
           forloop (kdeg s + 1) (\<lambda>j Dv.
             mset Dv i j (Dv i j +
               (tau s (x_l I) * phi ops I j (x_l I) * phi ops I i (x_l I) +
                tau s (x_u I) * phi ops I j (x_u I) * phi ops I i (x_u I)))) Dv) D2)"

text \<open>The loop over the variables that places \<^verbatim>\<open>Avar\<close>, \<^verbatim>\<open>Dvar\<close> and \<^verbatim>\<open>Bvar\<close>
  on the diagonal of the zeroed \<^verbatim>\<open>A\<close>, \<^verbatim>\<open>D\<close> and \<^verbatim>\<open>B\<close>.\<close>

definition assemble_ABD ::
  "'a::{zero,one,uminus,plus,times} dg_ops \<Rightarrow> 'a SystemSolver \<Rightarrow> Interval
     \<Rightarrow> 'a mat \<times> 'a mat \<times> 'a mat" where
  "assemble_ABD ops s I =
     forloop (nVar s) (\<lambda>var (A, B, D).
       let Avar = MassMatrix ops I;
           Bvar = DerivativeMatrix ops I;
           Dvar = Dvar_cell ops s I;
           k1 = kdeg s + 1
       in (set_block A (var * k1) (var * k1) k1 k1 Avar,
           set_block B (var * k1) (var * k1) k1 k1 Bvar,
           set_block D (var * k1) (var * k1) k1 k1 Dvar))
     (mzero, mzero, mzero)"

text \<open>The matrix \<^verbatim>\<open>M\<close> of a cell as \<^verbatim>\<open>initialiseMatrices\<close> leaves it in
  \<^verbatim>\<open>MBlocks\<close>, block by block in the order of the source.\<close>

definition M_cell_init ::
  "'a::{zero,uminus} SystemSolver \<Rightarrow> 'a mat \<Rightarrow> 'a mat \<Rightarrow> 'a mat \<Rightarrow> 'a mat" where
  "M_cell_init s A B D =
     (let n = nVar s * (kdeg s + 1);
          M0 = mzero;
          M1 = set_block M0 0 0 n n mzero;
          M2 = set_block M1 0 n n n (mneg A);
          M3 = set_block M2 0 (2 * n) n n (mneg (mtranspose B));
          M4 = set_block M3 n 0 n n B;
          M5 = set_block M4 n n n n mzero;
          M6 = set_block M5 n (2 * n) n n D;
          M7 = set_block M6 (2 * n) 0 n n A;
          M8 = set_block M7 (2 * n) n n n mzero
      in set_block M8 (2 * n) (2 * n) n n mzero)"

text \<open>\<^verbatim>\<open>Cvar\<close> and \<^verbatim>\<open>Evar\<close> of a cell, filled index by index.\<close>

definition CEvar_cell ::
  "'a::{zero,uminus,minus,times} dg_ops \<Rightarrow> 'a SystemSolver \<Rightarrow> Interval \<Rightarrow> 'a mat \<times> 'a mat" where
  "CEvar_cell ops s I =
     forloop (kdeg s + 1) (\<lambda>i (Cvar, Evar).
       let Cv1 = mset Cvar 0 i (- phi ops I i (x_l I));
           Cv2 = mset Cv1 1 i (phi ops I i (x_u I));
           Ev1 = mset Evar i 0 (phi ops I i (x_l I) * (- c_fn s (x_l I) - tau s (x_l I)));
           Ev2 = mset Ev1 i 1 (phi ops I i (x_u I) * (c_fn s (x_u I) - tau s (x_u I)));
           (Cv3, Ev3) =
             (if x_l I = LowerBound (BCs s) \<and> isLBoundDirichlet (BCs s)
              then (mset Cv2 0 i 0, mset Ev2 i 0 0) else (Cv2, Ev2))
       in (if x_u I = UpperBound (BCs s) \<and> isUBoundDirichlet (BCs s)
           then (mset Cv3 1 i 0, mset Ev3 i 1 0) else (Cv3, Ev3)))
     (mzero, mzero)"

definition assemble_CE ::
  "'a::{zero,uminus,minus,times} dg_ops \<Rightarrow> 'a SystemSolver \<Rightarrow> Interval \<Rightarrow> 'a mat \<times> 'a mat
     \<Rightarrow> 'a mat \<times> 'a mat" where
  "assemble_CE ops s I CE =
     forloop (nVar s) (\<lambda>var (C, E).
       let (Cvar, Evar) = CEvar_cell ops s I;
           k1 = kdeg s + 1
       in (set_block C (var * 2) (var * k1) 2 k1 Cvar,
           set_block E (var * k1) (var * 2) k1 2 Evar)) CE"

definition CE_vec_cell :: "'a::zero SystemSolver \<Rightarrow> 'a mat \<Rightarrow> 'a mat \<Rightarrow> 'a mat" where
  "CE_vec_cell s C E =
     (let n = nVar s * (kdeg s + 1);
          CE0 = mzero;
          CE1 = set_block CE0 0 0 n (nVar s * 2) (mtranspose C);
          CE2 = set_block CE1 n 0 n (nVar s * 2) E
      in set_block CE2 (2 * n) 0 n (nVar s * 2) mzero)"

text \<open>
  The boundary forcing of a cell at time \<open>t\<close>: the vector is zeroed, its lower half
  receives the projected forcing, and each global Dirichlet end adds its terms. The
  statements are the same in \<^verbatim>\<open>initialiseMatrices\<close> (with \<open>t = 0.0\<close>) and in
  \<^verbatim>\<open>updateBoundaryConditions\<close>. The first loop at the upper end indexes the basis by
  \<^verbatim>\<open>j%k+1\<close>, that is \<open>(j mod k) + 1\<close>; for \<open>k = 0\<close> its first iteration takes a
  remainder by zero.
\<close>

definition boundary_RF ::
  "'a::{zero,one,uminus,minus,plus,times} dg_ops \<Rightarrow> 'a SystemSolver \<Rightarrow> Interval \<Rightarrow> real
     \<Rightarrow> error + 'a vec" where
  "boundary_RF ops s I t =
     (let n = nVar s * (kdeg s + 1);
          k1 = kdeg s + 1;
          rf0 = vzero;
          rf1 = forloop n (\<lambda>j rf.
                  rf(n + j := CellProduct ops I (RHS s) (phi ops I (j mod k1)))) rf0;
          rf2 = (if x_l I = LowerBound (BCs s) \<and> isLBoundDirichlet (BCs s)
                 then forloop n (\<lambda>j rf.
                        let rf' = rf(j := (- phi ops I (j mod k1) (x_l I)) * (- 1)
                                            * g_D (BCs s) (x_l I) t)
                        in rf'(n + j := rf' (n + j)
                              - phi ops I (j mod k1) (x_l I)
                                * (- c_fn s (x_l I) - tau s (x_l I)) * g_D (BCs s) (x_l I) t)) rf1
                 else rf1)
      in if x_u I = UpperBound (BCs s) \<and> isUBoundDirichlet (BCs s)
         then if kdeg s = 0 \<and> 0 < n then Inl DivisionByZero
              else Inr (forloop n (\<lambda>j rf.
                     let rf' = rf(j := rf j + (- phi ops I (j mod kdeg s + 1) (x_u I)) * 1
                                                * g_D (BCs s) (x_u I) t)
                     in rf'(n + j := rf' (n + j)
                           - phi ops I (j mod k1) (x_u I)
                             * (c_fn s (x_u I) - tau s (x_u I)) * g_D (BCs s) (x_u I) t)) rf2)
         else Inr rf2)"

text \<open>The Neumann entries of \<^verbatim>\<open>L_global\<close> that cell \<open>i\<close> adds, variable by variable.\<close>

definition boundary_L ::
  "'a::plus SystemSolver \<Rightarrow> Interval \<Rightarrow> nat \<Rightarrow> real \<Rightarrow> 'a vec \<Rightarrow> 'a vec" where
  "boundary_L s I i t L =
     forloop (nVar s) (\<lambda>var L.
       let L1 = (if x_l I = LowerBound (BCs s) \<and> \<not> isLBoundDirichlet (BCs s)
                 then L(var * (nCells s + 1) + i :=
                        L (var * (nCells s + 1) + i) + g_N (BCs s) (LowerBound (BCs s)) t)
                 else L)
       in (if x_u I = UpperBound (BCs s) \<and> \<not> isUBoundDirichlet (BCs s)
           then L1(var * (nCells s + 1) + i + 1 :=
                  L1 (var * (nCells s + 1) + i + 1) + g_N (BCs s) (UpperBound (BCs s)) t)
           else L1)) L"

definition Gvar_cell ::
  "'a::{zero,times} dg_ops \<Rightarrow> 'a SystemSolver \<Rightarrow> Interval \<Rightarrow> 'a mat" where
  "Gvar_cell ops s I =
     forloop (kdeg s + 1) (\<lambda>i Gvar.
       let G1 = mset Gvar 0 i (tau s (x_l I) * phi ops I i (x_l I));
           G2 = (if x_l I = LowerBound (BCs s) \<and> isLBoundDirichlet (BCs s)
                 then mset G1 0 i 0 else G1);
           G3 = mset G2 1 i (tau s (x_u I) * phi ops I i (x_u I))
       in (if x_u I = UpperBound (BCs s) \<and> isUBoundDirichlet (BCs s)
           then mset G3 1 i 0 else G3)) mzero"

definition assemble_G ::
  "'a::{zero,times} dg_ops \<Rightarrow> 'a SystemSolver \<Rightarrow> Interval \<Rightarrow> 'a mat" where
  "assemble_G ops s I =
     forloop (nVar s) (\<lambda>var G.
       set_block G (2 * var) ((kdeg s + 1) * var) 2 (kdeg s + 1) (Gvar_cell ops s I)) mzero"

definition CG_cell :: "'a::zero SystemSolver \<Rightarrow> 'a mat \<Rightarrow> 'a mat \<Rightarrow> 'a mat" where
  "CG_cell s C G =
     (let n = nVar s * (kdeg s + 1);
          CG0 = mzero;
          CG1 = set_block CG0 0 0 (2 * nVar s) n C;
          CG2 = set_block CG1 0 n (2 * nVar s) n mzero
      in set_block CG2 0 (2 * n) (2 * nVar s) n G)"

definition Hvar_cell :: "'a::{zero,uminus,minus} SystemSolver \<Rightarrow> Interval \<Rightarrow> 'a mat" where
  "Hvar_cell s I =
     (let H0 = mzero;
          H1 = mset H0 0 0 (- c_fn s (x_l I) - tau s (x_l I));
          H2 = mset H1 1 0 0;
          H3 = mset H2 0 1 0;
          H4 = mset H3 1 1 (c_fn s (x_u I) - tau s (x_u I));
          H5 = (if x_l I = LowerBound (BCs s) \<and> isLBoundDirichlet (BCs s)
                then mset (mset (mset H4 0 1 0) 1 0 0) 0 0 0 else H4)
      in (if x_u I = UpperBound (BCs s) \<and> isUBoundDirichlet (BCs s)
          then mset (mset (mset H5 0 1 0) 1 0 0) 1 1 0 else H5))"

text \<open>The loop that places \<^verbatim>\<open>Hvar\<close> in \<^verbatim>\<open>H\<close> and adds it to \<^verbatim>\<open>HGlobalMat\<close>.\<close>

definition assemble_H ::
  "'a::{zero,uminus,minus,plus} SystemSolver \<Rightarrow> Interval \<Rightarrow> nat \<Rightarrow> 'a mat \<Rightarrow> 'a mat \<times> 'a mat" where
  "assemble_H s I i HGlobalMat =
     forloop (nVar s) (\<lambda>var (H, HG).
       let Hvar = Hvar_cell s I
       in (set_block H (2 * var) (2 * var) 2 2 Hvar,
           add_block HG (var * (nCells s + 1) + i) (var * (nCells s + 1) + i) 2 2 Hvar))
     (mzero, HGlobalMat)"

definition assemble_X :: "'a::zero dg_ops \<Rightarrow> 'a SystemSolver \<Rightarrow> Interval \<Rightarrow> 'a mat" where
  "assemble_X ops s I =
     forloop (nVar s) (\<lambda>var X.
       set_block X (var * (kdeg s + 1)) (var * (kdeg s + 1)) (kdeg s + 1) (kdeg s + 1)
         (MassMatrix ops I)) mzero"

text \<open>
  One iteration of the loop over the cells. The locals \<^verbatim>\<open>C\<close> and \<^verbatim>\<open>E\<close> are
  declared before the loop and never zeroed, so what the loop over the variables does not
  assign keeps the content they had; \<^verbatim>\<open>HGlobalMat\<close> accumulates.
\<close>

definition initialiseCell ::
  "'a::{zero,one,uminus,minus,plus,times} dg_ops \<Rightarrow> nat
     \<Rightarrow> 'a mat \<times> 'a mat \<times> 'a mat \<times> 'a SystemSolver
     \<Rightarrow> error + 'a mat \<times> 'a mat \<times> 'a mat \<times> 'a SystemSolver" where
  "initialiseCell ops i st =
     (case st of (C0, E0, HG0, s) \<Rightarrow>
      let I = gridCells s ! i;
          (A, B, D) = assemble_ABD ops s I;
          M = M_cell_init s A B D;
          (C, E) = assemble_CE ops s I (C0, E0);
          CE_vec = CE_vec_cell s C E
      in case boundary_RF ops s I 0 of
           Inl e \<Rightarrow> Inl e
         | Inr rf \<Rightarrow>
             let G = assemble_G ops s I;
                 (H, HG) = assemble_H s I i HG0;
                 L = boundary_L s I i 0 (L_global s);
                 X = assemble_X ops s I
             in Inr (C, E, HG,
                  s\<lparr>A_cellwise := A_cellwise s @ [A],
                    B_cellwise := B_cellwise s @ [B],
                    D_cellwise := D_cellwise s @ [D],
                    MBlocks := MBlocks s @ [M],
                    CEBlocks := CEBlocks s @ [CE_vec],
                    C_cellwise := C_cellwise s @ [C],
                    E_cellwise := E_cellwise s @ [E],
                    RF_cellwise := (RF_cellwise s @ [vzero])[i := rf],
                    CG_cellwise := (CG_cellwise s @ [mzero])[i := CG_cell s C G],
                    G_cellwise := G_cellwise s @ [G],
                    H_cellwise := H_cellwise s @ [H],
                    L_global := L,
                    XMats := XMats s @ [X]\<rparr>))"

text \<open>
  \<^verbatim>\<open>initialiseMatrices\<close>. \<open>C0\<close> and \<open>E0\<close> stand for the indeterminate content of
  the uninitialised locals \<^verbatim>\<open>C\<close> and \<^verbatim>\<open>E\<close>. A grid with fewer cells than
  \<^verbatim>\<open>nCells\<close> would be indexed beyond its end.
\<close>

definition initialiseMatrices ::
  "'a::{zero,one,uminus,minus,plus,times} dg_ops \<Rightarrow> 'a mat \<Rightarrow> 'a mat \<Rightarrow> 'a SystemSolver
     \<Rightarrow> error + 'a SystemSolver" where
  "initialiseMatrices ops C0 E0 s =
     (if length (gridCells s) < nCells s then Inl IndexOutOfRange
      else
        case forloopE (nCells s) (initialiseCell ops)
               (C0, E0, mzero, clearCellwiseVecs (s\<lparr>K_global := mzero, L_global := vzero\<rparr>)) of
          Inl e \<Rightarrow> Inl e
        | Inr (C, E, HGlobalMat, s') \<Rightarrow>
            Inr (s'\<lparr>H_global := HGlobalMat, H_global_mat := HGlobalMat, initialised := True\<rparr>))"

text \<open>
  \<^verbatim>\<open>updateBoundaryConditions\<close>: \<^verbatim>\<open>L_global\<close> is zeroed, then every cell zeroes and
  refills its entry of \<^verbatim>\<open>RF_cellwise\<close> and adds to \<^verbatim>\<open>L_global\<close>
  (\<open>updateBoundaryCell\<close> is the body of the loop over the cells). The entries
  \<^verbatim>\<open>RF_cellwise[i]\<close> must exist.
\<close>

definition updateBoundaryCell ::
  "'a::{zero,one,uminus,minus,plus,times} dg_ops \<Rightarrow> real \<Rightarrow> nat \<Rightarrow> 'a SystemSolver
     \<Rightarrow> error + 'a SystemSolver" where
  "updateBoundaryCell ops t i s =
     (let I = gridCells s ! i
      in case boundary_RF ops s I t of
           Inl e \<Rightarrow> Inl e
         | Inr rf \<Rightarrow>
             Inr (s\<lparr>RF_cellwise := (RF_cellwise s)[i := rf],
                    L_global := boundary_L s I i t (L_global s)\<rparr>))"

definition updateBoundaryConditions ::
  "'a::{zero,one,uminus,minus,plus,times} dg_ops \<Rightarrow> real \<Rightarrow> 'a SystemSolver
     \<Rightarrow> error + 'a SystemSolver" where
  "updateBoundaryConditions ops t s =
     (if length (gridCells s) < nCells s \<or> length (RF_cellwise s) < nCells s
      then Inl IndexOutOfRange
      else forloopE (nCells s) (updateBoundaryCell ops t) (s\<lparr>L_global := vzero\<rparr>))"

section \<open>Binding fields to a state vector (SystemSolver::mapDGtoSundials)\<close>

text \<open>
  A SUNDIALS serial vector: its array and its length.
\<close>

record 'a N_Vector =
  N_VGetArrayPointer :: "'a vec"
  N_VGetLength :: nat

text \<open>
  The offsets are computed in \<^verbatim>\<open>unsigned int\<close> arithmetic, whose result is the
  mathematical value modulo \<open>2\<^sup>3\<^sup>2\<close>.
\<close>

definition u32 :: "nat \<Rightarrow> nat" where
  "u32 n = n mod 2 ^ 32"

text \<open>
  The overload for \<open>\<sigma>\<close>, \<open>q\<close>, \<open>u\<close> and \<open>\<lambda>\<close>. The views are pushed behind the ones the
  three fields already hold; \<open>lam\<close> is bound anew in every iteration of the loop over the
  variables.
\<close>

definition mapDGtoSundials ::
  "'a SystemSolver \<Rightarrow> Coeff_t \<times> Coeff_t \<times> Coeff_t \<times> view \<Rightarrow> Coeff_t \<times> Coeff_t \<times> Coeff_t \<times> view" where
  "mapDGtoSundials s st =
     forloop (nVar s) (\<lambda>var (sigma, q, u, lam).
       let (cellSigCoeffs, cellQCoeffs, cellUCoeffs) =
             forloop (nCells s) (\<lambda>i (cs, cq, cu).
               (cs @ [(gridCells s ! i,
                       (u32 (var * (kdeg s + 1) + i * 3 * nVar s * (kdeg s + 1)), kdeg s + 1))],
                cq @ [(gridCells s ! i,
                       (u32 (nVar s * (kdeg s + 1) + var * (kdeg s + 1)
                             + i * 3 * nVar s * (kdeg s + 1)), kdeg s + 1))],
                cu @ [(gridCells s ! i,
                       (u32 (2 * nVar s * (kdeg s + 1) + var * (kdeg s + 1)
                             + i * 3 * nVar s * (kdeg s + 1)), kdeg s + 1))]))
             ([], [], [])
       in (sigma @ [cellSigCoeffs], q @ [cellQCoeffs], u @ [cellUCoeffs],
           (u32 (nVar s * nCells s * (3 * kdeg s + 3)), nVar s * (nCells s + 1)))) st"

text \<open>The overload that binds \<open>u\<close> alone.\<close>

definition mapDGtoSundials_u :: "'a SystemSolver \<Rightarrow> Coeff_t \<Rightarrow> Coeff_t" where
  "mapDGtoSundials_u s u0 =
     forloop (nVar s) (\<lambda>var u.
       u @ [forloop (nCells s) (\<lambda>i cu.
              cu @ [(gridCells s ! i,
                     (u32 (2 * nVar s * (kdeg s + 1) + var * (kdeg s + 1)
                           + i * 3 * nVar s * (kdeg s + 1)), kdeg s + 1))]) []]) u0"

text \<open>The overload that binds one view per cell, and \<open>\<lambda>\<close>.\<close>

definition mapDGtoSundials_cells :: "'a SystemSolver \<Rightarrow> view list \<times> view" where
  "mapDGtoSundials_cells s =
     (forloop (nCells s) (\<lambda>i SQU_cell.
        SQU_cell @ [(u32 (i * 3 * nVar s * (kdeg s + 1)), nVar s * 3 * (kdeg s + 1))]) [],
      (u32 (nVar s * nCells s * (3 * kdeg s + 3)), nVar s * (nCells s + 1)))"

text \<open>The length \<^verbatim>\<open>runSolver\<close> allocates for the state vector.\<close>

definition state_length :: "'a SystemSolver \<Rightarrow> nat" where
  "state_length s = nVar s * 3 * nCells s * (kdeg s + 1) + nVar s * (nCells s + 1)"

section \<open>The residual (SystemSolver.cpp, residual)\<close>

text \<open>
  The loop that gathers \<^verbatim>\<open>CsGuL_global\<close>, the right-hand side of the trace equation,
  from the coefficient tables of \<open>\<sigma>\<close> and \<open>u\<close>. \<^verbatim>\<open>setInitialConditions\<close> and
  \<^verbatim>\<open>residual\<close> contain the same statements.
\<close>

definition CsGuL_global_loop ::
  "'a::{zero,plus,minus,times} SystemSolver \<Rightarrow> 'a dg \<Rightarrow> 'a dg \<Rightarrow> 'a vec" where
  "CsGuL_global_loop s sigd ud =
     forloop (nCells s) (\<lambda>i CsGuL.
       forloop (nVar s) (\<lambda>var CsGuL.
         let k1 = kdeg s + 1;
             LVarCell = vblock (L_global s) (var * (nCells s + 1) + i) 2;
             CsGuLVarCell =
               vsub (vsub LVarCell
                       (mat_vec k1 (block (C_cellwise s ! i) (var * 2) (var * k1) 2 k1) (sigd var i)))
                    (mat_vec k1 (block (G_cellwise s ! i) (var * 2) (var * k1) 2 k1) (ud var i))
         in add_vblock CsGuL (var * (nCells s + 1) + i) 2 CsGuLVarCell) CsGuL) vzero"

text \<open>
  What \<^verbatim>\<open>print\<close> writes for one time: the time of the header line and one row per
  output point, with the position and the three evaluated fields. \<^verbatim>\<open>EvalCoeffs\<close>
  returns a not-a-number when no cell contains the point (\<open>None\<close>); it indexes the
  coefficients by the variable.
\<close>

type_synonym 'a plot_frame = "real \<times> (real \<times> 'a option list) list"

definition EvalCoeffs :: "'a dg_ops \<Rightarrow> 'a vec \<Rightarrow> Coeff_t \<Rightarrow> real \<Rightarrow> nat \<Rightarrow> 'a option" where
  "EvalCoeffs ops Y cs x var =
     (case find (\<lambda>pair. I_contains ops (fst pair) x) (cs ! var) of
        Some pair \<Rightarrow> Some (Evaluate ops (fst pair) (view_read Y (snd pair)) x)
      | None \<Rightarrow> None)"

definition print_Y ::
  "'a dg_ops \<Rightarrow> 'a SystemSolver \<Rightarrow> real \<Rightarrow> nat \<Rightarrow> nat \<Rightarrow> 'a vec \<Rightarrow> 'a plot_frame" where
  "print_Y ops s t nOut var tempY =
     (let (Sig, Q, U, Lambda) = mapDGtoSundials s ([], [], [], (0, nVar s * (nCells s + 1)))
      in (t, map (\<lambda>i.
                let x = LowerBound (BCs s)
                        + (UpperBound (BCs s) - LowerBound (BCs s)) * (real i / real nOut)
                in (x, [EvalCoeffs ops tempY U x var, EvalCoeffs ops tempY Q x var,
                        EvalCoeffs ops tempY Sig x var])) [0 ..< nOut]))"

text \<open>
  The loop over the cells and variables that fills the first three blocks of the
  residual. \<open>Yv\<close>, \<open>dydt\<close> and \<open>res\<close> are the arrays of the three vectors.
\<close>

definition residual_cells ::
  "'a::{zero,uminus,minus,plus,times} dg_ops \<Rightarrow> 'a SystemSolver
     \<Rightarrow> Coeff_t \<times> Coeff_t \<times> Coeff_t \<times> view \<Rightarrow> Coeff_t \<Rightarrow> Coeff_t \<times> Coeff_t \<times> Coeff_t \<times> view
     \<Rightarrow> 'a vec \<Rightarrow> 'a vec \<Rightarrow> 'a vec \<Rightarrow> 'a vec" where
  "residual_cells ops s temps tempdudt ress Yv dydt res0 =
     (case temps of (tempSig, tempQ, tempU, tempLambda) \<Rightarrow>
      case ress of (res1, res2, res3, res4) \<Rightarrow>
      forloop (nCells s) (\<lambda>i res.
        let I = gridCells s ! i;
            k1 = kdeg s + 1;
            lamCell = forloop (nVar s) (\<lambda>var lc.
                        (lc(2 * var := view_read Yv tempLambda (var * (nCells s + 1) + i)))
                          (2 * var + 1 := view_read Yv tempLambda (var * (nCells s + 1) + i + 1)))
                      vzero
        in forloop (nVar s) (\<lambda>var res.
             let kappaFunc = (\<lambda>x. getKappaFunc (diffObj s) var x (dg_of Yv tempQ) (dg_of Yv tempU));
                 sourceFunc = (\<lambda>x. getSourceFunc (sourceObj s) var x (dg_of Yv tempQ) (dg_of Yv tempU));
                 kappa_cellwise = forloop k1 (\<lambda>j kc.
                     kc(j := CellProduct ops I kappaFunc (phi ops I j))) vzero;
                 F_cellwise = forloop k1 (\<lambda>j Fc.
                     Fc(j := CellProduct ops I sourceFunc (phi ops I (j mod k1)))) vzero;
                 sigv = dg_of Yv tempSig var i;
                 qv = dg_of Yv tempQ var i;
                 uv = dg_of Yv tempU var i;
                 r1 = vsub (vadd (vsub
                        (mat_vec k1 (mneg (block (A_cellwise s ! i) (var * k1) (var * k1) k1 k1)) qv)
                        (mat_vec k1 (block (mtranspose (B_cellwise s ! i)) (var * k1) (var * k1) k1 k1) uv))
                        (mat_vec 2 (block (mtranspose (C_cellwise s ! i)) (var * k1) (var * 2) k1 2)
                           (vblock lamCell (var * 2) 2)))
                        (vblock (RF_cellwise s ! i) (var * k1) k1);
                 resA = view_write res (snd (res1 ! var ! i)) r1;
                 r2 = vadd (vsub (vadd (vadd
                        (mat_vec k1 (block (B_cellwise s ! i) (var * k1) (var * k1) k1 k1) sigv)
                        (mat_vec k1 (block (D_cellwise s ! i) (var * k1) (var * k1) k1 k1) uv))
                        (mat_vec 2 (block (E_cellwise s ! i) (var * k1) (var * 2) k1 2)
                           (vblock lamCell (var * 2) 2)))
                        (vblock (RF_cellwise s ! i) (nVar s * k1 + var * k1) k1))
                        (dg_of dydt tempdudt var i);
                 resB = view_write resA (snd (res2 ! var ! i)) r2;
                 resC = view_write resB (snd (res2 ! var ! i))
                          (vadd (view_read resB (snd (res2 ! var ! i))) F_cellwise)
             in view_write resC (snd (res3 ! var ! i)) (vadd sigv kappa_cellwise)) res) res0)"

text \<open>
  The cell-wise vectors the residual indexes must hold an entry per cell, the three
  vectors must have the length of the state, and \<^verbatim>\<open>print\<close> reads the coefficients
  of variable 0.
\<close>

definition residual_in_range ::
  "'a SystemSolver \<Rightarrow> 'a N_Vector \<Rightarrow> 'a N_Vector \<Rightarrow> 'a N_Vector \<Rightarrow> bool" where
  "residual_in_range s Y dydt resval =
     (nCells s \<le> length (A_cellwise s) \<and> nCells s \<le> length (B_cellwise s) \<and>
      nCells s \<le> length (C_cellwise s) \<and> nCells s \<le> length (D_cellwise s) \<and>
      nCells s \<le> length (E_cellwise s) \<and> nCells s \<le> length (G_cellwise s) \<and>
      state_length s \<le> N_VGetLength Y \<and> state_length s \<le> N_VGetLength dydt \<and>
      state_length s \<le> N_VGetLength resval \<and> 0 < nVar s)"

text \<open>
  The values that \<^verbatim>\<open>residual\<close> leaves in the array of \<^verbatim>\<open>resval\<close>: the fields are
  bound to the three arrays, the residual array is zeroed, the trace block is written
  (\<^verbatim>\<open>res4 = -tempLambda + lam\<close>), then the loop over the cells writes the other three
  blocks.
\<close>

definition residual_values ::
  "'a::{zero,uminus,minus,plus,times} dg_ops \<Rightarrow> 'a SystemSolver
     \<Rightarrow> 'a N_Vector \<Rightarrow> 'a N_Vector \<Rightarrow> 'a N_Vector \<Rightarrow> 'a vec" where
  "residual_values ops s Y dydt resval =
     (let memBlock = (0, nVar s * (nCells s + 1));
          Yv = N_VGetArrayPointer Y;
          temps = mapDGtoSundials s ([], [], [], memBlock);
          tempdudt = mapDGtoSundials_u s [];
          ress = mapDGtoSundials s ([], [], [], memBlock);
          resVec = (\<lambda>a. if a < N_VGetLength resval then 0 else N_VGetArrayPointer resval a);
          CsGuL_global =
            CsGuL_global_loop s (dg_of Yv (fst temps)) (dg_of Yv (fst (snd (snd temps))));
          lam = lu_solve ops (nVar s * (nCells s + 1)) (H_global s) CsGuL_global;
          tempLambda = snd (snd (snd temps));
          res4 = snd (snd (snd ress));
          resL = view_write resVec res4 (vadd (vneg (view_read Yv tempLambda)) lam)
      in residual_cells ops s temps tempdudt ress Yv (N_VGetArrayPointer dydt) resL)"

text \<open>
  \<^verbatim>\<open>residual\<close>. Besides the residual vector it returns the solver, the files and the
  value of its \<^verbatim>\<open>return\<close> statement: after the values are computed it writes one
  frame of 200 rows to the file \<^verbatim>\<open>trial.plot\<close>, which it opens anew, increments
  \<^verbatim>\<open>total_steps\<close> and, when testing, stores the norm of the residual. The output to
  \<^verbatim>\<open>std::cerr\<close> is not modelled.
\<close>

definition residual ::
  "'a::{zero,one,uminus,minus,plus,times} dg_ops \<Rightarrow> 'a SystemSolver
     \<Rightarrow> (string \<Rightarrow> 'a plot_frame list option)
     \<Rightarrow> real \<Rightarrow> 'a N_Vector \<Rightarrow> 'a N_Vector \<Rightarrow> 'a N_Vector
     \<Rightarrow> error + 'a N_Vector \<times> 'a SystemSolver \<times> (string \<Rightarrow> 'a plot_frame list option) \<times> int" where
  "residual ops system files tres Y dydt resval =
     (case updateBoundaryConditions ops tres system of
        Inl e \<Rightarrow> Inl e
      | Inr s \<Rightarrow>
          if \<not> residual_in_range s Y dydt resval then Inl IndexOutOfRange
          else
            let resF = residual_values ops s Y dydt resval;
                files' = files(''trial.plot'' \<mapsto> [print_Y ops s 0 200 0 (N_VGetArrayPointer dydt)]);
                s1 = s\<lparr>total_steps := total_steps s + 1\<rparr>;
                s2 = (if testing s1 then s1\<lparr>resNorm := vnorm ops (N_VGetLength resval) resF\<rparr>
                      else s1)
            in Inr (resval\<lparr>N_VGetArrayPointer := resF\<rparr>, s2, files', 0))"

section \<open>Initial conditions (SystemSolver::setInitialConditions)\<close>

text \<open>
  Modelled from the spec: \<^verbatim>\<open>DGApprox::zeroCoeffs\<close> zeroes every coefficient the field
  is bound to, and the assignment of a function to a \<^verbatim>\<open>DGApprox\<close> stores, for every
  variable and cell, the projection of the function onto the basis of the cell.
\<close>

definition zeroCoeffs :: "'a::zero vec \<Rightarrow> Coeff_t \<Rightarrow> 'a vec" where
  "zeroCoeffs Y cs = fold (\<lambda>pair Y. view_write Y (snd pair) vzero) (concat cs) Y"

definition assign_fn :: "'a dg_ops \<Rightarrow> 'a vec \<Rightarrow> Coeff_t \<Rightarrow> (real \<Rightarrow> 'a) \<Rightarrow> 'a vec" where
  "assign_fn ops Y cs f =
     fold (\<lambda>pair Y. view_write Y (snd pair) (project ops (fst pair) f)) (concat cs) Y"

text \<open>
  The loop that sets the initial \<open>\<partial>\<^sub>t u\<close>. The source function is called with the field
  \<open>q\<close> in both field arguments.
\<close>

definition initial_dudt ::
  "'a::{zero,uminus,minus,plus,times} dg_ops \<Rightarrow> 'a SystemSolver \<Rightarrow> view \<Rightarrow> 'a vec \<Rightarrow> 'a vec
     \<Rightarrow> 'a vec" where
  "initial_dudt ops s lam Yv dYdt0 =
     forloop (nVar s) (\<lambda>var dYdt.
       forloop (nCells s) (\<lambda>i dYdt.
         let I = gridCells s ! i;
             k1 = kdeg s + 1;
             sourceFunc = (\<lambda>x. getSourceFunc (sourceObj s) var x
                                  (dg_of Yv (q_coeffs s)) (dg_of Yv (q_coeffs s)));
             F_cellwise = forloop k1 (\<lambda>j Fc.
                 Fc(j := CellProduct ops I sourceFunc (phi ops I j))) vzero;
             lamCell = (vzero(0 := view_read Yv lam (var * (nCells s + 1) + i)))
                         (1 := view_read Yv lam (var * (nCells s + 1) + i + 1));
             d = vsub (vadd (vsub (vsub
                   (mat_vec k1 (mneg (block (B_cellwise s ! i) (var * k1) (var * k1) k1 k1))
                      (dg_of Yv (sig_coeffs s) var i))
                   (mat_vec k1 (block (D_cellwise s ! i) (var * k1) (var * k1) k1 k1)
                      (dg_of Yv (u_coeffs s) var i)))
                   (mat_vec 2 (block (E_cellwise s ! i) (var * k1) (var * 2) k1 2) lamCell))
                   (vblock (RF_cellwise s ! i) (nVar s * k1 + var * k1) k1))
                   F_cellwise
         in view_write dYdt (snd (dudt_coeffs s ! var ! i)) d) dYdt) dYdt0"

definition initial_in_range :: "'a SystemSolver \<Rightarrow> 'a N_Vector \<Rightarrow> 'a N_Vector \<Rightarrow> bool" where
  "initial_in_range s Y dYdt =
     (nCells s \<le> length (gridCells s) \<and>
      nCells s \<le> length (B_cellwise s) \<and> nCells s \<le> length (C_cellwise s) \<and>
      nCells s \<le> length (D_cellwise s) \<and> nCells s \<le> length (E_cellwise s) \<and>
      nCells s \<le> length (G_cellwise s) \<and> nCells s \<le> length (RF_cellwise s) \<and>
      state_length s \<le> N_VGetLength Y \<and> state_length s \<le> N_VGetLength dYdt)"

text \<open>
  The binding of the six fields and the two trace vectors to the arrays of \<^verbatim>\<open>Y\<close> and
  \<^verbatim>\<open>dYdt\<close> at the start of \<^verbatim>\<open>setInitialConditions\<close>: a trace vector without a
  value is first bound to a local block.
\<close>

definition bind_fields :: "'a SystemSolver \<Rightarrow> 'a SystemSolver" where
  "bind_fields s0 =
     (let memBlock = (0, nVar s0 * (nCells s0 + 1));
          lambda0 = (case lambda s0 of None \<Rightarrow> memBlock | Some l \<Rightarrow> l);
          dlamdt0 = (case dlamdt s0 of None \<Rightarrow> memBlock | Some l \<Rightarrow> l);
          (sig1, q1, u1, lambda1) =
             mapDGtoSundials s0 (sig_coeffs s0, q_coeffs s0, u_coeffs s0, lambda0);
          (dsigdt1, dqdt1, dudt1, dlamdt1) =
             mapDGtoSundials s0 (dsigdt_coeffs s0, dqdt_coeffs s0, dudt_coeffs s0, dlamdt0)
      in s0\<lparr>sig_coeffs := sig1, q_coeffs := q1, u_coeffs := u1,
             dsigdt_coeffs := dsigdt1, dqdt_coeffs := dqdt1, dudt_coeffs := dudt1,
             lambda := Some lambda1, dlamdt := Some dlamdt1\<rparr>)"

text \<open>
  What \<^verbatim>\<open>setInitialConditions\<close> leaves in the array of \<^verbatim>\<open>Y\<close>: the coefficients
  are zeroed (\<^verbatim>\<open>resetCoeffs\<close>), \<open>u\<close>, \<open>q\<close> and \<open>\<sigma>\<close> are assigned the projections of the
  three functions, and \<open>\<lambda>\<close> is assigned the solution of the trace system.
\<close>

definition initial_Y ::
  "'a::{zero,minus,plus,times} dg_ops \<Rightarrow> 'a SystemSolver \<Rightarrow> 'a vec
     \<Rightarrow> (real \<Rightarrow> 'a) \<Rightarrow> (real \<Rightarrow> 'a) \<Rightarrow> (real \<Rightarrow> 'a) \<Rightarrow> 'a vec" where
  "initial_Y ops s Y0 u_0 gradu_0 sigma_0 =
     (let Ya = view_write (zeroCoeffs (zeroCoeffs (zeroCoeffs Y0 (sig_coeffs s)) (q_coeffs s))
                 (u_coeffs s)) (the (lambda s)) vzero;
          Yb = assign_fn ops (assign_fn ops (assign_fn ops Ya (u_coeffs s) u_0)
                 (q_coeffs s) gradu_0) (sig_coeffs s) sigma_0;
          CsGuL_global = CsGuL_global_loop s (dg_of Yb (sig_coeffs s)) (dg_of Yb (u_coeffs s))
      in view_write Yb (the (lambda s))
           (lu_solve ops (nVar s * (nCells s + 1)) (H_global s) CsGuL_global))"

text \<open>
  What it leaves in the array of \<^verbatim>\<open>dYdt\<close>: the coefficients are zeroed, then the loop
  above sets \<open>\<partial>\<^sub>t u\<close>.
\<close>

definition initial_dYdt ::
  "'a::{zero,uminus,minus,plus,times} dg_ops \<Rightarrow> 'a SystemSolver \<Rightarrow> 'a vec \<Rightarrow> 'a vec \<Rightarrow> 'a vec" where
  "initial_dYdt ops s Yc dYdt0 =
     (let Da = view_write (zeroCoeffs (zeroCoeffs (zeroCoeffs dYdt0 (dsigdt_coeffs s))
                 (dqdt_coeffs s)) (dudt_coeffs s)) (the (dlamdt s)) vzero
      in initial_dudt ops s (the (lambda s)) Yc Da)"

text \<open>
  \<^verbatim>\<open>setInitialConditions\<close> with the three initial functions. It returns the two
  vectors and the solver, whose fields are now bound to them.
\<close>

definition setInitialConditions ::
  "'a::{zero,one,uminus,minus,plus,times} dg_ops \<Rightarrow> 'a mat \<Rightarrow> 'a mat \<Rightarrow> 'a SystemSolver
     \<Rightarrow> (real \<Rightarrow> 'a) \<Rightarrow> (real \<Rightarrow> 'a) \<Rightarrow> (real \<Rightarrow> 'a) \<Rightarrow> 'a N_Vector \<Rightarrow> 'a N_Vector
     \<Rightarrow> error + 'a N_Vector \<times> 'a N_Vector \<times> 'a SystemSolver" where
  "setInitialConditions ops C0 E0 system u_0 gradu_0 sigma_0 Y dYdt =
     (case (if \<not> initialised system then initialiseMatrices ops C0 E0 system else Inr system) of
        Inl e \<Rightarrow> Inl e
      | Inr s0 \<Rightarrow>
          if \<not> initial_in_range s0 Y dYdt then Inl IndexOutOfRange
          else
            let s = bind_fields s0;
                Yc = initial_Y ops s (N_VGetArrayPointer Y) u_0 gradu_0 sigma_0;
                Db = initial_dYdt ops s Yc (N_VGetArrayPointer dYdt)
            in Inr (Y\<lparr>N_VGetArrayPointer := Yc\<rparr>, dYdt\<lparr>N_VGetArrayPointer := Db\<rparr>, s))"

section \<open>The Jacobian solve (SystemSolver::updateMForJacSolve, solveJacEq)\<close>

text \<open>Modelled from the spec: \<^verbatim>\<open>DGApprox::sum\<close> adds two fields coefficient by
  coefficient.\<close>

definition dg_sum :: "'a::plus dg \<Rightarrow> 'a dg \<Rightarrow> 'a dg" where
  "dg_sum a b = (\<lambda>var i j. a var i j + b var i j)"

text \<open>
  \<^verbatim>\<open>updateMForJacSolve\<close>. \<open>Ycur\<close> is the array the members \<open>q\<close> and \<open>u\<close> are bound
  to. The result is the list of the matrices that are factorised. Both calls to the
  source provider are calls of \<^verbatim>\<open>setdFdqMat\<close>, and both results are added to the same
  block.
\<close>

definition updateMForJacSolve ::
  "'a::{zero,plus} dg_ops \<Rightarrow> 'a SystemSolver \<Rightarrow> 'a vec \<Rightarrow> 'a \<Rightarrow> 'a dg \<Rightarrow> 'a dg \<Rightarrow> 'a mat list" where
  "updateMForJacSolve ops s Ycur alpha delQ delU =
     (let alphaF = (\<lambda>x. alpha);
          newQ = dg_sum (dg_of Ycur (q_coeffs s)) delQ;
          newU = dg_sum (dg_of Ycur (u_coeffs s)) delU;
          n = nVar s * (kdeg s + 1);
          k1 = kdeg s + 1
      in forloop (nCells s) (\<lambda>i MXsolvers.
           let I = gridCells s ! i;
               MX0 = MBlocks s ! i;
               X = forloop (nVar s) (\<lambda>var X.
                     set_block X (var * k1) (var * k1) k1 k1 (MassMatrixW ops I alphaF)) mzero;
               MX1 = add_block MX0 n (2 * n) n n X;
               NLq = NLqMat (diffObj s) newQ newU I;
               MX2 = set_block MX1 (2 * n) n n n NLq;
               NLu = NLuMat (diffObj s) newQ newU I;
               MX3 = set_block MX2 (2 * n) (2 * n) n n NLu;
               Fq = setdFdqMat (sourceObj s) newQ newU I;
               MX4 = add_block MX3 n n n n Fq;
               Fu = setdFdqMat (sourceObj s) newQ newU I;
               MX5 = add_block MX4 n n n n Fu
           in MXsolvers @ [MX5]) [])"

text \<open>The first loop of \<^verbatim>\<open>solveJacEq\<close>: the two solves of every cell and the
  accumulation of \<^verbatim>\<open>K_global\<close>.\<close>

definition solveJacEq_cells ::
  "'a::{zero,minus,plus,times} dg_ops \<Rightarrow> 'a SystemSolver \<Rightarrow> 'a mat list \<Rightarrow> view list \<Rightarrow> 'a vec
     \<Rightarrow> 'a vec list \<times> 'a mat list \<times> 'a mat" where
  "solveJacEq_cells ops s factorisedM g1g2g3_cellwise gv =
     (let n3 = 3 * nVar s * (kdeg s + 1)
      in forloop (nCells s) (\<lambda>i (SQU_f, SQU_0, K).
           let g1g2g3 = view_read gv (g1g2g3_cellwise ! i);
               SQU_f_i = lu_solve ops n3 (factorisedM ! i) g1g2g3;
               CE = CEBlocks s ! i;
               SQU_0_i = (\<lambda>r c. lu_solve ops n3 (factorisedM ! i) (\<lambda>r'. CE r' c) r);
               K_cell = msub (H_cellwise s ! i) (mat_mat n3 (CG_cellwise s ! i) SQU_0_i);
               K' = forloop (nVar s) (\<lambda>var K.
                      add_block K (var * (nCells s + 1) + i) (var * (nCells s + 1) + i) 2 2
                        (block K_cell (var * 2) (var * 2) 2 2)) K
           in (SQU_f[i := SQU_f_i], SQU_0[i := SQU_0_i], K'))
         (replicate (nCells s) vzero, replicate (nCells s) mzero, mzero))"

text \<open>The loop that subtracts the particular parts from \<^verbatim>\<open>F\<close>.\<close>

definition solveJacEq_F ::
  "'a::{zero,minus,plus,times} SystemSolver \<Rightarrow> 'a vec list \<Rightarrow> 'a vec \<Rightarrow> 'a vec" where
  "solveJacEq_F s SQU_f g4v =
     forloop (nCells s) (\<lambda>i F.
       forloop (nVar s) (\<lambda>var F.
         sub_vblock F (var * (nCells s + 1) + i) 2
           (vblock (mat_vec (3 * nVar s * (kdeg s + 1)) (CG_cellwise s ! i) (SQU_f ! i)) (var * 2) 2))
         F) g4v"

text \<open>The last loop: the cell values of \<open>\<delta>\<lambda>\<close> are gathered and the cell solution is
  written through the views of \<open>\<delta>\<sigma>\<close>, \<open>\<delta>q\<close> and \<open>\<delta>u\<close>.\<close>

definition solveJacEq_recover ::
  "'a::{zero,minus,plus,times} SystemSolver \<Rightarrow> 'a vec list \<Rightarrow> 'a mat list
     \<Rightarrow> Coeff_t \<times> Coeff_t \<times> Coeff_t \<times> view \<Rightarrow> 'a vec \<Rightarrow> 'a vec" where
  "solveJacEq_recover s SQU_f SQU_0 dels delY0 =
     (case dels of (delSig, delQ, delU, delLambda) \<Rightarrow>
      forloop (nCells s) (\<lambda>i delY.
        let k1 = kdeg s + 1;
            delLambdaCell = forloop (nVar s) (\<lambda>var d.
                set_vblock d (2 * var) 2
                  (vblock (view_read delY delLambda) (var * (nCells s + 1) + i) 2)) vzero;
            delSQU = vsub (SQU_f ! i) (mat_vec (2 * nVar s) (SQU_0 ! i) delLambdaCell)
        in forloop (nVar s) (\<lambda>var delY.
             let d1 = view_write delY (snd (delSig ! var ! i)) (vblock delSQU (var * k1) k1);
                 d2 = view_write d1 (snd (delQ ! var ! i))
                        (vblock delSQU (nVar s * k1 + var * k1) k1)
             in view_write d2 (snd (delU ! var ! i))
                  (vblock delSQU (2 * nVar s * k1 + var * k1) k1)) delY) delY0)"

definition solveJacEq_in_range :: "'a SystemSolver \<Rightarrow> 'a N_Vector \<Rightarrow> 'a N_Vector \<Rightarrow> bool" where
  "solveJacEq_in_range s g delY =
     (nCells s \<le> length (gridCells s) \<and> nCells s \<le> length (MBlocks s) \<and>
      nCells s \<le> length (CEBlocks s) \<and> nCells s \<le> length (CG_cellwise s) \<and>
      nCells s \<le> length (H_cellwise s) \<and>
      state_length s \<le> N_VGetLength g \<and> state_length s \<le> N_VGetLength delY)"

text \<open>
  \<^verbatim>\<open>solveJacEq\<close>. It returns the vector \<open>\<delta>Y\<close> and the solver, whose \<^verbatim>\<open>K_global\<close>
  it has reassembled.
\<close>

definition solveJacEq ::
  "'a::{zero,minus,plus,times} dg_ops \<Rightarrow> 'a SystemSolver \<Rightarrow> 'a vec \<Rightarrow> 'a N_Vector \<Rightarrow> 'a N_Vector
     \<Rightarrow> error + 'a N_Vector \<times> 'a SystemSolver" where
  "solveJacEq ops s Ycur g delY =
     (if \<not> solveJacEq_in_range s g delY then Inl IndexOutOfRange
      else
        let memBlock = (0, nVar s * (nCells s + 1));
            dels = mapDGtoSundials s ([], [], [], memBlock);
            delYVec = (\<lambda>a. if a < N_VGetLength delY then 0 else N_VGetArrayPointer delY a);
            factorisedM = updateMForJacSolve ops s Ycur (alpha_shift s)
                            (dg_of delYVec (fst (snd dels))) (dg_of delYVec (fst (snd (snd dels))));
            (g1g2g3_cellwise, g4) = mapDGtoSundials_cells s;
            gv = N_VGetArrayPointer g;
            (SQU_f, SQU_0, K) = solveJacEq_cells ops s factorisedM g1g2g3_cellwise gv;
            F = solveJacEq_F s SQU_f (view_read gv g4);
            delLambda = snd (snd (snd dels));
            delY1 = view_write delYVec delLambda (lu_solve ops (nVar s * (nCells s + 1)) K F)
        in Inr (delY\<lparr>N_VGetArrayPointer := solveJacEq_recover s SQU_f SQU_0 dels delY1\<rparr>,
                s\<lparr>K_global := K\<rparr>))"

section \<open>Reference definitions and example data\<close>

text \<open>
  Two solvers have the same configuration when they agree on the grid, the sizes, the
  coefficient functions, the boundary conditions and the providers; the assembly
  routines read nothing else.
\<close>

definition same_config :: "'a SystemSolver \<Rightarrow> 'a SystemSolver \<Rightarrow> bool" where
  "same_config s s' =
     (gridCells s' = gridCells s \<and> kdeg s' = kdeg s \<and> nCells s' = nCells s \<and>
      nVar s' = nVar s \<and> RHS s' = RHS s \<and> tau s' = tau s \<and> c_fn s' = c_fn s \<and>
      BCs s' = BCs s \<and> diffObj s' = diffObj s \<and> sourceObj s' = sourceObj s)"

text \<open>
  The matrix that carries the block \<open>Mv\<close> of size \<open>k1\<close> on each of its \<open>N\<close> diagonal
  positions and zero elsewhere: a per-variable block stacked block-diagonally over the
  variables.
\<close>

definition blockdiag :: "nat \<Rightarrow> nat \<Rightarrow> 'a::zero mat \<Rightarrow> 'a mat" where
  "blockdiag N k1 Mv =
     (\<lambda>a b. if a < N * k1 \<and> b < N * k1 \<and> a div k1 = b div k1
            then Mv (a mod k1) (b mod k1) else 0)"

text \<open>
  The per-variable block \<open>D\<^sub>v\<close> in the words of the spec: minus the transposed weighted
  derivative matrix plus the two boundary terms.
\<close>

definition Dv_spec :: "real dg_ops \<Rightarrow> real SystemSolver \<Rightarrow> Interval \<Rightarrow> real mat" where
  "Dv_spec ops s I =
     (\<lambda>i j. - DerivativeMatrixW ops I (c_fn s) j i
            + tau s (x_l I) * phi ops I i (x_l I) * phi ops I j (x_l I)
            + tau s (x_u I) * phi ops I i (x_u I) * phi ops I j (x_u I))"

text \<open>
  The cell-local Jacobian in the words of the spec, with the rows
  \<open>[0, -A, -B\<^sup>T]\<close>, \<open>[B, D + dF/dq, D + dF/du + \<alpha> M]\<close> and \<open>[A, NLq, NLu]\<close>.
\<close>

definition M_cell_spec ::
  "real dg_ops \<Rightarrow> real SystemSolver \<Rightarrow> Interval \<Rightarrow> real \<Rightarrow> real dg \<Rightarrow> real dg \<Rightarrow> real mat" where
  "M_cell_spec ops s I alpha qd ud =
     (let n = nVar s * (kdeg s + 1);
          A = blockdiag (nVar s) (kdeg s + 1) (MassMatrix ops I);
          B = blockdiag (nVar s) (kdeg s + 1) (DerivativeMatrix ops I);
          D = blockdiag (nVar s) (kdeg s + 1) (Dv_spec ops s I);
          Mv = blockdiag (nVar s) (kdeg s + 1) (MassMatrix ops I);
          dFdq = setdFdqMat (sourceObj s) qd ud I;
          dFdu = setdFduMat (sourceObj s) qd ud I;
          NLq = NLqMat (diffObj s) qd ud I;
          NLu = NLuMat (diffObj s) qd ud I
      in (\<lambda>r c.
           if r < n then
             (if c < n then 0
              else if c < 2 * n then - A r (c - n)
              else - B (c - 2 * n) r)
           else if r < 2 * n then
             (if c < n then B (r - n) c
              else if c < 2 * n then D (r - n) (c - n) + dFdq (r - n) (c - n)
              else D (r - n) (c - 2 * n) + dFdu (r - n) (c - 2 * n)
                   + alpha * Mv (r - n) (c - 2 * n))
           else
             (if c < n then A (r - 2 * n) c
              else if c < 2 * n then NLq (r - 2 * n) (c - n)
              else NLu (r - 2 * n) (c - 2 * n))))"

text \<open>
  Example data, over the reals. The operations are the ones of the orthonormal Legendre
  basis of degree at most one on cells of length one: \<open>\<phi>\<^sub>0 = 1\<close> and
  \<open>\<phi>\<^sub>1 = \<surd>3 (2 (x - x\<^sub>l) - 1)\<close>, quadrature by the midpoint rule, and a linear
  solve that divides by the diagonal (exact for the diagonal \<^verbatim>\<open>H_global\<close>).
\<close>

definition ex_ops :: "nat \<Rightarrow> real dg_ops" where
  "ex_ops k =
     \<lparr>phi = (\<lambda>I j x. if j = 0 then 1 else sqrt 3 * (2 * (x - x_l I) - 1)),
      MassMatrix = (\<lambda>I i j. if i = j then 1 else 0),
      MassMatrixW = (\<lambda>I w i j. if i = j then w (x_l I + 1 / 2) else 0),
      DerivativeMatrix = (\<lambda>I i j. if i = 0 \<and> j = 1 then 2 * sqrt 3 else 0),
      DerivativeMatrixW =
        (\<lambda>I w i j. if i = 0 \<and> j = 1 then w (x_l I + 1 / 2) * (2 * sqrt 3) else 0),
      CellProduct = (\<lambda>I f g. f (x_l I + 1 / 2) * g (x_l I + 1 / 2)),
      project = (\<lambda>I f j. if j = 0 then f (x_l I + 1 / 2) else 0),
      Evaluate =
        (\<lambda>I c x. dot (k + 1) c (\<lambda>j. if j = 0 then 1 else sqrt 3 * (2 * (x - x_l I) - 1))),
      I_contains = (\<lambda>I x. x_l I \<le> x \<and> x \<le> x_u I),
      lu_solve = (\<lambda>n M b r. b r / M r r),
      vnorm = (\<lambda>n v. sqrt (dot n v v))\<rparr>"

text \<open>
  A freshly constructed solver of degree \<open>k\<close> with \<open>N\<close> variables on the cells
  \<open>[0,1], \<dots>, [Nc - 1, Nc]\<close>, with \<open>\<tau> = 1\<close>, \<open>c = 0\<close>, no forcing, the boundary values
  \<open>g\<^sub>D = 1\<close> and \<open>g\<^sub>N = 2\<close>, \<open>\<kappa>\<close> the first coefficient of \<open>q\<close> and \<open>f\<close> the first
  coefficient of \<open>u\<close> on the first cell, and vanishing Jacobian blocks.
\<close>

definition ex_solver :: "nat \<Rightarrow> nat \<Rightarrow> nat \<Rightarrow> bool \<Rightarrow> bool \<Rightarrow> real SystemSolver" where
  "ex_solver k N Nc lD uD =
     \<lparr>gridCells = map (\<lambda>i. \<lparr>x_l = real i, x_u = real i + 1\<rparr>) [0 ..< Nc],
      kdeg = k, nCells = Nc, nVar = N,
      RHS = (\<lambda>x. 0), tau = (\<lambda>x. 1), c_fn = (\<lambda>x. 0),
      BCs = \<lparr>LowerBound = 0, UpperBound = real Nc, isLBoundDirichlet = lD,
             isUBoundDirichlet = uD, g_D = (\<lambda>x t. 1), g_N = (\<lambda>x t. 2)\<rparr>,
      diffObj = \<lparr>getKappaFunc = (\<lambda>var x q u. q var 0 0),
                 NLqMat = (\<lambda>q u I. mzero), NLuMat = (\<lambda>q u I. mzero)\<rparr>,
      sourceObj = \<lparr>getSourceFunc = (\<lambda>var x q u. u var 0 0),
                   setdFdqMat = (\<lambda>q u I. mzero), setdFduMat = (\<lambda>q u I. mzero)\<rparr>,
      sig_coeffs = [], q_coeffs = [], u_coeffs = [],
      dsigdt_coeffs = [], dqdt_coeffs = [], dudt_coeffs = [],
      lambda = None, dlamdt = None,
      XMats = [], MBlocks = [], CEBlocks = [], CG_cellwise = [], RF_cellwise = [],
      A_cellwise = [], B_cellwise = [], D_cellwise = [], E_cellwise = [], C_cellwise = [],
      G_cellwise = [], H_cellwise = [],
      K_global = mzero, L_global = vzero, H_global = mzero, H_global_mat = mzero,
      initialised = False, alpha_shift = 1, total_steps = 0, resNorm = 0, testing = False\<rparr>"

text \<open>A state vector of the given length, all zero.\<close>

definition zero_vector :: "nat \<Rightarrow> real N_Vector" where
  "zero_vector n = \<lparr>N_VGetArrayPointer = (\<lambda>a. 0), N_VGetLength = n\<rparr>"

text \<open>
  The two vectors and the solver after \<^verbatim>\<open>setInitialConditions\<close> on the fresh solver of
  degree 0 with one variable and one cell, both ends Neumann, for the initial functions
  \<open>u\<^sub>0 = 1\<close>, \<open>u\<^sub>0' = 0\<close> and \<open>\<sigma>\<^sub>0 = 0\<close>.
\<close>

definition ex_initial :: "real N_Vector \<times> real N_Vector \<times> real SystemSolver" where
  "ex_initial =
     projr (setInitialConditions (ex_ops 0) mzero mzero (ex_solver 0 1 1 False False)
       (\<lambda>x. 1) (\<lambda>x. 0) (\<lambda>x. 0) (zero_vector 5) (zero_vector 5))"

definition ex_Y :: "real N_Vector" where
  "ex_Y = fst ex_initial"

definition ex_dYdt :: "real N_Vector" where
  "ex_dYdt = fst (snd ex_initial)"

definition ex_system :: "real SystemSolver" where
  "ex_system = snd (snd ex_initial)"

text \<open>
  Two solvers have the same bindings and counters when they agree on the views of the six
  fields and of the two trace vectors, on the shift, the step counter, the stored norm and
  the testing flag.
\<close>

definition same_bindings :: "'a SystemSolver \<Rightarrow> 'a SystemSolver \<Rightarrow> bool" where
  "same_bindings s s' =
     (sig_coeffs s' = sig_coeffs s \<and> q_coeffs s' = q_coeffs s \<and> u_coeffs s' = u_coeffs s \<and>
      dsigdt_coeffs s' = dsigdt_coeffs s \<and> dqdt_coeffs s' = dqdt_coeffs s \<and>
      dudt_coeffs s' = dudt_coeffs s \<and> lambda s' = lambda s \<and> dlamdt s' = dlamdt s \<and>
      alpha_shift s' = alpha_shift s \<and> total_steps s' = total_steps s \<and>
      resNorm s' = resNorm s \<and> testing s' = testing s)"

text \<open>
  Values with a not-a-number: a finite value or \<open>NaN\<close>, which every operation
  propagates. This is what the residual needs of IEEE arithmetic to show where a
  not-a-number of a provider goes; rounding and the infinities are left out.
\<close>

datatype fpval = Fin real | NaN

instantiation fpval :: "{zero,one,plus,minus,uminus,times}"
begin

definition zero_fpval :: fpval where
  "zero_fpval = Fin 0"

definition one_fpval :: fpval where
  "one_fpval = Fin 1"

definition plus_fpval :: "fpval \<Rightarrow> fpval \<Rightarrow> fpval" where
  "plus_fpval a b = (case a of Fin x \<Rightarrow> (case b of Fin y \<Rightarrow> Fin (x + y) | NaN \<Rightarrow> NaN) | NaN \<Rightarrow> NaN)"

definition minus_fpval :: "fpval \<Rightarrow> fpval \<Rightarrow> fpval" where
  "minus_fpval a b = (case a of Fin x \<Rightarrow> (case b of Fin y \<Rightarrow> Fin (x - y) | NaN \<Rightarrow> NaN) | NaN \<Rightarrow> NaN)"

definition uminus_fpval :: "fpval \<Rightarrow> fpval" where
  "uminus_fpval a = (case a of Fin x \<Rightarrow> Fin (- x) | NaN \<Rightarrow> NaN)"

definition times_fpval :: "fpval \<Rightarrow> fpval \<Rightarrow> fpval" where
  "times_fpval a b = (case a of Fin x \<Rightarrow> (case b of Fin y \<Rightarrow> Fin (x * y) | NaN \<Rightarrow> NaN) | NaN \<Rightarrow> NaN)"

instance ..

end

definition fp_div :: "fpval \<Rightarrow> fpval \<Rightarrow> fpval" where
  "fp_div a b =
     (case a of Fin x \<Rightarrow> (case b of Fin y \<Rightarrow> if y = 0 then NaN else Fin (x / y) | NaN \<Rightarrow> NaN)
      | NaN \<Rightarrow> NaN)"

text \<open>
  The example of degree 0 over these values: the same operations and the same fresh
  solver with one variable and one cell, both ends Neumann, but a diffusion provider whose
  \<open>\<kappa>\<close> is a not-a-number.
\<close>

definition nan_ops :: "fpval dg_ops" where
  "nan_ops =
     \<lparr>phi = (\<lambda>I j x. Fin 1),
      MassMatrix = (\<lambda>I i j. if i = j then Fin 1 else Fin 0),
      MassMatrixW = (\<lambda>I w i j. if i = j then w (x_l I + 1 / 2) else Fin 0),
      DerivativeMatrix = (\<lambda>I i j. Fin 0),
      DerivativeMatrixW = (\<lambda>I w i j. Fin 0),
      CellProduct = (\<lambda>I f g. f (x_l I + 1 / 2) * g (x_l I + 1 / 2)),
      project = (\<lambda>I f j. if j = 0 then f (x_l I + 1 / 2) else Fin 0),
      Evaluate = (\<lambda>I c x. c 0),
      I_contains = (\<lambda>I x. x_l I \<le> x \<and> x \<le> x_u I),
      lu_solve = (\<lambda>n M b r. fp_div (b r) (M r r)),
      vnorm = (\<lambda>n v. case dot n v v of Fin x \<Rightarrow> Fin (sqrt x) | NaN \<Rightarrow> NaN)\<rparr>"

definition nan_solver :: "fpval SystemSolver" where
  "nan_solver =
     \<lparr>gridCells = [\<lparr>x_l = 0, x_u = 1\<rparr>],
      kdeg = 0, nCells = 1, nVar = 1,
      RHS = (\<lambda>x. Fin 0), tau = (\<lambda>x. Fin 1), c_fn = (\<lambda>x. Fin 0),
      BCs = \<lparr>LowerBound = 0, UpperBound = 1, isLBoundDirichlet = False,
             isUBoundDirichlet = False, g_D = (\<lambda>x t. Fin 0), g_N = (\<lambda>x t. Fin 0)\<rparr>,
      diffObj = \<lparr>getKappaFunc = (\<lambda>var x q u. NaN),
                 NLqMat = (\<lambda>q u I. mzero), NLuMat = (\<lambda>q u I. mzero)\<rparr>,
      sourceObj = \<lparr>getSourceFunc = (\<lambda>var x q u. Fin 0),
                   setdFdqMat = (\<lambda>q u I. mzero), setdFduMat = (\<lambda>q u I. mzero)\<rparr>,
      sig_coeffs = [], q_coeffs = [], u_coeffs = [],
      dsigdt_coeffs = [], dqdt_coeffs = [], dudt_coeffs = [],
      lambda = None, dlamdt = None,
      XMats = [], MBlocks = [], CEBlocks = [], CG_cellwise = [], RF_cellwise = [],
      A_cellwise = [], B_cellwise = [], D_cellwise = [], E_cellwise = [], C_cellwise = [],
      G_cellwise = [], H_cellwise = [],
      K_global = mzero, L_global = vzero, H_global = mzero, H_global_mat = mzero,
      initialised = False, alpha_shift = Fin 1, total_steps = 0, resNorm = Fin 0,
      testing = False\<rparr>"

definition nan_vector :: "fpval N_Vector" where
  "nan_vector = \<lparr>N_VGetArrayPointer = (\<lambda>a. Fin 0), N_VGetLength = 5\<rparr>"

definition nan_initial :: "fpval N_Vector \<times> fpval N_Vector \<times> fpval SystemSolver" where
  "nan_initial =
     projr (setInitialConditions nan_ops mzero mzero nan_solver
       (\<lambda>x. Fin 1) (\<lambda>x. Fin 0) (\<lambda>x. Fin 0) nan_vector nan_vector)"

definition nan_run ::
  "fpval N_Vector \<times> fpval SystemSolver \<times> (string \<Rightarrow> fpval plot_frame list option) \<times> int" where
  "nan_run =
     projr (residual nan_ops (snd (snd nan_initial)) (\<lambda>name. None) 0 (fst nan_initial)
       (fst (snd nan_initial)) nan_vector)"

text \<open>The residual evaluation of the real example at time 0, from no files.\<close>

definition ex_run ::
  "real N_Vector \<times> real SystemSolver \<times> (string \<Rightarrow> real plot_frame list option) \<times> int" where
  "ex_run = projr (residual (ex_ops 0) ex_system (\<lambda>name. None) 0 ex_Y ex_dYdt (zero_vector 5))"

text \<open>
  The initial \<open>\<partial>\<^sub>t u\<close> of variable \<open>var\<close> on cell \<open>i\<close> in the words of the spec: the
  explicit expression \<open>-B \<sigma> - D u - E \<lambda> + RF\<^sub>u - F\<close> with \<open>F\<close> the projected source at the
  initial state, that is at the fields \<open>q\<close> and \<open>u\<close>.
\<close>

definition dudt_spec ::
  "real dg_ops \<Rightarrow> real SystemSolver \<Rightarrow> real vec \<Rightarrow> nat \<Rightarrow> nat \<Rightarrow> real vec" where
  "dudt_spec ops s Yv var i =
     (let I = gridCells s ! i;
          k1 = kdeg s + 1;
          F = (\<lambda>j. CellProduct ops I
                 (\<lambda>x. getSourceFunc (sourceObj s) var x
                         (dg_of Yv (q_coeffs s)) (dg_of Yv (u_coeffs s))) (phi ops I j));
          lam = the (lambda s);
          lamCell = (\<lambda>a. view_read Yv lam (var * (nCells s + 1) + i + a))
      in (\<lambda>j. - mat_vec k1 (block (B_cellwise s ! i) (var * k1) (var * k1) k1 k1)
                    (dg_of Yv (sig_coeffs s) var i) j
               - mat_vec k1 (block (D_cellwise s ! i) (var * k1) (var * k1) k1 k1)
                    (dg_of Yv (u_coeffs s) var i) j
               - mat_vec 2 (block (E_cellwise s ! i) (var * k1) (var * 2) k1 2) lamCell j
               + (RF_cellwise s ! i) (nVar s * k1 + var * k1 + j)
               - F j))"

text \<open>
  The solver of degree 1 with one variable and one cell whose upper end is a Dirichlet
  boundary, after \<^verbatim>\<open>initialiseMatrices\<close> and after a boundary update at time 0.
\<close>

definition ex_upper :: "real SystemSolver" where
  "ex_upper = projr (initialiseMatrices (ex_ops 1) mzero mzero (ex_solver 1 1 1 False True))"

definition ex_upper_updated :: "real SystemSolver" where
  "ex_upper_updated = projr (updateBoundaryConditions (ex_ops 1) 0 ex_upper)"


text \<open>
  The cells are those of a grid of the interval: only the first cell starts at the lower
  bound and only the last cell ends at the upper bound.
\<close>

definition grid_ok :: "'a SystemSolver \<Rightarrow> bool" where
  "grid_ok s =
     (\<forall>i \<in> {0 ..< nCells s}.
        (x_l (gridCells s ! i) = LowerBound (BCs s) \<longrightarrow> i = 0) \<and>
        (x_u (gridCells s ! i) = UpperBound (BCs s) \<longrightarrow> i + 1 = nCells s))"

text \<open>
  The right-hand side of the trace equation in the words of the spec,
  \<open>L - \<Sigma>\<^sub>i (C\<^sub>i \<sigma>\<^sub>i + G\<^sub>i u\<^sub>i)\<close>: the coefficients \<open>\<sigma>\<close> and \<open>u\<close> of variable \<open>var\<close> on cell \<open>i\<close>
  are read from the state vector at their place in the layout, the blocks of \<open>C\<close> and \<open>G\<close>
  of the variable are applied, and the two entries of the product go to the two faces of
  the cell, the faces \<open>i\<close> and \<open>i + 1\<close> of the variable.
\<close>

definition cell_trace :: "real SystemSolver \<Rightarrow> real vec \<Rightarrow> nat \<Rightarrow> nat \<Rightarrow> real vec" where
  "cell_trace s Yv i var =
     (let k1 = kdeg s + 1;
          sigma = (\<lambda>j. Yv (i * (3 * nVar s * k1) + var * k1 + j));
          u = (\<lambda>j. Yv (i * (3 * nVar s * k1) + 2 * (nVar s * k1) + var * k1 + j))
      in vadd (mat_vec k1 (block (C_cellwise s ! i) (var * 2) (var * k1) 2 k1) sigma)
              (mat_vec k1 (block (G_cellwise s ! i) (var * 2) (var * k1) 2 k1) u))"

definition trace_rhs :: "real SystemSolver \<Rightarrow> real vec \<Rightarrow> real vec" where
  "trace_rhs s Yv =
     (\<lambda>r. L_global s r -
        (\<Sum>i<nCells s. \<Sum>var<nVar s. \<Sum>a<2.
           if r = var * (nCells s + 1) + i + a then cell_trace s Yv i var a else 0))"

text \<open>
  The matrices \<open>M\<^sub>c\<^sub>e\<^sub>l\<^sub>l(\<alpha>)\<close> of the Jacobian solve: what \<^verbatim>\<open>updateMForJacSolve\<close> assembles
  with the shift of the solver at the increments \<open>\<delta>q\<close> and \<open>\<delta>u\<close>, which
  \<^verbatim>\<open>solveJacEq\<close> has bound to the zeroed \<open>\<delta>Y\<close>.
\<close>

definition jac_matrices ::
  "real dg_ops \<Rightarrow> real SystemSolver \<Rightarrow> real vec \<Rightarrow> real N_Vector \<Rightarrow> real mat list" where
  "jac_matrices ops s Ycur delY =
     (let dels = mapDGtoSundials s ([], [], [], (0, nVar s * (nCells s + 1)));
          zeroed = (\<lambda>a. if a < N_VGetLength delY then 0 else N_VGetArrayPointer delY a)
      in updateMForJacSolve ops s Ycur (alpha_shift s)
           (dg_of zeroed (fst (snd dels))) (dg_of zeroed (fst (snd (snd dels)))))"

text \<open>
  The static condensation in the words of the spec, for the cell matrices \<open>Ms\<close> and the
  array \<open>gv\<close> of the right-hand side: the particular solve \<open>\<Sigma>\<^sub>i = M\<^sub>i\<^sup>-\<^sup>1 g\<^sub>i\<close> on the entries
  of cell \<open>i\<close>, the homogeneous solve \<open>\<Sigma>\<^sub>i\<^sup>0 = M\<^sub>i\<^sup>-\<^sup>1 CE\<close> column by column, the Schur
  complement \<open>K\<^sub>c\<^sub>e\<^sub>l\<^sub>l = H\<^sub>c\<^sub>e\<^sub>l\<^sub>l - CG \<Sigma>\<^sub>i\<^sup>0\<close>, the sum of the \<open>2 \<times> 2\<close> blocks of the variables
  of \<open>K\<^sub>c\<^sub>e\<^sub>l\<^sub>l\<close> at the faces \<open>i\<close> and \<open>i + 1\<close> of the variable, the right-hand side
  \<open>F = g\<^sub>4 - \<Sigma>\<^sub>i CG \<Sigma>\<^sub>i\<close> gathered the same way, the solution \<open>\<delta>\<lambda>\<close> of \<open>K \<delta>\<lambda> = F\<close>, and
  the cell solution \<open>\<Sigma>\<^sub>i - \<Sigma>\<^sub>i\<^sup>0 \<delta>\<lambda>\<^sub>c\<^sub>e\<^sub>l\<^sub>l\<close>, where \<open>\<delta>\<lambda>\<^sub>c\<^sub>e\<^sub>l\<^sub>l\<close> holds the two face values of each
  variable.
\<close>

definition Sigma_f ::
  "real dg_ops \<Rightarrow> real SystemSolver \<Rightarrow> real mat list \<Rightarrow> real vec \<Rightarrow> nat \<Rightarrow> real vec" where
  "Sigma_f ops s Ms gv i =
     lu_solve ops (3 * nVar s * (kdeg s + 1)) (Ms ! i)
       (\<lambda>m. gv (i * (3 * nVar s * (kdeg s + 1)) + m))"

definition Sigma_0 ::
  "real dg_ops \<Rightarrow> real SystemSolver \<Rightarrow> real mat list \<Rightarrow> nat \<Rightarrow> real mat" where
  "Sigma_0 ops s Ms i =
     (\<lambda>r c. lu_solve ops (3 * nVar s * (kdeg s + 1)) (Ms ! i) (\<lambda>r'. (CEBlocks s ! i) r' c) r)"

definition K_cell ::
  "real dg_ops \<Rightarrow> real SystemSolver \<Rightarrow> real mat list \<Rightarrow> nat \<Rightarrow> real mat" where
  "K_cell ops s Ms i =
     msub (H_cellwise s ! i)
       (mat_mat (3 * nVar s * (kdeg s + 1)) (CG_cellwise s ! i) (Sigma_0 ops s Ms i))"

definition K_sum :: "real dg_ops \<Rightarrow> real SystemSolver \<Rightarrow> real mat list \<Rightarrow> real mat" where
  "K_sum ops s Ms =
     (\<lambda>r c. \<Sum>i<nCells s. \<Sum>var<nVar s. \<Sum>a<2. \<Sum>b<2.
        if r = var * (nCells s + 1) + i + a \<and> c = var * (nCells s + 1) + i + b
        then K_cell ops s Ms i (var * 2 + a) (var * 2 + b) else 0)"

definition F_sum ::
  "real dg_ops \<Rightarrow> real SystemSolver \<Rightarrow> real mat list \<Rightarrow> real vec \<Rightarrow> real vec" where
  "F_sum ops s Ms gv =
     (\<lambda>r. gv (3 * nVar s * (kdeg s + 1) * nCells s + r) -
        (\<Sum>i<nCells s. \<Sum>var<nVar s. \<Sum>a<2.
           if r = var * (nCells s + 1) + i + a
           then mat_vec (3 * nVar s * (kdeg s + 1)) (CG_cellwise s ! i)
                  (Sigma_f ops s Ms gv i) (var * 2 + a)
           else 0))"

definition delta_lambda ::
  "real dg_ops \<Rightarrow> real SystemSolver \<Rightarrow> real mat list \<Rightarrow> real vec \<Rightarrow> real vec" where
  "delta_lambda ops s Ms gv =
     lu_solve ops (nVar s * (nCells s + 1)) (K_sum ops s Ms) (F_sum ops s Ms gv)"

definition delta_cell ::
  "real dg_ops \<Rightarrow> real SystemSolver \<Rightarrow> real mat list \<Rightarrow> real vec \<Rightarrow> nat \<Rightarrow> real vec" where
  "delta_cell ops s Ms gv i =
     vsub (Sigma_f ops s Ms gv i)
       (mat_vec (2 * nVar s) (Sigma_0 ops s Ms i)
          (\<lambda>c. delta_lambda ops s Ms gv ((c div 2) * (nCells s + 1) + i + c mod 2)))"
section \<open>Loops\<close>

lemma forloop_fill:
  "forloop n (\<lambda>j v. v(j := f j)) v0 = (\<lambda>i. if i < n then f i else v0 i)"
  by (induction n) (auto simp: fun_eq_iff less_Suc_eq)

lemma forloop_snoc:
  "forloop n (\<lambda>i xs. xs @ [f i]) xs0 = xs0 @ map f [0 ..< n]"
  by (induction n) auto

lemma forloop_snoc3:
  "forloop n (\<lambda>i (a, b, c). (a @ [f i], b @ [g i], c @ [h i])) (a0, b0, c0)
     = (a0 @ map f [0 ..< n], b0 @ map g [0 ..< n], c0 @ map h [0 ..< n])"
  by (induction n) auto

lemma forloop_snoc4:
  "forloop n (\<lambda>i (a, b, c, l). (a @ [f i], b @ [g i], c @ [h i], l')) (a0, b0, c0, l0)
     = (a0 @ map f [0 ..< n], b0 @ map g [0 ..< n], c0 @ map h [0 ..< n],
        if n = 0 then l0 else l')"
  by (induction n) auto

lemma mapDGtoSundials_eq:
  "mapDGtoSundials s (sg, q, u, lam) =
     (sg @ map (\<lambda>var. map (\<lambda>i. (gridCells s ! i,
          (u32 (var * (kdeg s + 1) + i * 3 * nVar s * (kdeg s + 1)), kdeg s + 1))) [0 ..< nCells s])
        [0 ..< nVar s],
      q @ map (\<lambda>var. map (\<lambda>i. (gridCells s ! i,
          (u32 (nVar s * (kdeg s + 1) + var * (kdeg s + 1) + i * 3 * nVar s * (kdeg s + 1)),
           kdeg s + 1))) [0 ..< nCells s]) [0 ..< nVar s],
      u @ map (\<lambda>var. map (\<lambda>i. (gridCells s ! i,
          (u32 (2 * nVar s * (kdeg s + 1) + var * (kdeg s + 1) + i * 3 * nVar s * (kdeg s + 1)),
           kdeg s + 1))) [0 ..< nCells s]) [0 ..< nVar s],
      if nVar s = 0 then lam
      else (u32 (nVar s * nCells s * (3 * kdeg s + 3)), nVar s * (nCells s + 1)))"
  unfolding mapDGtoSundials_def forloop_snoc3 
  by (simp add: forloop_snoc4 del: upt_Suc)

lemma u32_id: "n < 2 ^ 32 \<Longrightarrow> u32 n = n"
  by (simp add: u32_def)

section \<open>The assembly loops\<close>

lemma same_config_refl: "same_config s s"
  by (simp add: same_config_def)

lemma boundary_RF_config:
  "same_config s s' \<Longrightarrow> boundary_RF ops s' I t = boundary_RF ops s I t"
  unfolding same_config_def boundary_RF_def by (elim conjE) (simp only:)

lemma boundary_L_config:
  "same_config s s' \<Longrightarrow> boundary_L s' I i t L = boundary_L s I i t L"
  unfolding same_config_def boundary_L_def by (elim conjE) (simp only:)

lemma updateBC_loop:
  "forloopE n (updateBoundaryCell ops t) s0 = Inr s1 \<Longrightarrow>
     \<exists>rfs. s1 = s0\<lparr>RF_cellwise := rfs,
                   L_global := forloop n (\<lambda>i L. boundary_L s0 (gridCells s0 ! i) i t L)
                                 (L_global s0)\<rparr> \<and>
     length rfs = length (RF_cellwise s0) \<and>
     (\<forall>i<n. i < length (RF_cellwise s0) \<longrightarrow>
        boundary_RF ops s0 (gridCells s0 ! i) t = Inr (rfs ! i)) \<and>
     (\<forall>i<n. \<exists>rf. boundary_RF ops s0 (gridCells s0 ! i) t = Inr rf) \<and>
     (\<forall>i\<ge>n. rfs ! i = RF_cellwise s0 ! i)"
proof (induction n arbitrary: s1)
  case 0
  then show ?case by (intro exI [of _ "RF_cellwise s0"]) simp
next
  case (Suc n)
  from Suc.prems obtain s' where loop: "forloopE n (updateBoundaryCell ops t) s0 = Inr s'"
    and step: "updateBoundaryCell ops t n s' = Inr s1"
    by (auto split: sum.splits)
  from Suc.IH [OF loop] obtain rfs where
    eq: "s' = s0\<lparr>RF_cellwise := rfs,
                 L_global := forloop n (\<lambda>i L. boundary_L s0 (gridCells s0 ! i) i t L)
                               (L_global s0)\<rparr>"
    and len: "length rfs = length (RF_cellwise s0)"
    and rfs: "\<forall>i<n. i < length (RF_cellwise s0) \<longrightarrow>
        boundary_RF ops s0 (gridCells s0 ! i) t = Inr (rfs ! i)"
    and ex: "\<forall>i<n. \<exists>rf. boundary_RF ops s0 (gridCells s0 ! i) t = Inr rf"
    and rest: "\<forall>i\<ge>n. rfs ! i = RF_cellwise s0 ! i"
    by blast
  have cfg: "same_config s0 s'"
    by (simp add: eq same_config_def)
  have g: "gridCells s' = gridCells s0"
    using cfg by (simp add: same_config_def)
  from step obtain rf where rf: "boundary_RF ops s0 (gridCells s0 ! n) t = Inr rf"
    and s1: "s1 = s'\<lparr>RF_cellwise := (RF_cellwise s')[n := rf],
                     L_global := boundary_L s0 (gridCells s0 ! n) n t (L_global s')\<rparr>"
    by (auto simp: updateBoundaryCell_def Let_def g boundary_RF_config [OF cfg]
        boundary_L_config [OF cfg] split: sum.splits)
  have a: "s1 = s0\<lparr>RF_cellwise := rfs[n := rf],
                   L_global := forloop (Suc n) (\<lambda>i L. boundary_L s0 (gridCells s0 ! i) i t L)
                                 (L_global s0)\<rparr>"
    by (simp add: s1 eq)
  have c: "\<forall>i<Suc n. i < length (RF_cellwise s0) \<longrightarrow>
        boundary_RF ops s0 (gridCells s0 ! i) t = Inr (rfs[n := rf] ! i)"
    using rfs rf len by (auto simp: less_Suc_eq nth_list_update)
  have d: "\<forall>i<Suc n. \<exists>rf. boundary_RF ops s0 (gridCells s0 ! i) t = Inr rf"
    using ex rf by (auto simp: less_Suc_eq)
  have e: "\<forall>i\<ge>Suc n. rfs[n := rf] ! i = RF_cellwise s0 ! i"
    using rest by auto
  from a c d e len show ?case by auto
qed

lemma updateBC_loop_returns:
  "\<forall>i<n. \<exists>rf. boundary_RF ops s0 (gridCells s0 ! i) t = Inr rf \<Longrightarrow>
   \<exists>s1. forloopE n (updateBoundaryCell ops t) s0 = Inr s1"
proof (induction n)
  case 0
  then show ?case by simp
next
  case (Suc n)
  then obtain s' where loop: "forloopE n (updateBoundaryCell ops t) s0 = Inr s'"
    by auto
  from updateBC_loop [OF loop] obtain rfs L where eq: "s' = s0\<lparr>RF_cellwise := rfs, L_global := L\<rparr>"
    by blast
  have cfg: "same_config s0 s'"
    by (simp add: eq same_config_def)
  have g: "gridCells s' = gridCells s0"
    using cfg by (simp add: same_config_def)
  from Suc.prems obtain rf where "boundary_RF ops s0 (gridCells s0 ! n) t = Inr rf"
    by auto
  then have "\<exists>s1. updateBoundaryCell ops t n s' = Inr s1"
    by (simp add: updateBoundaryCell_def Let_def g boundary_RF_config [OF cfg])
  then show ?case
    by (simp add: loop)
qed

lemma assemble_ABD_config:
  "same_config s s' \<Longrightarrow> assemble_ABD ops s' I = assemble_ABD ops s I"
  unfolding same_config_def assemble_ABD_def Dvar_cell_def by (elim conjE) (simp only:)

lemma M_cell_init_config:
  "same_config s s' \<Longrightarrow> M_cell_init s' A B D = M_cell_init s A B D"
  unfolding same_config_def M_cell_init_def by (elim conjE) (simp only:)

lemma initialiseCell_Inr:
  assumes "initialiseCell ops i (C0, E0, HG0, s) = Inr (C, E, HG, s')"
  shows "same_config s s'"
    and "A_cellwise s' = A_cellwise s @ [fst (assemble_ABD ops s (gridCells s ! i))]"
    and "B_cellwise s' = B_cellwise s @ [fst (snd (assemble_ABD ops s (gridCells s ! i)))]"
    and "D_cellwise s' = D_cellwise s @ [snd (snd (assemble_ABD ops s (gridCells s ! i)))]"
    and "MBlocks s' = MBlocks s @
           [case assemble_ABD ops s (gridCells s ! i) of (A, B, D) \<Rightarrow> M_cell_init s A B D]"
    and "length (RF_cellwise s') = Suc (length (RF_cellwise s))"
    and "length (C_cellwise s') = Suc (length (C_cellwise s))"
    and "length (E_cellwise s') = Suc (length (E_cellwise s))"
    and "length (G_cellwise s') = Suc (length (G_cellwise s))"
    and "length (H_cellwise s') = Suc (length (H_cellwise s))"
    and "length (CG_cellwise s') = Suc (length (CG_cellwise s))"
    and "length (CEBlocks s') = Suc (length (CEBlocks s))"
  using assms
  by (auto simp: initialiseCell_def Let_def same_config_def split: sum.splits prod.splits)

lemma initialise_loop:
  "forloopE n (initialiseCell ops) (C0, E0, HG0, s0) = Inr (C, E, HG, s1) \<Longrightarrow>
     same_config s0 s1 \<and>
     A_cellwise s1 = A_cellwise s0 @
        map (\<lambda>i. fst (assemble_ABD ops s0 (gridCells s0 ! i))) [0 ..< n] \<and>
     B_cellwise s1 = B_cellwise s0 @
        map (\<lambda>i. fst (snd (assemble_ABD ops s0 (gridCells s0 ! i)))) [0 ..< n] \<and>
     D_cellwise s1 = D_cellwise s0 @
        map (\<lambda>i. snd (snd (assemble_ABD ops s0 (gridCells s0 ! i)))) [0 ..< n] \<and>
     MBlocks s1 = MBlocks s0 @
        map (\<lambda>i. case assemble_ABD ops s0 (gridCells s0 ! i) of
                    (A, B, D) \<Rightarrow> M_cell_init s0 A B D) [0 ..< n] \<and>
     length (RF_cellwise s1) = length (RF_cellwise s0) + n \<and>
     length (C_cellwise s1) = length (C_cellwise s0) + n \<and>
     length (E_cellwise s1) = length (E_cellwise s0) + n \<and>
     length (G_cellwise s1) = length (G_cellwise s0) + n \<and>
     length (H_cellwise s1) = length (H_cellwise s0) + n \<and>
     length (CG_cellwise s1) = length (CG_cellwise s0) + n \<and>
     length (CEBlocks s1) = length (CEBlocks s0) + n"
proof (induction n arbitrary: C E HG s1)
  case 0
  then show ?case by (simp add: same_config_def)
next
  case (Suc n)
  from Suc.prems obtain C' E' HG' s' where
    loop: "forloopE n (initialiseCell ops) (C0, E0, HG0, s0) = Inr (C', E', HG', s')"
    and step: "initialiseCell ops n (C', E', HG', s') = Inr (C, E, HG, s1)"
    by (auto split: sum.splits)
  note IH = Suc.IH [OF loop]
  note st = initialiseCell_Inr [OF step]
  from IH have cfg: "same_config s0 s'" by blast
  then have g: "gridCells s' = gridCells s0"
    by (simp add: same_config_def)
  have cfg1: "same_config s0 s1"
    using cfg st(1) by (simp add: same_config_def)
  show ?case
    using IH st(2-) cfg1
    by (simp add: g assemble_ABD_config [OF cfg] M_cell_init_config [OF cfg])
qed

lemma initialiseMatrices_Inr:
  assumes "initialiseMatrices ops C0 E0 s0 = Inr s"
  shows "same_config s0 s"
    and "A_cellwise s = map (\<lambda>i. fst (assemble_ABD ops s0 (gridCells s0 ! i))) [0 ..< nCells s0]"
    and "B_cellwise s =
           map (\<lambda>i. fst (snd (assemble_ABD ops s0 (gridCells s0 ! i)))) [0 ..< nCells s0]"
    and "MBlocks s = map (\<lambda>i. case assemble_ABD ops s0 (gridCells s0 ! i) of
                    (A, B, D) \<Rightarrow> M_cell_init s0 A B D) [0 ..< nCells s0]"
    and "length (RF_cellwise s) = nCells s0"
    and "length (C_cellwise s) = nCells s0"
    and "length (E_cellwise s) = nCells s0"
    and "length (G_cellwise s) = nCells s0"
    and "length (H_cellwise s) = nCells s0"
    and "length (CG_cellwise s) = nCells s0"
    and "D_cellwise s = D_cellwise s0 @
        map (\<lambda>i. snd (snd (assemble_ABD ops s0 (gridCells s0 ! i)))) [0 ..< nCells s0]"
    and "length (CEBlocks s) = length (CEBlocks s0) + nCells s0"
    and "nCells s0 \<le> length (gridCells s0)"
proof -
  let ?s = "clearCellwiseVecs (s0\<lparr>K_global := mzero, L_global := vzero\<rparr>)"
  have cfg0: "same_config s0 ?s"
    by (simp add: same_config_def clearCellwiseVecs_def)
  from assms have len: "nCells s0 \<le> length (gridCells s0)"
    by (auto simp: initialiseMatrices_def split: if_splits)
  from assms len obtain C E HG s1 where
    loop: "forloopE (nCells ?s) (initialiseCell ops) (C0, E0, mzero, ?s) = Inr (C, E, HG, s1)"
    and s: "s = s1\<lparr>H_global := HG, H_global_mat := HG, initialised := True\<rparr>"
    by (auto simp: initialiseMatrices_def clearCellwiseVecs_def split: sum.splits if_splits)
  note L = initialise_loop [OF loop]
  have n: "nCells ?s = nCells s0" and g: "gridCells ?s = gridCells s0"
    by (simp_all add: clearCellwiseVecs_def)
  from L have cfg1: "same_config ?s s1" by blast
  show "same_config s0 s"
    using cfg0 cfg1 by (simp add: s same_config_def)
  show "A_cellwise s = map (\<lambda>i. fst (assemble_ABD ops s0 (gridCells s0 ! i))) [0 ..< nCells s0]"
    using L by (simp add: s n g assemble_ABD_config [OF cfg0]) (simp add: clearCellwiseVecs_def)
  show "B_cellwise s =
           map (\<lambda>i. fst (snd (assemble_ABD ops s0 (gridCells s0 ! i)))) [0 ..< nCells s0]"
    using L by (simp add: s n g assemble_ABD_config [OF cfg0]) (simp add: clearCellwiseVecs_def)
  show "MBlocks s = map (\<lambda>i. case assemble_ABD ops s0 (gridCells s0 ! i) of
                    (A, B, D) \<Rightarrow> M_cell_init s0 A B D) [0 ..< nCells s0]"
    using L by (simp add: s n g assemble_ABD_config [OF cfg0] M_cell_init_config [OF cfg0])
      (simp add: clearCellwiseVecs_def)
  show "length (RF_cellwise s) = nCells s0" "length (C_cellwise s) = nCells s0"
    "length (E_cellwise s) = nCells s0" "length (G_cellwise s) = nCells s0"
    "length (H_cellwise s) = nCells s0" "length (CG_cellwise s) = nCells s0"
    using L by (simp_all add: s n) (simp_all add: clearCellwiseVecs_def)
  show "D_cellwise s = D_cellwise s0 @
        map (\<lambda>i. snd (snd (assemble_ABD ops s0 (gridCells s0 ! i)))) [0 ..< nCells s0]"
    using L by (simp add: s n g assemble_ABD_config [OF cfg0]) (simp add: clearCellwiseVecs_def)
  show "length (CEBlocks s) = length (CEBlocks s0) + nCells s0"
    using L by (simp add: s n) (simp add: clearCellwiseVecs_def)
  show "nCells s0 \<le> length (gridCells s0)" by (rule len)
qed

lemma updateBC_independent:
  assumes len: "length (RF_cellwise s) = nCells s"
    and len': "length rfs = nCells s"
    and upd: "updateBoundaryConditions ops t s = Inr s1"
  shows "updateBoundaryConditions ops t (s\<lparr>RF_cellwise := rfs, L_global := L\<rparr>) = Inr s1"
proof -
  let ?s0 = "s\<lparr>L_global := vzero\<rparr>"
  let ?s0' = "s\<lparr>RF_cellwise := rfs, L_global := vzero\<rparr>"
  have cfg: "same_config ?s0 ?s0'"
    by (simp add: same_config_def)
  have RF_eq: "boundary_RF ops ?s0' I t = boundary_RF ops ?s0 I t" for I
    by (rule boundary_RF_config [OF cfg])
  have L_eq: "boundary_L ?s0' I i t L' = boundary_L ?s0 I i t L'" for I i L'
    by (rule boundary_L_config [OF cfg])
  from upd have g: "nCells s \<le> length (gridCells s)"
    and loop: "forloopE (nCells s) (updateBoundaryCell ops t) ?s0 = Inr s1"
    by (auto simp: updateBoundaryConditions_def split: if_splits)
  from updateBC_loop [OF loop] obtain r1 where
    s1: "s1 = ?s0\<lparr>RF_cellwise := r1,
                 L_global := forloop (nCells s) (\<lambda>i L. boundary_L ?s0 (gridCells ?s0 ! i) i t L)
                               (L_global ?s0)\<rparr>"
    and l1: "length r1 = length (RF_cellwise ?s0)"
    and r1: "\<forall>i<nCells s. i < length (RF_cellwise ?s0) \<longrightarrow>
        boundary_RF ops ?s0 (gridCells ?s0 ! i) t = Inr (r1 ! i)"
    and ex: "\<forall>i<nCells s. \<exists>rf. boundary_RF ops ?s0 (gridCells ?s0 ! i) t = Inr rf"
    by blast
  have ex': "\<forall>i<nCells s. \<exists>rf. boundary_RF ops ?s0' (gridCells ?s0' ! i) t = Inr rf"
    using ex by (simp add: RF_eq)
  from updateBC_loop_returns [OF ex'] obtain s1' where
    loop': "forloopE (nCells s) (updateBoundaryCell ops t) ?s0' = Inr s1'"
    by blast
  from updateBC_loop [OF loop'] obtain r1' where
    s1': "s1' = ?s0'\<lparr>RF_cellwise := r1',
                 L_global := forloop (nCells s) (\<lambda>i L. boundary_L ?s0' (gridCells ?s0' ! i) i t L)
                               (L_global ?s0')\<rparr>"
    and l1': "length r1' = length (RF_cellwise ?s0')"
    and r1': "\<forall>i<nCells s. i < length (RF_cellwise ?s0') \<longrightarrow>
        boundary_RF ops ?s0' (gridCells ?s0' ! i) t = Inr (r1' ! i)"
    by blast
  have "r1' = r1"
  proof (rule nth_equalityI)
    show "length r1' = length r1"
      using l1 l1' len len' by simp
    fix i assume "i < length r1'"
    then have i: "i < nCells s"
      using l1' len' by simp
    from r1 i len have "boundary_RF ops ?s0 (gridCells ?s0 ! i) t = Inr (r1 ! i)"
      by simp
    moreover from r1' i len' have "boundary_RF ops ?s0' (gridCells ?s0' ! i) t = Inr (r1' ! i)"
      by simp
    ultimately show "r1' ! i = r1 ! i"
      by (simp add: RF_eq)
  qed
  then have "s1' = s1"
    by (simp add: s1 s1' L_eq)
  with loop' have "forloopE (nCells s) (updateBoundaryCell ops t)
      (s\<lparr>RF_cellwise := rfs, L_global := L, L_global := vzero\<rparr>) = Inr s1"
    by simp
  then show ?thesis
    using g len' by (simp add: updateBoundaryConditions_def)
qed

lemma updateBC_changes_RF_L:
  assumes "updateBoundaryConditions ops t s = Inr s1"
  shows "\<exists>rfs L. s1 = s\<lparr>RF_cellwise := rfs, L_global := L\<rparr> \<and> length rfs = length (RF_cellwise s)"
proof -
  from assms have loop: "forloopE (nCells s) (updateBoundaryCell ops t) (s\<lparr>L_global := vzero\<rparr>) = Inr s1"
    by (auto simp: updateBoundaryConditions_def split: if_splits)
  from updateBC_loop [OF loop] obtain r1 L where
    "s1 = s\<lparr>L_global := vzero\<rparr>\<lparr>RF_cellwise := r1, L_global := L\<rparr>"
    "length r1 = length (RF_cellwise (s\<lparr>L_global := vzero\<rparr>))"
    by blast
  then show ?thesis by auto
qed

lemma cell_offset_bound3:
  assumes "var < nV" "i < nC" "b \<le> 2"
  shows "b * nV * k1 + var * k1 + i * 3 * nV * k1 + k1 \<le> nV * 3 * nC * (k1::nat)"
proof -
  define X where "X = nV * k1"
  have a: "var * k1 + k1 \<le> X"
    unfolding X_def using assms(1) by (metis Suc_leI mult_Suc mult_le_mono1 add.commute)
  have b: "i * (3 * X) + 3 * X \<le> nC * (3 * X)"
    using assms(2) by (metis Suc_leI mult_Suc mult_le_mono1 add.commute)
  have c: "b * X \<le> 2 * X"
    using assms(3) by (rule mult_le_mono1)
  have e1: "b * nV * k1 = b * X" and e2: "i * 3 * nV * k1 = i * (3 * X)"
    and e3: "nV * 3 * nC * k1 = nC * (3 * X)"
    by (simp_all add: X_def)
  from a b c show ?thesis
    unfolding e1 e2 e3 by linarith
qed

lemma offsets_fit:
  assumes fits: "state_length s < 2 ^ 32" and v: "var < nVar s" and i: "i < nCells s"
  shows "u32 (var * (kdeg s + 1) + i * 3 * nVar s * (kdeg s + 1))
           = var * (kdeg s + 1) + i * 3 * nVar s * (kdeg s + 1)"
    and "u32 (nVar s * (kdeg s + 1) + var * (kdeg s + 1) + i * 3 * nVar s * (kdeg s + 1))
           = nVar s * (kdeg s + 1) + var * (kdeg s + 1) + i * 3 * nVar s * (kdeg s + 1)"
    and "u32 (2 * nVar s * (kdeg s + 1) + var * (kdeg s + 1) + i * 3 * nVar s * (kdeg s + 1))
           = 2 * nVar s * (kdeg s + 1) + var * (kdeg s + 1) + i * 3 * nVar s * (kdeg s + 1)"
    and "u32 (i * 3 * nVar s * (kdeg s + 1)) = i * 3 * nVar s * (kdeg s + 1)"
    and "u32 (nVar s * nCells s * (3 * kdeg s + 3)) = nVar s * nCells s * (3 * kdeg s + 3)"
proof -
  have "nVar s * 3 * nCells s * (kdeg s + 1) \<le> state_length s"
    unfolding state_length_def by (rule le_add1)
  then have le: "nVar s * 3 * nCells s * (kdeg s + 1) < 2 ^ 32"
    by (rule le_less_trans [OF _ fits])
  from cell_offset_bound3 [OF v i, of 0 "kdeg s + 1"] le
  show "u32 (var * (kdeg s + 1) + i * 3 * nVar s * (kdeg s + 1))
           = var * (kdeg s + 1) + i * 3 * nVar s * (kdeg s + 1)"
    by (intro u32_id) simp
  from cell_offset_bound3 [OF v i, of 1 "kdeg s + 1"] le
  show "u32 (nVar s * (kdeg s + 1) + var * (kdeg s + 1) + i * 3 * nVar s * (kdeg s + 1))
           = nVar s * (kdeg s + 1) + var * (kdeg s + 1) + i * 3 * nVar s * (kdeg s + 1)"
    by (intro u32_id) simp
  from cell_offset_bound3 [OF v i, of 2 "kdeg s + 1"] le
  show "u32 (2 * nVar s * (kdeg s + 1) + var * (kdeg s + 1) + i * 3 * nVar s * (kdeg s + 1))
           = 2 * nVar s * (kdeg s + 1) + var * (kdeg s + 1) + i * 3 * nVar s * (kdeg s + 1)"
    by (intro u32_id) simp
  from cell_offset_bound3 [OF v i, of 0 "kdeg s + 1"] le
  show "u32 (i * 3 * nVar s * (kdeg s + 1)) = i * 3 * nVar s * (kdeg s + 1)"
    by (intro u32_id) simp
  have "nVar s * nCells s * (3 * kdeg s + 3) = nVar s * 3 * nCells s * (kdeg s + 1)"
    by (simp add: algebra_simps)
  with le show "u32 (nVar s * nCells s * (3 * kdeg s + 3)) = nVar s * nCells s * (3 * kdeg s + 3)"
    by (intro u32_id) simp
qed

lemma forloop_triple:
  "forloop n (\<lambda>i (a, b, c). (f i a, g i b, h i c)) (a0, b0, c0)
     = (forloop n f a0, forloop n g b0, forloop n h c0)"
  by (induction n) auto

lemma forloop_pair:
  "forloop n (\<lambda>i (a, b). (f i a, g i b)) (a0, b0) = (forloop n f a0, forloop n g b0)"
  by (induction n) auto

lemma block_index:
  assumes "n * k1 \<le> a" "a < n * k1 + k1"
  shows "a div k1 = n" "a - n * k1 = a mod (k1::nat)"
proof -
  from assms have k: "0 < k1" by (cases k1) auto
  from assms obtain r where a: "a = n * k1 + r" and r: "r < k1"
    by (metis add.commute le_Suc_ex nat_add_left_cancel_less)
  show "a div k1 = n" using k r by (simp add: a)
  show "a - n * k1 = a mod k1" using k r by (simp add: a)
qed

lemma blockdiag_loop:
  "forloop n (\<lambda>var M. set_block M (var * k1) (var * k1) k1 k1 Mv) M0 =
     (\<lambda>a b. if a < n * k1 \<and> b < n * k1 \<and> a div k1 = b div k1
            then Mv (a mod k1) (b mod k1) else M0 a b)"
proof (induction n)
  case 0
  then show ?case by simp
next
  case (Suc n)
  show ?case
  proof (intro ext)
    fix a b
    consider (inb) "n * k1 \<le> a \<and> a < n * k1 + k1 \<and> n * k1 \<le> b \<and> b < n * k1 + k1"
      | (outb) "\<not> (n * k1 \<le> a \<and> a < n * k1 + k1 \<and> n * k1 \<le> b \<and> b < n * k1 + k1)"
      by blast
    then show "forloop (Suc n) (\<lambda>var M. set_block M (var * k1) (var * k1) k1 k1 Mv) M0 a b =
       (if a < Suc n * k1 \<and> b < Suc n * k1 \<and> a div k1 = b div k1
        then Mv (a mod k1) (b mod k1) else M0 a b)"
    proof cases
      case inb
      then have "a div k1 = n" "b div k1 = n" "a - n * k1 = a mod k1" "b - n * k1 = b mod k1"
        using block_index by blast+
      with inb show ?thesis
        by (simp add: Suc.IH) (simp add: set_block_def add.commute)
    next
      case outb
      have k: "a < n * k1 \<and> b < n * k1 \<and> a div k1 = b div k1 \<longleftrightarrow>
               a < Suc n * k1 \<and> b < Suc n * k1 \<and> a div k1 = b div k1"
      proof (cases "k1 = 0")
        case True
        then show ?thesis by simp
      next
        case False
        then have pos: "0 < k1" by simp
        show ?thesis
        proof
          assume "a < n * k1 \<and> b < n * k1 \<and> a div k1 = b div k1"
          then show "a < Suc n * k1 \<and> b < Suc n * k1 \<and> a div k1 = b div k1"
            by simp
        next
          assume r: "a < Suc n * k1 \<and> b < Suc n * k1 \<and> a div k1 = b div k1"
          show "a < n * k1 \<and> b < n * k1 \<and> a div k1 = b div k1"
          proof (rule ccontr)
            assume "\<not> ?thesis"
            with r have "n * k1 \<le> a \<or> n * k1 \<le> b" by auto
            then have "n \<le> a div k1 \<or> n \<le> b div k1"
              using pos by (simp add: less_eq_div_iff_mult_less_eq)
            with r have "n \<le> a div k1 \<and> n \<le> b div k1" by simp
            then have "n * k1 \<le> a \<and> n * k1 \<le> b"
              using pos by (simp add: less_eq_div_iff_mult_less_eq)
            with r outb show False by (simp add: add.commute)
          qed
        qed
      qed
      have "forloop (Suc n) (\<lambda>var M. set_block M (var * k1) (var * k1) k1 k1 Mv) M0 a b =
          (if a < n * k1 \<and> b < n * k1 \<and> a div k1 = b div k1
           then Mv (a mod k1) (b mod k1) else M0 a b)"
        using outb by (simp add: Suc.IH) (auto simp: set_block_def)
      then show ?thesis
        by (simp only: k)
    qed
  qed
qed

lemma forloop_mset2:
  "forloop n (\<lambda>i M. forloop m (\<lambda>j M. mset M i j (M i j + f i j)) M) M0 =
     (\<lambda>i j. if i < n \<and> j < m then M0 i j + f i j else M0 i j)"
proof -
  have inner: "forloop m (\<lambda>j M. mset M i j (M i j + f i j)) M =
      (\<lambda>i' j. if i' = i \<and> j < m then M i j + f i j else M i' j)" for i M m
    by (induction m) (auto simp: mset_def fun_eq_iff less_Suc_eq)
  show ?thesis
    by (induction n) (auto simp: inner fun_eq_iff less_Suc_eq)
qed

lemma Dvar_cell_eq:
  "Dvar_cell ops s I =
     (\<lambda>i j. if i < kdeg s + 1 \<and> j < kdeg s + 1
        then DerivativeMatrixW ops I (c_fn s) j i * (- 1) +
               (tau s (x_l I) * phi ops I j (x_l I) * phi ops I i (x_l I) +
                tau s (x_u I) * phi ops I j (x_u I) * phi ops I i (x_u I))
        else DerivativeMatrixW ops I (c_fn s) j i * (- 1))"
  unfolding Dvar_cell_def Let_def forloop_mset2 mtranspose_def by simp

lemma assemble_ABD_eq:
  "assemble_ABD ops s I =
     (blockdiag (nVar s) (kdeg s + 1) (MassMatrix ops I),
      blockdiag (nVar s) (kdeg s + 1) (DerivativeMatrix ops I),
      blockdiag (nVar s) (kdeg s + 1) (Dvar_cell ops s I))"
  unfolding assemble_ABD_def Let_def forloop_triple blockdiag_loop blockdiag_def mzero_def
  by simp

lemma assemble_X_eq:
  "forloop N (\<lambda>var X. set_block X (var * k1) (var * k1) k1 k1 Mv) mzero = blockdiag N k1 Mv"
  unfolding blockdiag_loop blockdiag_def mzero_def by simp

lemma same_config_trans: "same_config s s' \<Longrightarrow> same_config s' s'' \<Longrightarrow> same_config s s''"
  by (simp add: same_config_def)

lemma updateMForJacSolve_nth:
  assumes init: "initialiseMatrices ops C0 E0 s0 = Inr s1"
    and later: "same_config s1 s" "MBlocks s = MBlocks s1"
    and i: "i < nCells s"
  shows "updateMForJacSolve ops s Ycur alpha delQ delU ! i =
     (let I = gridCells s ! i;
          n = nVar s * (kdeg s + 1);
          newQ = dg_sum (dg_of Ycur (q_coeffs s)) delQ;
          newU = dg_sum (dg_of Ycur (u_coeffs s)) delU;
          A = blockdiag (nVar s) (kdeg s + 1) (MassMatrix ops I);
          B = blockdiag (nVar s) (kdeg s + 1) (DerivativeMatrix ops I);
          D = blockdiag (nVar s) (kdeg s + 1) (Dvar_cell ops s I);
          MX0 = M_cell_init s A B D;
          MX1 = add_block MX0 n (2 * n) n n
                  (blockdiag (nVar s) (kdeg s + 1) (MassMatrixW ops I (\<lambda>x. alpha)));
          MX2 = set_block MX1 (2 * n) n n n (NLqMat (diffObj s) newQ newU I);
          MX3 = set_block MX2 (2 * n) (2 * n) n n (NLuMat (diffObj s) newQ newU I);
          MX4 = add_block MX3 n n n n (setdFdqMat (sourceObj s) newQ newU I)
      in add_block MX4 n n n n (setdFdqMat (sourceObj s) newQ newU I))"
proof -
  note I = initialiseMatrices_Inr [OF init]
  from I(1) later(1) have cfg: "same_config s0 s"
    by (rule same_config_trans)
  then have eqs: "nCells s0 = nCells s" "gridCells s0 = gridCells s"
    by (simp_all add: same_config_def)
  have "MBlocks s ! i = (case assemble_ABD ops s0 (gridCells s0 ! i) of
                    (A, B, D) \<Rightarrow> M_cell_init s0 A B D)"
    using i by (simp add: later(2) I(4) eqs)
  also have "\<dots> = (case assemble_ABD ops s (gridCells s ! i) of
                    (A, B, D) \<Rightarrow> M_cell_init s A B D)"
    by (simp add: assemble_ABD_config [OF cfg] M_cell_init_config [OF cfg] eqs)
  finally have MB: "MBlocks s ! i = M_cell_init s
      (blockdiag (nVar s) (kdeg s + 1) (MassMatrix ops (gridCells s ! i)))
      (blockdiag (nVar s) (kdeg s + 1) (DerivativeMatrix ops (gridCells s ! i)))
      (blockdiag (nVar s) (kdeg s + 1) (Dvar_cell ops s (gridCells s ! i)))"
    by (simp add: assemble_ABD_eq)
  show ?thesis
    using i unfolding updateMForJacSolve_def Let_def forloop_snoc assemble_X_eq
    by (simp add: MB)
qed

lemma blockdiag_Dvar:
  fixes ops :: "real dg_ops"
  shows "blockdiag N (kdeg s + 1) (Dvar_cell ops s I) = blockdiag N (kdeg s + 1) (Dv_spec ops s I)"
  by (auto simp: blockdiag_def Dvar_cell_eq Dv_spec_def fun_eq_iff)

lemma boundary_RF_returns:
  "(\<exists>rf. boundary_RF ops s I t = Inr rf) \<longleftrightarrow>
     \<not> (x_u I = UpperBound (BCs s) \<and> isUBoundDirichlet (BCs s) \<and> kdeg s = 0 \<and> 0 < nVar s)"
  by (auto simp: boundary_RF_def Let_def)

lemma initialise_loop_returns:
  "\<forall>i<n. \<exists>rf. boundary_RF ops s0 (gridCells s0 ! i) 0 = Inr rf \<Longrightarrow>
   \<exists>C E HG s1. forloopE n (initialiseCell ops) (C0, E0, HG0, s0) = Inr (C, E, HG, s1)"
proof (induction n)
  case 0
  then show ?case by simp
next
  case (Suc n)
  then obtain C E HG s' where
    loop: "forloopE n (initialiseCell ops) (C0, E0, HG0, s0) = Inr (C, E, HG, s')"
    by auto
  from initialise_loop [OF loop] have cfg: "same_config s0 s'" by blast
  then have g: "gridCells s' = gridCells s0"
    by (simp add: same_config_def)
  from Suc.prems obtain rf where "boundary_RF ops s0 (gridCells s0 ! n) 0 = Inr rf"
    by auto
  then have "\<exists>C1 E1 HG1 s1. initialiseCell ops n (C, E, HG, s') = Inr (C1, E1, HG1, s1)"
    by (simp add: initialiseCell_def Let_def g boundary_RF_config [OF cfg] split: prod.splits)
  then show ?case
    by (auto simp: loop)
qed

lemma initialiseMatrices_returns:
  assumes "nCells s0 \<le> length (gridCells s0)"
    and "\<forall>i<nCells s0. \<not> (x_u (gridCells s0 ! i) = UpperBound (BCs s0) \<and>
            isUBoundDirichlet (BCs s0) \<and> kdeg s0 = 0 \<and> 0 < nVar s0)"
  shows "\<exists>s. initialiseMatrices ops C0 E0 s0 = Inr s"
proof -
  let ?s = "clearCellwiseVecs (s0\<lparr>K_global := mzero, L_global := vzero\<rparr>)"
  have cfg: "same_config s0 ?s"
    by (simp add: same_config_def clearCellwiseVecs_def)
  have n: "nCells ?s = nCells s0" and g: "gridCells ?s = gridCells s0"
    by (simp_all add: clearCellwiseVecs_def)
  have "\<forall>i<nCells s0. \<exists>rf. boundary_RF ops ?s (gridCells ?s ! i) 0 = Inr rf"
    using assms(2) by (simp add: boundary_RF_config [OF cfg] g boundary_RF_returns)
  from initialise_loop_returns [OF this] obtain C E HG s1 where
    "forloopE (nCells s0) (initialiseCell ops) (C0, E0, mzero, ?s) = Inr (C, E, HG, s1)"
    by blast
  then show ?thesis
    using assms(1) by (simp add: initialiseMatrices_def)
qed

lemma ex_initialised:
  "\<exists>s. initialiseMatrices (ex_ops k) mzero mzero (ex_solver k 1 1 False False) = Inr s"
  by (rule initialiseMatrices_returns) (simp_all add: ex_solver_def)

lemma updateMForJacSolve_blocks:
  fixes ops :: "real dg_ops"
  assumes init: "initialiseMatrices ops C0 E0 s0 = Inr s1"
    and later: "same_config s1 s" "MBlocks s = MBlocks s1"
    and i: "i < nCells s"
    and a: "a < nVar s * (kdeg s + 1)" and b: "b < nVar s * (kdeg s + 1)"
  shows "(let n = nVar s * (kdeg s + 1);
              I = gridCells s ! i;
              A = blockdiag (nVar s) (kdeg s + 1) (MassMatrix ops I);
              B = blockdiag (nVar s) (kdeg s + 1) (DerivativeMatrix ops I);
              D = blockdiag (nVar s) (kdeg s + 1) (Dv_spec ops s I);
              X = blockdiag (nVar s) (kdeg s + 1) (MassMatrixW ops I (\<lambda>x. alpha));
              newQ = dg_sum (dg_of Ycur (q_coeffs s)) delQ;
              newU = dg_sum (dg_of Ycur (u_coeffs s)) delU;
              MX = updateMForJacSolve ops s Ycur alpha delQ delU ! i
          in MX a b = 0 \<and> MX a (n + b) = - A a b \<and> MX a (2 * n + b) = - B b a \<and>
             MX (n + a) b = B a b \<and>
             MX (n + a) (n + b) = setdFdqMat (sourceObj s) newQ newU I a b
                                   + setdFdqMat (sourceObj s) newQ newU I a b \<and>
             MX (n + a) (2 * n + b) = D a b + X a b \<and>
             MX (2 * n + a) b = A a b \<and>
             MX (2 * n + a) (n + b) = NLqMat (diffObj s) newQ newU I a b \<and>
             MX (2 * n + a) (2 * n + b) = NLuMat (diffObj s) newQ newU I a b)"
proof -
  define n where "n = nVar s * (kdeg s + 1)"
  have ab: "a < n" "b < n"
    using a b by (simp_all add: n_def)
  show ?thesis
    unfolding updateMForJacSolve_nth [OF init later i] Let_def M_cell_init_def blockdiag_Dvar
      n_def [symmetric]
    using ab by (simp add: set_block_def add_block_def mzero_def mneg_def mtranspose_def)
qed

lemma updateBoundaryConditions_returns:
  assumes "nCells s \<le> length (gridCells s)" "nCells s \<le> length (RF_cellwise s)"
    and "\<forall>i<nCells s. \<not> (x_u (gridCells s ! i) = UpperBound (BCs s) \<and>
            isUBoundDirichlet (BCs s) \<and> kdeg s = 0 \<and> 0 < nVar s)"
  shows "\<exists>s1. updateBoundaryConditions ops t s = Inr s1"
proof -
  have "\<forall>i<nCells s. \<exists>rf. boundary_RF ops (s\<lparr>L_global := vzero\<rparr>)
           (gridCells (s\<lparr>L_global := vzero\<rparr>) ! i) t = Inr rf"
    using assms(3) by (simp add: boundary_RF_returns)
  from updateBC_loop_returns [OF this] show ?thesis
    using assms(1,2) by (simp add: updateBoundaryConditions_def)
qed

section \<open>Initial conditions\<close>

lemma bind_fields_frame:
  "\<exists>a b c d e f g h. bind_fields s1 =
     s1\<lparr>sig_coeffs := a, q_coeffs := b, u_coeffs := c, dsigdt_coeffs := d,
        dqdt_coeffs := e, dudt_coeffs := f, lambda := g, dlamdt := h\<rparr>"
  by (simp add: bind_fields_def Let_def split: prod.splits) blast

lemma bind_fields_fresh:
  assumes "sig_coeffs s1 = []" "q_coeffs s1 = []" "u_coeffs s1 = []"
    "dsigdt_coeffs s1 = []" "dqdt_coeffs s1 = []" "dudt_coeffs s1 = []" "0 < nVar s1"
  shows "(sig_coeffs (bind_fields s1), q_coeffs (bind_fields s1), u_coeffs (bind_fields s1),
          the (lambda (bind_fields s1))) = mapDGtoSundials s1 ([], [], [], (0, 0))"
    and "(dsigdt_coeffs (bind_fields s1), dqdt_coeffs (bind_fields s1),
          dudt_coeffs (bind_fields s1), the (dlamdt (bind_fields s1)))
           = mapDGtoSundials s1 ([], [], [], (0, 0))"
  using assms by (simp_all add: bind_fields_def Let_def mapDGtoSundials_eq split: prod.splits)

lemma setInitialConditions_Inr:
  assumes set: "setInitialConditions ops C0 E0 sys u_0 gradu_0 sigma_0 Y dYdt = Inr (Y', dYdt', s)"
    and fresh: "\<not> initialised sys"
  shows "\<exists>s1. initialiseMatrices ops C0 E0 sys = Inr s1 \<and> initial_in_range s1 Y dYdt \<and>
           s = bind_fields s1 \<and>
           Y' = Y\<lparr>N_VGetArrayPointer :=
                   initial_Y ops s (N_VGetArrayPointer Y) u_0 gradu_0 sigma_0\<rparr> \<and>
           dYdt' = dYdt\<lparr>N_VGetArrayPointer :=
                   initial_dYdt ops s (N_VGetArrayPointer Y') (N_VGetArrayPointer dYdt)\<rparr> \<and>
           same_config s1 s \<and> MBlocks s = MBlocks s1 \<and> CEBlocks s = CEBlocks s1 \<and>
           CG_cellwise s = CG_cellwise s1 \<and> H_cellwise s = H_cellwise s1 \<and>
           RF_cellwise s = RF_cellwise s1 \<and> A_cellwise s = A_cellwise s1 \<and>
           B_cellwise s = B_cellwise s1 \<and> C_cellwise s = C_cellwise s1 \<and>
           D_cellwise s = D_cellwise s1 \<and> E_cellwise s = E_cellwise s1 \<and>
           G_cellwise s = G_cellwise s1 \<and> L_global s = L_global s1 \<and>
           H_global s = H_global s1"
proof -
  from set fresh obtain s1 where init: "initialiseMatrices ops C0 E0 sys = Inr s1"
    by (auto simp: setInitialConditions_def split: sum.splits)
  from set fresh init have rng: "initial_in_range s1 Y dYdt"
    by (auto simp: setInitialConditions_def split: if_splits)
  from set fresh init rng have res: "s = bind_fields s1"
    "Y' = Y\<lparr>N_VGetArrayPointer := initial_Y ops s (N_VGetArrayPointer Y) u_0 gradu_0 sigma_0\<rparr>"
    "dYdt' = dYdt\<lparr>N_VGetArrayPointer :=
                   initial_dYdt ops s (N_VGetArrayPointer Y') (N_VGetArrayPointer dYdt)\<rparr>"
    by (auto simp: setInitialConditions_def Let_def)
  from bind_fields_frame [of s1] res(1) obtain a b c d e f g h where
    "s = s1\<lparr>sig_coeffs := a, q_coeffs := b, u_coeffs := c, dsigdt_coeffs := d,
            dqdt_coeffs := e, dudt_coeffs := f, lambda := g, dlamdt := h\<rparr>"
    by auto
  then have "same_config s1 s \<and> MBlocks s = MBlocks s1 \<and> CEBlocks s = CEBlocks s1 \<and>
           CG_cellwise s = CG_cellwise s1 \<and> H_cellwise s = H_cellwise s1 \<and>
           RF_cellwise s = RF_cellwise s1 \<and> A_cellwise s = A_cellwise s1 \<and>
           B_cellwise s = B_cellwise s1 \<and> C_cellwise s = C_cellwise s1 \<and>
           D_cellwise s = D_cellwise s1 \<and> E_cellwise s = E_cellwise s1 \<and>
           G_cellwise s = G_cellwise s1 \<and> L_global s = L_global s1 \<and>
           H_global s = H_global s1"
    by (simp add: same_config_def)
  with init rng res show ?thesis
    by (intro exI [of _ s1]) simp
qed

lemma setInitialConditions_returns:
  assumes "initialiseMatrices ops C0 E0 sys = Inr s1" "\<not> initialised sys"
    "initial_in_range s1 Y dYdt"
  shows "\<exists>Y' dYdt' s. setInitialConditions ops C0 E0 sys u_0 gradu_0 sigma_0 Y dYdt
           = Inr (Y', dYdt', s)"
  using assms by (simp add: setInitialConditions_def Let_def split: prod.splits)

lemma ex_initial_conditions:
  "\<exists>Y' dYdt' s s1.
     setInitialConditions (ex_ops 0) mzero mzero (ex_solver 0 1 1 False False)
       (\<lambda>x. 1) (\<lambda>x. 0) (\<lambda>x. 0) (zero_vector 5) (zero_vector 5) = Inr (Y', dYdt', s) \<and>
     initialiseMatrices (ex_ops 0) mzero mzero (ex_solver 0 1 1 False False) = Inr s1 \<and>
     same_config (ex_solver 0 1 1 False False) s1 \<and> same_config s1 s \<and> MBlocks s = MBlocks s1"
proof -
  let ?sys = "ex_solver 0 1 1 False False"
  obtain s1 where init: "initialiseMatrices (ex_ops 0) mzero mzero ?sys = Inr s1"
    using initialiseMatrices_returns [of ?sys "ex_ops 0" mzero mzero]
    by (auto simp: ex_solver_def)
  note I = initialiseMatrices_Inr [OF init]
  have fresh: "\<not> initialised ?sys"
    by (simp add: ex_solver_def)
  from I(1) have cfg: "nCells s1 = 1" "kdeg s1 = 0" "nVar s1 = 1" "length (gridCells s1) = 1"
    by (simp_all add: same_config_def ex_solver_def)
  have rng: "initial_in_range s1 (zero_vector 5) (zero_vector 5)"
    using I cfg by (simp add: initial_in_range_def state_length_def zero_vector_def ex_solver_def)
  from setInitialConditions_returns [OF init fresh rng] obtain Y' dYdt' s where
    set: "setInitialConditions (ex_ops 0) mzero mzero ?sys (\<lambda>x. 1) (\<lambda>x. 0) (\<lambda>x. 0)
            (zero_vector 5) (zero_vector 5) = Inr (Y', dYdt', s)"
    by blast
  from setInitialConditions_Inr [OF set fresh] init I(1) set show ?thesis
    by auto
qed

lemma ex_initial_eq:
  "setInitialConditions (ex_ops 0) mzero mzero (ex_solver 0 1 1 False False)
     (\<lambda>x. 1) (\<lambda>x. 0) (\<lambda>x. 0) (zero_vector 5) (zero_vector 5) = Inr (ex_Y, ex_dYdt, ex_system)"
  using ex_initial_conditions by (auto simp: ex_initial_def ex_Y_def ex_dYdt_def ex_system_def)

lemma ex_system_assembled:
  "\<exists>s1. initialiseMatrices (ex_ops 0) mzero mzero (ex_solver 0 1 1 False False) = Inr s1 \<and>
     initial_in_range s1 (zero_vector 5) (zero_vector 5) \<and>
     same_config s1 ex_system \<and> MBlocks ex_system = MBlocks s1 \<and>
     CEBlocks ex_system = CEBlocks s1 \<and> CG_cellwise ex_system = CG_cellwise s1 \<and>
     H_cellwise ex_system = H_cellwise s1 \<and> RF_cellwise ex_system = RF_cellwise s1 \<and>
     A_cellwise ex_system = A_cellwise s1 \<and> B_cellwise ex_system = B_cellwise s1 \<and>
     C_cellwise ex_system = C_cellwise s1 \<and> D_cellwise ex_system = D_cellwise s1 \<and>
     E_cellwise ex_system = E_cellwise s1 \<and> G_cellwise ex_system = G_cellwise s1 \<and>
     L_global ex_system = L_global s1 \<and> H_global ex_system = H_global s1"
proof -
  have "\<not> initialised (ex_solver 0 1 1 False False)"
    by (simp add: ex_solver_def)
  from setInitialConditions_Inr [OF ex_initial_eq this] show ?thesis
    by blast
qed

lemma ex_system_config: "same_config (ex_solver 0 1 1 False False) ex_system"
  using ex_system_assembled initialiseMatrices_Inr(1) same_config_trans by blast

lemma ex_system_fields:
  "nCells ex_system = 1" "nVar ex_system = 1" "kdeg ex_system = 0"
  "gridCells ex_system = [\<lparr>x_l = 0, x_u = 1\<rparr>]" "tau ex_system = (\<lambda>x. 1)"
  "c_fn ex_system = (\<lambda>x. 0)" "RHS ex_system = (\<lambda>x. 0)"
  "BCs ex_system = BCs (ex_solver 0 1 1 False False)"
  "diffObj ex_system = diffObj (ex_solver 0 1 1 False False)"
  "sourceObj ex_system = sourceObj (ex_solver 0 1 1 False False)"
  using ex_system_config by (simp_all add: same_config_def ex_solver_def)

lemma initialiseCell_bindings:
  assumes "initialiseCell ops i (C0, E0, HG0, s) = Inr (C, E, HG, s')"
  shows "same_bindings s s'"
  using assms
  by (auto simp: initialiseCell_def Let_def same_bindings_def split: sum.splits prod.splits)

lemma initialise_loop_bindings:
  "forloopE n (initialiseCell ops) (C0, E0, HG0, s0) = Inr (C, E, HG, s1) \<Longrightarrow> same_bindings s0 s1"
proof (induction n arbitrary: C E HG s1)
  case 0
  then show ?case by (simp add: same_bindings_def)
next
  case (Suc n)
  from Suc.prems obtain C' E' HG' s' where
    loop: "forloopE n (initialiseCell ops) (C0, E0, HG0, s0) = Inr (C', E', HG', s')"
    and step: "initialiseCell ops n (C', E', HG', s') = Inr (C, E, HG, s1)"
    by (auto split: sum.splits)
  from Suc.IH [OF loop] initialiseCell_bindings [OF step] show ?case
    by (simp add: same_bindings_def)
qed

lemma initialiseMatrices_bindings:
  assumes "initialiseMatrices ops C0 E0 s0 = Inr s"
  shows "same_bindings s0 s"
proof -
  let ?s = "clearCellwiseVecs (s0\<lparr>K_global := mzero, L_global := vzero\<rparr>)"
  from assms obtain C E HG s1 where
    loop: "forloopE (nCells s0) (initialiseCell ops) (C0, E0, mzero, ?s) = Inr (C, E, HG, s1)"
    and s: "s = s1\<lparr>H_global := HG, H_global_mat := HG, initialised := True\<rparr>"
    by (auto simp: initialiseMatrices_def clearCellwiseVecs_def split: sum.splits if_splits)
  from initialise_loop_bindings [OF loop] show ?thesis
    by (simp add: s same_bindings_def clearCellwiseVecs_def)
qed

lemma setInitialConditions_counters:
  assumes set: "setInitialConditions ops C0 E0 sys u_0 gradu_0 sigma_0 Y dYdt = Inr (Y', dYdt', s)"
  shows "total_steps s = total_steps sys \<and> testing s = testing sys \<and>
         resNorm s = resNorm sys \<and> alpha_shift s = alpha_shift sys \<and>
         N_VGetLength Y' = N_VGetLength Y \<and> N_VGetLength dYdt' = N_VGetLength dYdt"
proof -
  from set obtain s1 where
    init: "(if \<not> initialised sys then initialiseMatrices ops C0 E0 sys else Inr sys) = Inr s1"
    by (auto simp: setInitialConditions_def split: sum.splits)
  then have b: "same_bindings sys s1"
    using initialiseMatrices_bindings [of ops C0 E0 sys s1]
    by (auto simp: same_bindings_def split: if_splits)
  from set init have rng: "initial_in_range s1 Y dYdt"
    by (auto simp: setInitialConditions_def split: if_splits)
  from set init rng obtain y y' where
    "s = bind_fields s1"
    "Y' = Y\<lparr>N_VGetArrayPointer := y\<rparr>" "dYdt' = dYdt\<lparr>N_VGetArrayPointer := y'\<rparr>"
    by (auto simp: setInitialConditions_def Let_def)
  with b bind_fields_frame [of s1] show ?thesis
    by (auto simp: same_bindings_def)
qed

lemma residual_Inr:
  assumes "residual ops sys files t Y dydt resval = Inr (res', s', files', ret)"
  shows "\<exists>s. updateBoundaryConditions ops t sys = Inr s \<and> residual_in_range s Y dydt resval \<and>
           ret = 0 \<and>
           s' = s\<lparr>total_steps := total_steps s + 1,
                  resNorm := (if testing s then vnorm ops (N_VGetLength resval)
                                 (N_VGetArrayPointer res') else resNorm s)\<rparr> \<and>
           files' = files(''trial.plot'' \<mapsto> [print_Y ops s 0 200 0 (N_VGetArrayPointer dydt)]) \<and>
           res' = resval\<lparr>N_VGetArrayPointer := residual_values ops s Y dydt resval\<rparr>"
proof -
  from assms obtain s where upd: "updateBoundaryConditions ops t sys = Inr s"
    by (auto simp: residual_def split: sum.splits)
  from assms upd have rng: "residual_in_range s Y dydt resval"
    by (auto simp: residual_def split: if_splits)
  from assms show ?thesis
    unfolding residual_def upd sum.case Let_def using rng
    by (intro exI [of _ s]) (auto simp: upd)
qed

lemma residual_returns:
  assumes "updateBoundaryConditions ops t sys = Inr s" "residual_in_range s Y dydt resval"
  shows "\<exists>res' s' files'. residual ops sys files t Y dydt resval = Inr (res', s', files', 0)"
  using assms by (simp add: residual_def Let_def)

lemma mapDGtoSundials_config:
  "same_config s s' \<Longrightarrow> mapDGtoSundials s' st = mapDGtoSundials s st"
  unfolding same_config_def mapDGtoSundials_def by (elim conjE) (simp only:)

lemma print_Y_config:
  "same_config s s' \<Longrightarrow> print_Y ops s' t nOut var tempY = print_Y ops s t nOut var tempY"
  unfolding print_Y_def by (simp add: mapDGtoSundials_config) (simp add: same_config_def)

lemma ex_system_lengths:
  "length (RF_cellwise ex_system) = 1" "length (A_cellwise ex_system) = 1"
  "length (B_cellwise ex_system) = 1" "length (C_cellwise ex_system) = 1"
  "length (D_cellwise ex_system) = 1" "length (E_cellwise ex_system) = 1"
  "length (G_cellwise ex_system) = 1" "length (H_cellwise ex_system) = 1"
  "length (CG_cellwise ex_system) = 1" "length (CEBlocks ex_system) = 1"
  "length (MBlocks ex_system) = 1"
proof -
  from ex_system_assembled obtain s1 where
    init: "initialiseMatrices (ex_ops 0) mzero mzero (ex_solver 0 1 1 False False) = Inr s1"
    and eqs: "MBlocks ex_system = MBlocks s1"
     "CEBlocks ex_system = CEBlocks s1" "CG_cellwise ex_system = CG_cellwise s1"
     "H_cellwise ex_system = H_cellwise s1" "RF_cellwise ex_system = RF_cellwise s1"
     "A_cellwise ex_system = A_cellwise s1" "B_cellwise ex_system = B_cellwise s1"
     "C_cellwise ex_system = C_cellwise s1" "D_cellwise ex_system = D_cellwise s1"
     "E_cellwise ex_system = E_cellwise s1" "G_cellwise ex_system = G_cellwise s1"
    by blast
  note I = initialiseMatrices_Inr [OF init]
  show "length (RF_cellwise ex_system) = 1" "length (A_cellwise ex_system) = 1"
  "length (B_cellwise ex_system) = 1" "length (C_cellwise ex_system) = 1"
  "length (D_cellwise ex_system) = 1" "length (E_cellwise ex_system) = 1"
  "length (G_cellwise ex_system) = 1" "length (H_cellwise ex_system) = 1"
  "length (CG_cellwise ex_system) = 1" "length (CEBlocks ex_system) = 1"
  "length (MBlocks ex_system) = 1"
    using I by (simp_all add: eqs) (simp_all add: ex_solver_def)
qed

lemma ex_vectors:
  "N_VGetLength ex_Y = 5" "N_VGetLength ex_dYdt = 5" "total_steps ex_system = 0"
  "testing ex_system = False"
  using setInitialConditions_counters [OF ex_initial_eq]
  by (simp_all add: zero_vector_def ex_solver_def)

lemma ex_run_eq:
  "residual (ex_ops 0) ex_system (\<lambda>name. None) 0 ex_Y ex_dYdt (zero_vector 5) = Inr ex_run"
proof -
  note f = ex_system_fields and l = ex_system_lengths
  obtain s where upd: "updateBoundaryConditions (ex_ops 0) 0 ex_system = Inr s"
    using updateBoundaryConditions_returns [of ex_system "ex_ops 0" 0]
    by (auto simp: f l ex_solver_def)
  from updateBC_changes_RF_L [OF upd] obtain rfs L where
    s: "s = ex_system\<lparr>RF_cellwise := rfs, L_global := L\<rparr>"
    by blast
  have "residual_in_range s ex_Y ex_dYdt (zero_vector 5)"
    by (simp add: s residual_in_range_def state_length_def f l ex_vectors zero_vector_def)
  from residual_returns [OF upd this, of "\<lambda>name. None"] obtain r where
    "residual (ex_ops 0) ex_system (\<lambda>name. None) 0 ex_Y ex_dYdt (zero_vector 5) = Inr r"
    by blast
  then show ?thesis
    by (simp add: ex_run_def)
qed

lemma setInitialConditions_fresh:
  assumes fresh: "\<not> initialised sys" "D_cellwise sys = []" "CEBlocks sys = []"
    and grid: "nCells sys \<le> length (gridCells sys)"
    and safe: "\<forall>i<nCells sys. \<not> (x_u (gridCells sys ! i) = UpperBound (BCs sys) \<and>
            isUBoundDirichlet (BCs sys) \<and> kdeg sys = 0 \<and> 0 < nVar sys)"
    and len: "state_length sys \<le> N_VGetLength Y" "state_length sys \<le> N_VGetLength dYdt"
  shows "\<exists>Y' dYdt' s. setInitialConditions ops C0 E0 sys u_0 gradu_0 sigma_0 Y dYdt
           = Inr (Y', dYdt', s) \<and> same_config sys s \<and>
         length (RF_cellwise s) = nCells sys \<and> length (A_cellwise s) = nCells sys \<and>
         length (B_cellwise s) = nCells sys \<and> length (C_cellwise s) = nCells sys \<and>
         length (D_cellwise s) = nCells sys \<and> length (E_cellwise s) = nCells sys \<and>
         length (G_cellwise s) = nCells sys \<and> length (H_cellwise s) = nCells sys \<and>
         length (CG_cellwise s) = nCells sys \<and> length (CEBlocks s) = nCells sys \<and>
         length (MBlocks s) = nCells sys"
proof -
  from initialiseMatrices_returns [OF grid safe] obtain s1 where
    init: "initialiseMatrices ops C0 E0 sys = Inr s1"
    by blast
  note I = initialiseMatrices_Inr [OF init]
  from I(1) have cfg: "nCells s1 = nCells sys" "gridCells s1 = gridCells sys"
    "state_length s1 = state_length sys"
    by (simp_all add: same_config_def state_length_def)
  have rng: "initial_in_range s1 Y dYdt"
    using I len grid fresh by (simp add: initial_in_range_def cfg)
  from setInitialConditions_returns [OF init fresh(1) rng] obtain Y' dYdt' s where
    set: "setInitialConditions ops C0 E0 sys u_0 gradu_0 sigma_0 Y dYdt = Inr (Y', dYdt', s)"
    by blast
  from setInitialConditions_Inr [OF set fresh(1)] init have eqs:
    "same_config s1 s" "MBlocks s = MBlocks s1" "CEBlocks s = CEBlocks s1"
    "CG_cellwise s = CG_cellwise s1" "H_cellwise s = H_cellwise s1"
    "RF_cellwise s = RF_cellwise s1" "A_cellwise s = A_cellwise s1"
    "B_cellwise s = B_cellwise s1" "C_cellwise s = C_cellwise s1"
    "D_cellwise s = D_cellwise s1" "E_cellwise s = E_cellwise s1"
    "G_cellwise s = G_cellwise s1"
    by auto
  have "same_config sys s"
    using I(1) eqs(1) by (rule same_config_trans)
  with set I fresh show ?thesis
    by (intro exI [of _ Y'] exI [of _ dYdt'] exI [of _ s]) (simp add: eqs)
qed

lemma residual_after_initial:
  assumes cfg: "same_config sys s"
    and lens: "length (RF_cellwise s) = nCells sys" "length (A_cellwise s) = nCells sys"
       "length (B_cellwise s) = nCells sys" "length (C_cellwise s) = nCells sys"
       "length (D_cellwise s) = nCells sys" "length (E_cellwise s) = nCells sys"
       "length (G_cellwise s) = nCells sys"
    and grid: "nCells sys \<le> length (gridCells sys)"
    and safe: "\<forall>i<nCells sys. \<not> (x_u (gridCells sys ! i) = UpperBound (BCs sys) \<and>
            isUBoundDirichlet (BCs sys) \<and> kdeg sys = 0 \<and> 0 < nVar sys)"
    and len: "state_length sys \<le> N_VGetLength Y" "state_length sys \<le> N_VGetLength dydt"
       "state_length sys \<le> N_VGetLength resval"
    and var: "0 < nVar sys"
  shows "\<exists>res' s' files'. residual ops s files t Y dydt resval = Inr (res', s', files', 0)"
proof -
  from cfg have f: "nCells s = nCells sys" "gridCells s = gridCells sys" "BCs s = BCs sys"
    "kdeg s = kdeg sys" "nVar s = nVar sys"
    by (simp_all add: same_config_def)
  obtain s2 where upd: "updateBoundaryConditions ops t s = Inr s2"
    using updateBoundaryConditions_returns [of s ops t] grid safe lens(1)
    by (auto simp: f)
  from updateBC_changes_RF_L [OF upd] obtain rfs L where
    s2: "s2 = s\<lparr>RF_cellwise := rfs, L_global := L\<rparr>"
    by blast
  have "residual_in_range s2 Y dydt resval"
    using lens len var by (simp add: s2 residual_in_range_def state_length_def f)
  from residual_returns [OF upd this] show ?thesis .
qed

lemma nan_initial_ex:
  "\<exists>s. setInitialConditions nan_ops mzero mzero nan_solver
       (\<lambda>x. Fin 1) (\<lambda>x. Fin 0) (\<lambda>x. Fin 0) nan_vector nan_vector
         = Inr (fst nan_initial, fst (snd nan_initial), s) \<and> s = snd (snd nan_initial) \<and>
       same_config nan_solver s \<and>
         length (RF_cellwise s) = 1 \<and> length (A_cellwise s) = 1 \<and>
         length (B_cellwise s) = 1 \<and> length (C_cellwise s) = 1 \<and>
         length (D_cellwise s) = 1 \<and> length (E_cellwise s) = 1 \<and>
         length (G_cellwise s) = 1"
proof -
  have "\<exists>Y' dYdt' s. setInitialConditions nan_ops mzero mzero nan_solver
       (\<lambda>x. Fin 1) (\<lambda>x. Fin 0) (\<lambda>x. Fin 0) nan_vector nan_vector
           = Inr (Y', dYdt', s) \<and> same_config nan_solver s \<and>
         length (RF_cellwise s) = nCells nan_solver \<and> length (A_cellwise s) = nCells nan_solver \<and>
         length (B_cellwise s) = nCells nan_solver \<and> length (C_cellwise s) = nCells nan_solver \<and>
         length (D_cellwise s) = nCells nan_solver \<and> length (E_cellwise s) = nCells nan_solver \<and>
         length (G_cellwise s) = nCells nan_solver \<and> length (H_cellwise s) = nCells nan_solver \<and>
         length (CG_cellwise s) = nCells nan_solver \<and> length (CEBlocks s) = nCells nan_solver \<and>
         length (MBlocks s) = nCells nan_solver"
    by (rule setInitialConditions_fresh)
      (simp_all add: nan_solver_def nan_vector_def state_length_def)
  then show ?thesis
    by (auto simp: nan_initial_def) (simp_all add: nan_solver_def)
qed

lemma nan_run_eq:
  "residual nan_ops (snd (snd nan_initial)) (\<lambda>name. None) 0 (fst nan_initial)
       (fst (snd nan_initial)) nan_vector = Inr nan_run"
proof -
  from nan_initial_ex obtain s where
    set: "setInitialConditions nan_ops mzero mzero nan_solver
       (\<lambda>x. Fin 1) (\<lambda>x. Fin 0) (\<lambda>x. Fin 0) nan_vector nan_vector
         = Inr (fst nan_initial, fst (snd nan_initial), s)"
    and s: "s = snd (snd nan_initial)"
    and cfg: "same_config nan_solver s"
    and lens: "length (RF_cellwise s) = 1" "length (A_cellwise s) = 1"
         "length (B_cellwise s) = 1" "length (C_cellwise s) = 1"
         "length (D_cellwise s) = 1" "length (E_cellwise s) = 1"
         "length (G_cellwise s) = 1"
    by blast
  note c = setInitialConditions_counters [OF set]
  have "\<exists>res' s' files'. residual nan_ops s (\<lambda>name. None) 0 (fst nan_initial)
       (fst (snd nan_initial)) nan_vector = Inr (res', s', files', 0)"
    using lens c by (intro residual_after_initial [OF cfg])
      (simp_all add: nan_solver_def nan_vector_def state_length_def)
  then show ?thesis
    by (auto simp: nan_run_def s)
qed

lemma ex_upper_eq:
  "initialiseMatrices (ex_ops 1) mzero mzero (ex_solver 1 1 1 False True) = Inr ex_upper"
  using initialiseMatrices_returns [of "ex_solver 1 1 1 False True" "ex_ops 1" mzero mzero]
  by (auto simp: ex_solver_def ex_upper_def)

lemma ex_upper_fields:
  "nCells ex_upper = 1" "nVar ex_upper = 1" "kdeg ex_upper = 1"
  "gridCells ex_upper = [\<lparr>x_l = 0, x_u = 1\<rparr>]" "tau ex_upper = (\<lambda>x. 1)"
  "c_fn ex_upper = (\<lambda>x. 0)" "RHS ex_upper = (\<lambda>x. 0)"
  "BCs ex_upper = BCs (ex_solver 1 1 1 False True)"
  "length (RF_cellwise ex_upper) = 1"
  using initialiseMatrices_Inr(1,5) [OF ex_upper_eq]
  by (simp_all add: same_config_def ex_solver_def)

lemma ex_upper_updated_eq:
  "updateBoundaryConditions (ex_ops 1) 0 ex_upper = Inr ex_upper_updated"
  using updateBoundaryConditions_returns [of ex_upper "ex_ops 1" 0]
  by (auto simp: ex_upper_fields ex_upper_updated_def)

lemma assemble_CE_config:
  "same_config s s' \<Longrightarrow> assemble_CE ops s' I CE = assemble_CE ops s I CE"
  unfolding same_config_def assemble_CE_def CEvar_cell_def by (elim conjE) (simp only:)

lemma assemble_G_config:
  "same_config s s' \<Longrightarrow> assemble_G ops s' I = assemble_G ops s I"
  unfolding same_config_def assemble_G_def Gvar_cell_def by (elim conjE) (simp only:)

lemma assemble_H_config:
  "same_config s s' \<Longrightarrow> assemble_H s' I i HG = assemble_H s I i HG"
  unfolding same_config_def assemble_H_def Hvar_cell_def by (elim conjE) (simp only:)

lemma initialiseCell_values:
  assumes "initialiseCell ops i (C0, E0, HG0, s) = Inr (C, E, HG, s')"
  shows "C_cellwise s' = C_cellwise s @ [fst (assemble_CE ops s (gridCells s ! i) (C0, E0))]"
    and "E_cellwise s' = E_cellwise s @ [snd (assemble_CE ops s (gridCells s ! i) (C0, E0))]"
    and "G_cellwise s' = G_cellwise s @ [assemble_G ops s (gridCells s ! i)]"
    and "H_cellwise s' = H_cellwise s @ [fst (assemble_H s (gridCells s ! i) i HG0)]"
    and "HG = snd (assemble_H s (gridCells s ! i) i HG0)"
    and "L_global s' = boundary_L s (gridCells s ! i) i 0 (L_global s)"
    and "boundary_RF ops s (gridCells s ! i) 0 =
           Inr (((RF_cellwise s @ [vzero])[i := projr (boundary_RF ops s (gridCells s ! i) 0)]) ! i)
         \<or> length (RF_cellwise s) < i"
    and "RF_cellwise s' =
           (RF_cellwise s @ [vzero])[i := projr (boundary_RF ops s (gridCells s ! i) 0)]"
  using assms
  by (auto simp: initialiseCell_def Let_def split: sum.splits prod.splits)

lemma initialiseMatrices_single_cell:
  assumes one: "nCells s0 = 1"
    and init: "initialiseMatrices ops C0 E0 s0 = Inr s1"
  shows "C_cellwise s1 = [fst (assemble_CE ops s0 (gridCells s0 ! 0) (C0, E0))]"
    and "E_cellwise s1 = [snd (assemble_CE ops s0 (gridCells s0 ! 0) (C0, E0))]"
    and "G_cellwise s1 = [assemble_G ops s0 (gridCells s0 ! 0)]"
    and "H_global s1 = snd (assemble_H s0 (gridCells s0 ! 0) 0 mzero)"
    and "L_global s1 = boundary_L s0 (gridCells s0 ! 0) 0 0 vzero"
    and "RF_cellwise s1 = [projr (boundary_RF ops s0 (gridCells s0 ! 0) 0)]"
proof -
  let ?s = "clearCellwiseVecs (s0\<lparr>K_global := mzero, L_global := vzero\<rparr>)"
  have cfg: "same_config s0 ?s"
    by (simp add: same_config_def clearCellwiseVecs_def)
  have g: "gridCells ?s = gridCells s0"
    by (simp add: clearCellwiseVecs_def)
  from init one obtain C E HG s' where
    cell: "initialiseCell ops 0 (C0, E0, mzero, ?s) = Inr (C, E, HG, s')"
    and s1: "s1 = s'\<lparr>H_global := HG, H_global_mat := HG, initialised := True\<rparr>"
    by (auto simp: initialiseMatrices_def clearCellwiseVecs_def split: sum.splits if_splits)
  note v = initialiseCell_values [OF cell]
  show "C_cellwise s1 = [fst (assemble_CE ops s0 (gridCells s0 ! 0) (C0, E0))]"
    using v(1) by (simp add: s1 g assemble_CE_config [OF cfg]) (simp add: clearCellwiseVecs_def)
  show "E_cellwise s1 = [snd (assemble_CE ops s0 (gridCells s0 ! 0) (C0, E0))]"
    using v(2) by (simp add: s1 g assemble_CE_config [OF cfg]) (simp add: clearCellwiseVecs_def)
  show "G_cellwise s1 = [assemble_G ops s0 (gridCells s0 ! 0)]"
    using v(3) by (simp add: s1 g assemble_G_config [OF cfg]) (simp add: clearCellwiseVecs_def)
  show "H_global s1 = snd (assemble_H s0 (gridCells s0 ! 0) 0 mzero)"
    using v(5) by (simp add: s1 g assemble_H_config [OF cfg])
  show "L_global s1 = boundary_L s0 (gridCells s0 ! 0) 0 0 vzero"
    using v(6) by (simp add: s1 g boundary_L_config [OF cfg]) (simp add: clearCellwiseVecs_def)
  show "RF_cellwise s1 = [projr (boundary_RF ops s0 (gridCells s0 ! 0) 0)]"
    using v(8) by (simp add: s1 g boundary_RF_config [OF cfg]) (simp add: clearCellwiseVecs_def)
qed

lemma ex_system_values:
  "(B_cellwise ex_system ! 0) 0 0 = 0" "(D_cellwise ex_system ! 0) 0 0 = 2"
  "(E_cellwise ex_system ! 0) 0 0 = - 1" "(E_cellwise ex_system ! 0) 0 1 = - 1"
  "(C_cellwise ex_system ! 0) 0 0 = - 1" "(C_cellwise ex_system ! 0) 1 0 = 1"
  "(G_cellwise ex_system ! 0) 0 0 = 1" "(G_cellwise ex_system ! 0) 1 0 = 1"
  "(RF_cellwise ex_system ! 0) 1 = 0" "L_global ex_system 0 = 2" "L_global ex_system 1 = 2"
  "H_global ex_system 0 0 = - 1" "H_global ex_system 1 1 = - 1"
proof -
  let ?s0 = "ex_solver 0 1 1 False False"
  from ex_system_assembled obtain s1 where
    init: "initialiseMatrices (ex_ops 0) mzero mzero ?s0 = Inr s1"
    and eqs: "RF_cellwise ex_system = RF_cellwise s1"
     "B_cellwise ex_system = B_cellwise s1"
     "C_cellwise ex_system = C_cellwise s1" "D_cellwise ex_system = D_cellwise s1"
     "E_cellwise ex_system = E_cellwise s1" "G_cellwise ex_system = G_cellwise s1"
     "L_global ex_system = L_global s1" "H_global ex_system = H_global s1"
    by blast
  have one: "nCells ?s0 = 1" by (simp add: ex_solver_def)
  note I = initialiseMatrices_Inr [OF init]
  note S = initialiseMatrices_single_cell [OF one init]
  have f: "nVar ?s0 = 1" "kdeg ?s0 = 0" "gridCells ?s0 ! 0 = \<lparr>x_l = 0, x_u = 1\<rparr>"
    "D_cellwise ?s0 = []"
    "nVar (ex_solver 0 (Suc 0) (Suc 0) False False) = Suc 0"
    "kdeg (ex_solver 0 (Suc 0) (Suc 0) False False) = 0"
    by (simp_all add: ex_solver_def)
  show "(B_cellwise ex_system ! 0) 0 0 = 0"
    by (simp add: eqs I(3) one assemble_ABD_eq blockdiag_def f ex_ops_def)
      (simp add: ex_solver_def)
  show "(D_cellwise ex_system ! 0) 0 0 = 2"
    by (simp add: eqs I(11) one assemble_ABD_eq blockdiag_def f Dvar_cell_eq)
      (simp add: ex_ops_def ex_solver_def)
  have CE: "assemble_CE (ex_ops 0) ?s0 \<lparr>x_l = 0, x_u = 1\<rparr> (mzero, mzero) =
      (set_block mzero 0 0 2 1 (fst (CEvar_cell (ex_ops 0) ?s0 \<lparr>x_l = 0, x_u = 1\<rparr>)),
       set_block mzero 0 0 1 2 (snd (CEvar_cell (ex_ops 0) ?s0 \<lparr>x_l = 0, x_u = 1\<rparr>)))"
    by (simp add: assemble_CE_def f split: prod.splits)
  have CEv: "CEvar_cell (ex_ops 0) ?s0 \<lparr>x_l = 0, x_u = 1\<rparr> =
      (mset (mset mzero 0 0 (- 1)) 1 0 1, mset (mset mzero 0 0 (- 1)) 0 1 (- 1))"
    by (simp add: CEvar_cell_def Let_def ex_solver_def ex_ops_def)
  show "(E_cellwise ex_system ! 0) 0 0 = - 1" "(E_cellwise ex_system ! 0) 0 1 = - 1"
    "(C_cellwise ex_system ! 0) 0 0 = - 1" "(C_cellwise ex_system ! 0) 1 0 = 1"
    unfolding eqs S f(3) CE CEv by (simp_all add: set_block_def mset_def)
  have G: "assemble_G (ex_ops 0) ?s0 \<lparr>x_l = 0, x_u = 1\<rparr> =
      set_block mzero 0 0 2 1 (mset (mset mzero 0 0 1) 1 0 1)"
    by (simp add: assemble_G_def Gvar_cell_def Let_def ex_solver_def ex_ops_def)
  show "(G_cellwise ex_system ! 0) 0 0 = 1" "(G_cellwise ex_system ! 0) 1 0 = 1"
    unfolding eqs S f(3) G by (simp_all add: set_block_def mset_def)
  show "(RF_cellwise ex_system ! 0) 1 = 0"
    unfolding eqs S f(3)
    by (simp add: boundary_RF_def Let_def ex_solver_def ex_ops_def vzero_def)
  show "L_global ex_system 0 = 2" "L_global ex_system 1 = 2"
    unfolding eqs S f(3)
    by (simp_all add: boundary_L_def Let_def ex_solver_def vzero_def)
  show "H_global ex_system 0 0 = - 1" "H_global ex_system 1 1 = - 1"
    unfolding eqs S f(3)
    by (simp_all add: assemble_H_def Hvar_cell_def Let_def ex_solver_def add_block_def
        mset_def mzero_def)
qed

lemma ex_system_views:
  "sig_coeffs ex_system = [[(\<lparr>x_l = 0, x_u = 1\<rparr>, (0, 1))]]"
  "q_coeffs ex_system = [[(\<lparr>x_l = 0, x_u = 1\<rparr>, (1, 1))]]"
  "u_coeffs ex_system = [[(\<lparr>x_l = 0, x_u = 1\<rparr>, (2, 1))]]"
  "the (lambda ex_system) = (3, 2)"
  "dsigdt_coeffs ex_system = [[(\<lparr>x_l = 0, x_u = 1\<rparr>, (0, 1))]]"
  "dqdt_coeffs ex_system = [[(\<lparr>x_l = 0, x_u = 1\<rparr>, (1, 1))]]"
  "dudt_coeffs ex_system = [[(\<lparr>x_l = 0, x_u = 1\<rparr>, (2, 1))]]"
  "the (dlamdt ex_system) = (3, 2)"
proof -
  let ?s0 = "ex_solver 0 1 1 False False"
  have fresh: "\<not> initialised ?s0" by (simp add: ex_solver_def)
  from setInitialConditions_Inr [OF ex_initial_eq fresh] obtain s1 where
    init: "initialiseMatrices (ex_ops 0) mzero mzero ?s0 = Inr s1"
    and bf: "ex_system = bind_fields s1"
    by blast
  have cfg: "same_config ?s0 s1" by (rule initialiseMatrices_Inr(1) [OF init])
  have bnd: "same_bindings ?s0 s1" by (rule initialiseMatrices_bindings [OF init])
  have c: "sig_coeffs s1 = []" "q_coeffs s1 = []" "u_coeffs s1 = []"
    "dsigdt_coeffs s1 = []" "dqdt_coeffs s1 = []" "dudt_coeffs s1 = []"
    using bnd by (simp_all add: same_bindings_def ex_solver_def)
  have f: "nVar s1 = 1" "nCells s1 = 1" "kdeg s1 = 0" "gridCells s1 = [\<lparr>x_l = 0, x_u = 1\<rparr>]"
    using cfg by (simp_all add: same_config_def ex_solver_def)
  have pos: "0 < nVar s1" by (simp add: f)
  have m: "mapDGtoSundials s1 ([], [], [], (0, 0)) =
      ([[(\<lparr>x_l = 0, x_u = 1\<rparr>, (0, 1))]], [[(\<lparr>x_l = 0, x_u = 1\<rparr>, (1, 1))]],
       [[(\<lparr>x_l = 0, x_u = 1\<rparr>, (2, 1))]], (3, 2))"
    by (simp add: mapDGtoSundials_eq f u32_def)
  from bind_fields_fresh [OF c pos]
  show "sig_coeffs ex_system = [[(\<lparr>x_l = 0, x_u = 1\<rparr>, (0, 1))]]"
    "q_coeffs ex_system = [[(\<lparr>x_l = 0, x_u = 1\<rparr>, (1, 1))]]"
    "u_coeffs ex_system = [[(\<lparr>x_l = 0, x_u = 1\<rparr>, (2, 1))]]"
    "the (lambda ex_system) = (3, 2)"
    "dsigdt_coeffs ex_system = [[(\<lparr>x_l = 0, x_u = 1\<rparr>, (0, 1))]]"
    "dqdt_coeffs ex_system = [[(\<lparr>x_l = 0, x_u = 1\<rparr>, (1, 1))]]"
    "dudt_coeffs ex_system = [[(\<lparr>x_l = 0, x_u = 1\<rparr>, (2, 1))]]"
    "the (dlamdt ex_system) = (3, 2)"
    unfolding m bf [symmetric] by simp_all
qed

lemma ex_Y_values:
  "N_VGetArrayPointer ex_Y 0 = 0" "N_VGetArrayPointer ex_Y 1 = 0"
  "N_VGetArrayPointer ex_Y 2 = 1" "N_VGetArrayPointer ex_Y 3 = - 1"
  "N_VGetArrayPointer ex_Y 4 = - 1"
proof -
  let ?s0 = "ex_solver 0 1 1 False False"
  let ?I = "\<lparr>x_l = 0, x_u = 1\<rparr>"
  have fresh: "\<not> initialised ?s0" by (simp add: ex_solver_def)
  from setInitialConditions_Inr [OF ex_initial_eq fresh]
  have Y: "ex_Y = (zero_vector 5)\<lparr>N_VGetArrayPointer :=
      initial_Y (ex_ops 0) ex_system (N_VGetArrayPointer (zero_vector 5))
        (\<lambda>x. 1) (\<lambda>x. 0) (\<lambda>x. 0)\<rparr>"
    by blast
  define Yb :: "real vec" where "Yb = (\<lambda>a. if a = 2 then 1 else 0)"
  have Ya: "view_write (zeroCoeffs (zeroCoeffs (zeroCoeffs (\<lambda>a. 0) (sig_coeffs ex_system))
        (q_coeffs ex_system)) (u_coeffs ex_system)) (the (lambda ex_system)) vzero = (\<lambda>a. 0::real)"
    by (simp add: ex_system_views zeroCoeffs_def view_write_def set_vblock_def vzero_def)
  have Yb: "assign_fn (ex_ops 0) (assign_fn (ex_ops 0) (assign_fn (ex_ops 0) (\<lambda>a. 0)
        (u_coeffs ex_system) (\<lambda>x. 1)) (q_coeffs ex_system) (\<lambda>x. 0)) (sig_coeffs ex_system) (\<lambda>x. 0)
        = Yb"
    by (auto simp: ex_system_views assign_fn_def view_write_def set_vblock_def ex_ops_def Yb_def)
  have rhs: "CsGuL_global_loop ex_system (dg_of Yb (sig_coeffs ex_system))
      (dg_of Yb (u_coeffs ex_system)) 0 = 1"
    "CsGuL_global_loop ex_system (dg_of Yb (sig_coeffs ex_system))
      (dg_of Yb (u_coeffs ex_system)) 1 = 1"
    by (simp_all add: CsGuL_global_loop_def ex_system_fields ex_system_views ex_system_values
        ex_system_values [unfolded One_nat_def] Let_def add_vblock_def vsub_def vblock_def mat_vec_def block_def dot_def dg_of_def
        view_read_def vzero_def Yb_def)
  have "N_VGetArrayPointer ex_Y = view_write Yb (3, 2)
      (lu_solve (ex_ops 0) 2 (H_global ex_system)
         (CsGuL_global_loop ex_system (dg_of Yb (sig_coeffs ex_system))
            (dg_of Yb (u_coeffs ex_system))))"
    unfolding Y initial_Y_def Let_def
    by (simp add: zero_vector_def Ya Yb ex_system_fields) (simp add: ex_system_views(4) numeral_2_eq_2)
  then show "N_VGetArrayPointer ex_Y 0 = 0" "N_VGetArrayPointer ex_Y 1 = 0"
    "N_VGetArrayPointer ex_Y 2 = 1" "N_VGetArrayPointer ex_Y 3 = - 1"
    "N_VGetArrayPointer ex_Y 4 = - 1"
    by (simp_all add: view_write_def set_vblock_def ex_ops_def rhs ex_system_values
        rhs [unfolded One_nat_def] ex_system_values [unfolded One_nat_def])
      (simp_all add: Yb_def)
qed

lemma ex_dYdt_values:
  "N_VGetArrayPointer ex_dYdt 0 = 0" "N_VGetArrayPointer ex_dYdt 1 = 0"
  "N_VGetArrayPointer ex_dYdt 2 = - 4" "N_VGetArrayPointer ex_dYdt 3 = 0"
  "N_VGetArrayPointer ex_dYdt 4 = 0"
proof -
  let ?s0 = "ex_solver 0 1 1 False False"
  have fresh: "\<not> initialised ?s0" by (simp add: ex_solver_def)
  from setInitialConditions_Inr [OF ex_initial_eq fresh]
  have D: "ex_dYdt = (zero_vector 5)\<lparr>N_VGetArrayPointer :=
      initial_dYdt (ex_ops 0) ex_system (N_VGetArrayPointer ex_Y)
        (N_VGetArrayPointer (zero_vector 5))\<rparr>"
    by blast
  define Yc where "Yc = N_VGetArrayPointer ex_Y"
  have Yc: "Yc 0 = 0" "Yc 1 = 0" "Yc 2 = 1" "Yc 3 = - 1" "Yc 4 = - 1"
    by (simp_all add: Yc_def ex_Y_values ex_Y_values [unfolded One_nat_def])
  have Yc': "Yc (Suc 0) = 0" "Yc (Suc (Suc 0)) = 1"
    using Yc by (simp_all add: numeral_2_eq_2)
  have Da: "view_write (zeroCoeffs (zeroCoeffs (zeroCoeffs (\<lambda>a. 0) (dsigdt_coeffs ex_system))
        (dqdt_coeffs ex_system)) (dudt_coeffs ex_system)) (the (dlamdt ex_system)) vzero
        = (\<lambda>a. 0::real)"
    by (simp add: ex_system_views zeroCoeffs_def view_write_def set_vblock_def vzero_def)
  have "initial_dudt (ex_ops 0) ex_system (3, 2) Yc (\<lambda>a. 0) =
      view_write (\<lambda>a. 0) (2, 1) (\<lambda>j. if j = 0 then - 4 else
        initial_dudt (ex_ops 0) ex_system (3, 2) Yc (\<lambda>a. 0) (2 + j))"
    by (rule ext)
      (simp add: initial_dudt_def ex_system_fields ex_system_views ex_system_values
        ex_system_values [unfolded One_nat_def] Let_def view_write_def set_vblock_def
        vsub_def vadd_def mat_vec_def mneg_def block_def vblock_def dot_def dg_of_def
        view_read_def vzero_def Yc Yc' ex_ops_def ex_solver_def)
  then have "N_VGetArrayPointer ex_dYdt = view_write (\<lambda>a. 0) (2, 1) (\<lambda>j. if j = 0 then - 4 else
        initial_dudt (ex_ops 0) ex_system (3, 2) Yc (\<lambda>a. 0) (2 + j))"
    unfolding D initial_dYdt_def Let_def Yc_def [symmetric]
    by (simp add: zero_vector_def Da) (simp add: ex_system_views(4))
  then show "N_VGetArrayPointer ex_dYdt 0 = 0" "N_VGetArrayPointer ex_dYdt 1 = 0"
    "N_VGetArrayPointer ex_dYdt 2 = - 4" "N_VGetArrayPointer ex_dYdt 3 = 0"
    "N_VGetArrayPointer ex_dYdt 4 = 0"
    by (simp_all add: view_write_def set_vblock_def)
qed

lemma ex_dudt_spec: "dudt_spec (ex_ops 0) ex_system (N_VGetArrayPointer ex_Y) 0 0 0 = - 5"
proof -
  define Yc where "Yc = N_VGetArrayPointer ex_Y"
  have Yc: "Yc 0 = 0" "Yc 1 = 0" "Yc 2 = 1" "Yc 3 = - 1" "Yc 4 = - 1"
    by (simp_all add: Yc_def ex_Y_values ex_Y_values [unfolded One_nat_def])
  have Yc': "Yc (Suc 0) = 0" "Yc (Suc (Suc 0)) = 1"
    using Yc by (simp_all add: numeral_2_eq_2)
  show ?thesis
    unfolding Yc_def [symmetric]
    by (simp add: dudt_spec_def ex_system_fields ex_system_views ex_system_values
        ex_system_values [unfolded One_nat_def] Let_def
        mat_vec_def block_def dot_def dg_of_def
        view_read_def Yc Yc' ex_ops_def ex_solver_def)
qed

lemma forloop_cong:
  "(\<And>i s. i < n \<Longrightarrow> body i s = body' i s) \<Longrightarrow> forloop n body s0 = forloop n body' s0"
  by (induction n) auto

lemma forloop_invariant:
  assumes "P s0" and "\<And>i s. i < n \<Longrightarrow> P s \<Longrightarrow> P (body i s)"
  shows "P (forloop n body s0)"
  using assms by (induction n) auto

lemma forloop_add_sum:
  fixes acc0 :: "nat \<Rightarrow> real"
  shows "forloop n (\<lambda>i acc. (\<lambda>r. acc r + f i r)) acc0 = (\<lambda>r. acc0 r + (\<Sum>i<n. f i r))"
  by (induction n) (auto simp: fun_eq_iff)

lemma CsGuL_global_loop_eq:
  fixes s :: "real SystemSolver"
  shows "CsGuL_global_loop s sigd ud =
     (\<lambda>r. \<Sum>i<nCells s. \<Sum>var<nVar s.
        if var * (nCells s + 1) + i \<le> r \<and> r < var * (nCells s + 1) + i + 2
        then L_global s r
             - mat_vec (kdeg s + 1)
                 (block (C_cellwise s ! i) (var * 2) (var * (kdeg s + 1)) 2 (kdeg s + 1))
                 (sigd var i) (r - (var * (nCells s + 1) + i))
             - mat_vec (kdeg s + 1)
                 (block (G_cellwise s ! i) (var * 2) (var * (kdeg s + 1)) 2 (kdeg s + 1))
                 (ud var i) (r - (var * (nCells s + 1) + i))
        else 0)"
proof -
  let ?g = "\<lambda>i var r. if var * (nCells s + 1) + i \<le> r \<and> r < var * (nCells s + 1) + i + 2
        then L_global s r
             - mat_vec (kdeg s + 1)
                 (block (C_cellwise s ! i) (var * 2) (var * (kdeg s + 1)) 2 (kdeg s + 1))
                 (sigd var i) (r - (var * (nCells s + 1) + i))
             - mat_vec (kdeg s + 1)
                 (block (G_cellwise s ! i) (var * 2) (var * (kdeg s + 1)) 2 (kdeg s + 1))
                 (ud var i) (r - (var * (nCells s + 1) + i))
        else 0"
  have "CsGuL_global_loop s sigd ud =
      forloop (nCells s) (\<lambda>i acc.
        forloop (nVar s) (\<lambda>var acc. (\<lambda>r. acc r + ?g i var r)) acc) vzero"
    unfolding CsGuL_global_loop_def Let_def
    by (intro forloop_cong) (auto simp: add_vblock_def vsub_def vblock_def fun_eq_iff)
  also have "\<dots> = forloop (nCells s) (\<lambda>i acc. (\<lambda>r. acc r + (\<Sum>var<nVar s. ?g i var r))) vzero"
    by (simp only: forloop_add_sum)
  also have "\<dots> = (\<lambda>r. \<Sum>i<nCells s. \<Sum>var<nVar s. ?g i var r)"
    by (simp only: forloop_add_sum) (simp add: vzero_def)
  finally show ?thesis .
qed

lemma boundary_L_eq:
  fixes s :: "real SystemSolver"
  shows "boundary_L s I i t L =
     (\<lambda>r. L r + (\<Sum>var<nVar s.
        (if x_l I = LowerBound (BCs s) \<and> \<not> isLBoundDirichlet (BCs s) \<and>
            r = var * (nCells s + 1) + i
         then g_N (BCs s) (LowerBound (BCs s)) t else 0) +
        (if x_u I = UpperBound (BCs s) \<and> \<not> isUBoundDirichlet (BCs s) \<and>
            r = var * (nCells s + 1) + i + 1
         then g_N (BCs s) (UpperBound (BCs s)) t else 0)))"
proof -
  let ?h = "\<lambda>var r.
        (if x_l I = LowerBound (BCs s) \<and> \<not> isLBoundDirichlet (BCs s) \<and>
            r = var * (nCells s + 1) + i
         then g_N (BCs s) (LowerBound (BCs s)) t else 0) +
        (if x_u I = UpperBound (BCs s) \<and> \<not> isUBoundDirichlet (BCs s) \<and>
            r = var * (nCells s + 1) + i + 1
         then g_N (BCs s) (UpperBound (BCs s)) t else 0)"
  have "boundary_L s I i t L = forloop (nVar s) (\<lambda>var acc. (\<lambda>r. acc r + ?h var r)) L"
    unfolding boundary_L_def Let_def
    by (intro forloop_cong) (auto simp: fun_eq_iff)
  also have "\<dots> = (\<lambda>r. L r + (\<Sum>var<nVar s. ?h var r))"
    by (simp only: forloop_add_sum)
  finally show ?thesis .
qed

lemma updateBC_L_global:
  fixes s :: "real SystemSolver"
  assumes upd: "updateBoundaryConditions ops t s = Inr s1"
  shows "L_global s1 =
     (\<lambda>r. \<Sum>i<nCells s. \<Sum>var<nVar s.
        (if x_l (gridCells s ! i) = LowerBound (BCs s) \<and> \<not> isLBoundDirichlet (BCs s) \<and>
            r = var * (nCells s + 1) + i
         then g_N (BCs s) (LowerBound (BCs s)) t else 0) +
        (if x_u (gridCells s ! i) = UpperBound (BCs s) \<and> \<not> isUBoundDirichlet (BCs s) \<and>
            r = var * (nCells s + 1) + i + 1
         then g_N (BCs s) (UpperBound (BCs s)) t else 0))"
proof -
  let ?s0 = "s\<lparr>L_global := vzero\<rparr>"
  from upd have loop: "forloopE (nCells s) (updateBoundaryCell ops t) ?s0 = Inr s1"
    by (simp add: updateBoundaryConditions_def split: if_splits)
  from updateBC_loop [OF loop] have
    "L_global s1 = forloop (nCells s)
        (\<lambda>i L. boundary_L ?s0 (gridCells ?s0 ! i) i t L) (L_global ?s0)"
    by auto
  moreover have "same_config s ?s0"
    by (simp add: same_config_def)
  then have "boundary_L ?s0 I i t L = boundary_L s I i t L" for I i L
    by (rule boundary_L_config)
  ultimately have "L_global s1 = forloop (nCells s)
        (\<lambda>i L. boundary_L s (gridCells s ! i) i t L) vzero"
    by simp
  then show ?thesis
    by (simp only: boundary_L_eq forloop_add_sum) (simp add: vzero_def)
qed

lemma face_unique:
  fixes Nc :: nat
  assumes "var * (Nc + 1) + a = var0 * (Nc + 1) + b" "a \<le> Nc" "b \<le> Nc"
  shows "var = var0 \<and> a = b"
proof -
  have d: "(x * (Nc + 1) + y) div (Nc + 1) = x" if "y \<le> Nc" for x y
  proof -
    have "(y + x * (Nc + 1)) div (Nc + 1) = x + y div (Nc + 1)"
      by (rule div_mult_self1) simp
    moreover from that have "y div (Nc + 1) = 0"
      by simp
    ultimately show ?thesis
      by (simp only: add.commute [of y] add_0_right)
  qed
  from assms(1) have "(var * (Nc + 1) + a) div (Nc + 1) = (var0 * (Nc + 1) + b) div (Nc + 1)"
    by (simp only:)
  then have "var = var0"
    by (simp only: d [OF assms(2)] d [OF assms(3)])
  with assms(1) show ?thesis by simp
qed

lemma count_one:
  fixes c :: real and N Nc r :: nat
  assumes v: "var0 < N" and i: "i0 < Nc" and a: "a0 < 2"
    and r: "r = var0 * (Nc + 1) + i0 + a0"
    and edge: "i0 + a0 = 0 \<or> i0 + a0 = Nc"
  shows "(\<Sum>i<Nc. \<Sum>var<N.
            if var * (Nc + 1) + i \<le> r \<and> r < var * (Nc + 1) + i + 2 then c else 0) = c"
proof -
  have one: "(var * (Nc + 1) + i \<le> r \<and> r < var * (Nc + 1) + i + 2) \<longleftrightarrow> (i = i0 \<and> var = var0)"
    if "i < Nc" for i var
  proof
    assume "var * (Nc + 1) + i \<le> r \<and> r < var * (Nc + 1) + i + 2"
    then have "r = var * (Nc + 1) + i \<or> r = var * (Nc + 1) + (i + 1)"
      by linarith
    then show "i = i0 \<and> var = var0"
    proof
      assume "r = var * (Nc + 1) + i"
      with r have "var * (Nc + 1) + i = var0 * (Nc + 1) + (i0 + a0)" by simp
      from face_unique [OF this] that i a edge show ?thesis by auto
    next
      assume "r = var * (Nc + 1) + (i + 1)"
      with r have "var * (Nc + 1) + (i + 1) = var0 * (Nc + 1) + (i0 + a0)" by simp
      from face_unique [OF this] that i a edge show ?thesis by auto
    qed
  next
    assume "i = i0 \<and> var = var0"
    with r a show "var * (Nc + 1) + i \<le> r \<and> r < var * (Nc + 1) + i + 2" by simp
  qed
  have "(\<Sum>i<Nc. \<Sum>var<N.
            if var * (Nc + 1) + i \<le> r \<and> r < var * (Nc + 1) + i + 2 then c else 0)
      = (\<Sum>i<Nc. \<Sum>var<N. if i = i0 \<and> var = var0 then c else 0)"
    by (intro sum.cong refl) (simp only: lessThan_iff one)
  also have "\<dots> = (\<Sum>i<Nc. if i = i0 then (\<Sum>var<N. if var = var0 then c else 0) else 0)"
    by (intro sum.cong refl) simp
  also have "\<dots> = c"
    using v i by simp
  finally show ?thesis .
qed

lemma L_global_counted_once:
  fixes s :: "real SystemSolver"
  assumes upd: "updateBoundaryConditions ops t s = Inr s1"
    and grid: "grid_ok s"
  shows "(\<Sum>i<nCells s. \<Sum>var<nVar s.
            if var * (nCells s + 1) + i \<le> r \<and> r < var * (nCells s + 1) + i + 2
            then L_global s1 r else 0) = L_global s1 r"
proof (cases "L_global s1 r = 0")
  case True
  show ?thesis by (simp only: True if_cancel sum.neutral_const)
next
  case False
  let ?h = "\<lambda>i var.
        (if x_l (gridCells s ! i) = LowerBound (BCs s) \<and> \<not> isLBoundDirichlet (BCs s) \<and>
            r = var * (nCells s + 1) + i
         then g_N (BCs s) (LowerBound (BCs s)) t else 0) +
        (if x_u (gridCells s ! i) = UpperBound (BCs s) \<and> \<not> isUBoundDirichlet (BCs s) \<and>
            r = var * (nCells s + 1) + i + 1
         then g_N (BCs s) (UpperBound (BCs s)) t else 0)"
  from False [unfolded updateBC_L_global [OF upd]]
  have "(\<Sum>i<nCells s. \<Sum>var<nVar s. ?h i var) \<noteq> 0" .
  then obtain i where i: "i \<in> {..<nCells s}" and inner: "(\<Sum>var<nVar s. ?h i var) \<noteq> 0"
    by (rule sum.not_neutral_contains_not_neutral)
  from inner obtain var where var: "var \<in> {..<nVar s}" and nz: "?h i var \<noteq> 0"
    by (rule sum.not_neutral_contains_not_neutral)
  from i grid have
    g: "x_l (gridCells s ! i) = LowerBound (BCs s) \<Longrightarrow> i = 0"
       "x_u (gridCells s ! i) = UpperBound (BCs s) \<Longrightarrow> i + 1 = nCells s"
    by (simp_all add: grid_ok_def)
  from nz consider
      "x_l (gridCells s ! i) = LowerBound (BCs s)" "r = var * (nCells s + 1) + i"
    | "x_u (gridCells s ! i) = UpperBound (BCs s)" "r = var * (nCells s + 1) + i + 1"
    by (auto split: if_splits)
  then show ?thesis
  proof cases
    case 1
    with g(1) have "r = var * (nCells s + 1) + i + 0" "i + 0 = 0 \<or> i + 0 = nCells s"
      by simp_all
    with count_one [of var "nVar s" i "nCells s" 0 r "L_global s1 r"] var i show ?thesis
      by simp
  next
    case 2
    with g(2) have "r = var * (nCells s + 1) + i + 1" "i + 1 = 0 \<or> i + 1 = nCells s"
      by simp_all
    with count_one [of var "nVar s" i "nCells s" 1 r "L_global s1 r"] var i show ?thesis
      by simp
  qed
qed

lemma dg_of_layout:
  assumes fits: "state_length s < 2 ^ 32" and v: "var < nVar s" and i: "i < nCells s"
  shows "dg_of Yv (fst (mapDGtoSundials s ([], [], [], mb))) var i =
           (\<lambda>j. Yv (i * (3 * nVar s * (kdeg s + 1)) + var * (kdeg s + 1) + j))"
    and "dg_of Yv (fst (snd (snd (mapDGtoSundials s ([], [], [], mb))))) var i =
           (\<lambda>j. Yv (i * (3 * nVar s * (kdeg s + 1)) + 2 * (nVar s * (kdeg s + 1))
                     + var * (kdeg s + 1) + j))"
  using v i offsets_fit [OF fits v i]
  by (simp_all add: mapDGtoSundials_eq dg_of_def view_read_def algebra_simps)

lemma CsGuL_trace_rhs:
  fixes s :: "real SystemSolver"
  assumes fits: "state_length s < 2 ^ 32"
    and Lc: "\<And>r. (\<Sum>i<nCells s. \<Sum>var<nVar s.
            if var * (nCells s + 1) + i \<le> r \<and> r < var * (nCells s + 1) + i + 2
            then L_global s r else 0) = L_global s r"
  shows "CsGuL_global_loop s (dg_of Yv (fst (mapDGtoSundials s ([], [], [], mb))))
           (dg_of Yv (fst (snd (snd (mapDGtoSundials s ([], [], [], mb))))))
         = trace_rhs s Yv"
proof (rule ext)
  fix r
  let ?sg = "dg_of Yv (fst (mapDGtoSundials s ([], [], [], mb)))"
  let ?u = "dg_of Yv (fst (snd (snd (mapDGtoSundials s ([], [], [], mb)))))"
  let ?k1 = "kdeg s + 1"
  let ?p = "\<lambda>i var. var * (nCells s + 1) + i"
  let ?in = "\<lambda>i var. ?p i var \<le> r \<and> r < ?p i var + 2"
  let ?Cs = "\<lambda>i var. mat_vec ?k1 (block (C_cellwise s ! i) (var * 2) (var * ?k1) 2 ?k1) (?sg var i)"
  let ?Gu = "\<lambda>i var. mat_vec ?k1 (block (G_cellwise s ! i) (var * 2) (var * ?k1) 2 ?k1) (?u var i)"
  have ct: "cell_trace s Yv i var a = ?Cs i var a + ?Gu i var a"
    if "i < nCells s" "var < nVar s" for i var a
    by (simp add: cell_trace_def Let_def vadd_def dg_of_layout [OF fits that(2) that(1)])
  have tm: "(if ?in i var then L_global s r - ?Cs i var (r - ?p i var) - ?Gu i var (r - ?p i var)
               else 0)
            = (if ?in i var then L_global s r else 0)
              - (\<Sum>a<2. if r = ?p i var + a then cell_trace s Yv i var a else 0)"
    if "i \<in> {..<nCells s}" "var \<in> {..<nVar s}" for i var
  proof -
    from that have iv: "i < nCells s" "var < nVar s" by simp_all
    have two: "(\<Sum>a<2. f a) = f 0 + f (1::nat)" for f :: "nat \<Rightarrow> real"
      by (simp add: numeral_2_eq_2)
    consider "r = ?p i var" | "r = ?p i var + 1" | "\<not> ?in i var"
      by linarith
    then show ?thesis
    proof cases
      case 1
      then show ?thesis by (simp add: two ct [OF iv])
    next
      case 2
      then show ?thesis by (simp add: two ct [OF iv])
    next
      case 3
      then have "r \<noteq> ?p i var + 0" "r \<noteq> ?p i var + 1" by linarith+
      with 3 show ?thesis by (simp add: two)
    qed
  qed
  have "CsGuL_global_loop s ?sg ?u r =
      (\<Sum>i<nCells s. \<Sum>var<nVar s.
         (if ?in i var then L_global s r else 0)
         - (\<Sum>a<2. if r = ?p i var + a then cell_trace s Yv i var a else 0))"
    unfolding CsGuL_global_loop_eq
    by (intro sum.cong refl tm)
  also have "\<dots> = (\<Sum>i<nCells s. \<Sum>var<nVar s. if ?in i var then L_global s r else 0)
      - (\<Sum>i<nCells s. \<Sum>var<nVar s. \<Sum>a<2.
           if r = ?p i var + a then cell_trace s Yv i var a else 0)"
    by (simp only: sum_subtractf)
  also have "\<dots> = trace_rhs s Yv r"
    by (simp only: Lc trace_rhs_def)
  finally show "CsGuL_global_loop s ?sg ?u r = trace_rhs s Yv r" .
qed

lemma residual_cells_frame:
  assumes fits: "state_length s < 2 ^ 32"
    and a: "3 * nVar s * (kdeg s + 1) * nCells s \<le> a"
  shows "residual_cells ops s temps tempdudt (mapDGtoSundials s ([], [], [], mb)) Yv dydt res0 a
           = res0 a"
proof -
  obtain tS tQ tU tL where temps: "temps = (tS, tQ, tU, tL)"
    by (cases temps) auto
  obtain r1 r2 r3 r4 where ress: "mapDGtoSundials s ([], [], [], mb) = (r1, r2, r3, r4)"
    by (cases "mapDGtoSundials s ([], [], [], mb)") auto
  have w: "view_write v (snd (r1 ! var ! i)) b a = v a"
    "view_write v (snd (r2 ! var ! i)) b a = v a"
    "view_write v (snd (r3 ! var ! i)) b a = v a"
    if "var < nVar s" "i < nCells s" for v var i b
  proof -
    have "0 * nVar s * (kdeg s + 1) + var * (kdeg s + 1) + i * 3 * nVar s * (kdeg s + 1)
         + (kdeg s + 1) \<le> nVar s * 3 * nCells s * (kdeg s + 1)"
      "1 * nVar s * (kdeg s + 1) + var * (kdeg s + 1) + i * 3 * nVar s * (kdeg s + 1)
         + (kdeg s + 1) \<le> nVar s * 3 * nCells s * (kdeg s + 1)"
      "2 * nVar s * (kdeg s + 1) + var * (kdeg s + 1) + i * 3 * nVar s * (kdeg s + 1)
         + (kdeg s + 1) \<le> nVar s * 3 * nCells s * (kdeg s + 1)"
      using that by (intro cell_offset_bound3; simp)+
    moreover have "nVar s * 3 * nCells s * (kdeg s + 1) \<le> a"
      using a by (simp add: mult_ac)
    ultimately have b:
      "var * (kdeg s + 1) + i * 3 * nVar s * (kdeg s + 1) + (kdeg s + 1) \<le> a"
      "nVar s * (kdeg s + 1) + var * (kdeg s + 1) + i * 3 * nVar s * (kdeg s + 1)
         + (kdeg s + 1) \<le> a"
      "2 * nVar s * (kdeg s + 1) + var * (kdeg s + 1) + i * 3 * nVar s * (kdeg s + 1)
         + (kdeg s + 1) \<le> a"
      by simp_all
    from ress have r: "r1 = fst (mapDGtoSundials s ([], [], [], mb))"
      "r2 = fst (snd (mapDGtoSundials s ([], [], [], mb)))"
      "r3 = fst (snd (snd (mapDGtoSundials s ([], [], [], mb))))"
      by simp_all
    show "view_write v (snd (r1 ! var ! i)) b a = v a"
      "view_write v (snd (r2 ! var ! i)) b a = v a"
      "view_write v (snd (r3 ! var ! i)) b a = v a"
      using that b offsets_fit [OF fits that]
      by (simp_all add: r mapDGtoSundials_eq view_write_def set_vblock_def)
  qed
  have "residual_cells ops s (tS, tQ, tU, tL) tempdudt (r1, r2, r3, r4) Yv dydt res0 a = res0 a"
    unfolding residual_cells_def prod.case Let_def
  proof (rule forloop_invariant [where P = "\<lambda>res. res a = res0 a"])
    show "res0 a = res0 a" ..
  next
    fix i res
    assume i: "i < nCells s" and res: "res a = res0 a"
    show "forloop (nVar s) (\<lambda>var res.
        view_write
          (view_write
            (view_write (view_write res (snd (r1 ! var ! i)) (R1 var))
               (snd (r2 ! var ! i)) (R2 var))
            (snd (r2 ! var ! i)) (R2' var res))
          (snd (r3 ! var ! i)) (R3 var)) res a = res0 a" for R1 R2 R2' R3
      by (rule forloop_invariant [where P = "\<lambda>res. res a = res0 a"])
        (simp_all add: res w i)
  qed
  then show ?thesis
    by (simp only: temps ress)
qed

lemma residual_trace_values:
  fixes s :: "real SystemSolver"
  assumes fits: "state_length s < 2 ^ 32"
    and pos: "0 < nVar s"
    and Lc: "\<And>r. (\<Sum>i<nCells s. \<Sum>var<nVar s.
            if var * (nCells s + 1) + i \<le> r \<and> r < var * (nCells s + 1) + i + 2
            then L_global s r else 0) = L_global s r"
    and r: "r < nVar s * (nCells s + 1)"
  shows "residual_values ops s Y dydt resval (3 * nVar s * (kdeg s + 1) * nCells s + r) =
           - N_VGetArrayPointer Y (3 * nVar s * (kdeg s + 1) * nCells s + r)
           + lu_solve ops (nVar s * (nCells s + 1)) (H_global s)
               (trace_rhs s (N_VGetArrayPointer Y)) r"
proof -
  let ?mb = "(0, nVar s * (nCells s + 1))"
  let ?off = "3 * nVar s * (kdeg s + 1) * nCells s"
  have lam: "snd (snd (snd (mapDGtoSundials s ([], [], [], ?mb))))
      = (?off, nVar s * (nCells s + 1))"
  proof -
    have "nVar s * nCells s * (3 * kdeg s + 3) \<le> state_length s"
      by (simp add: state_length_def algebra_simps)
    from this fits have "nVar s * nCells s * (3 * kdeg s + 3) < 2 ^ 32"
      by (rule le_less_trans)
    then have "u32 (nVar s * nCells s * (3 * kdeg s + 3)) = nVar s * nCells s * (3 * kdeg s + 3)"
      by (rule u32_id)
    with pos show ?thesis
      by (simp add: mapDGtoSundials_eq algebra_simps)
  qed
  have le: "?off \<le> ?off + r" by simp
  show ?thesis
    unfolding residual_values_def Let_def
    using r
    by (simp only: residual_cells_frame [OF fits le] CsGuL_trace_rhs [OF fits Lc] lam)
      (simp add: view_write_def set_vblock_def vadd_def vneg_def view_read_def)
qed

section \<open>The layout of the state vector\<close>

text \<open>
  C4. When the length of the state vector fits the 32-bit index arithmetic, the views that
  the mapping routines bind are the ones of the block layout: for variable \<open>var\<close> and
  cell \<open>i\<close> the \<open>k + 1\<close> coefficients of \<open>\<sigma>\<close>, \<open>q\<close> and \<open>u\<close> (block 0, 1, 2) start at
  \<open>i 3N(k+1) + block N(k+1) + var (k+1)\<close> and are contiguous, and the trace value of
  variable \<open>var\<close> at face \<open>f\<close> is at \<open>3N(k+1) Nc + var (Nc+1) + f\<close>. The overload that
  binds \<open>u\<close> alone and the one that binds whole cells agree with it.
\<close>

theorem C4_block_layout:
  assumes fits: "state_length s < 2 ^ 32" and v: "var < nVar s" and i: "i < nCells s"
  shows "(case mapDGtoSundials s ([], [], [], lamP) of (sigma, q, u, lam) \<Rightarrow>
            snd (sigma ! var ! i) =
              (i * (3 * nVar s * (kdeg s + 1)) + 0 * (nVar s * (kdeg s + 1)) + var * (kdeg s + 1),
               kdeg s + 1) \<and>
            snd (q ! var ! i) =
              (i * (3 * nVar s * (kdeg s + 1)) + 1 * (nVar s * (kdeg s + 1)) + var * (kdeg s + 1),
               kdeg s + 1) \<and>
            snd (u ! var ! i) =
              (i * (3 * nVar s * (kdeg s + 1)) + 2 * (nVar s * (kdeg s + 1)) + var * (kdeg s + 1),
               kdeg s + 1) \<and>
            lam = (3 * nVar s * (kdeg s + 1) * nCells s, nVar s * (nCells s + 1)) \<and>
            dg_of Y sigma var i j =
              Y (i * (3 * nVar s * (kdeg s + 1)) + 0 * (nVar s * (kdeg s + 1)) + var * (kdeg s + 1) + j) \<and>
            dg_of Y q var i j =
              Y (i * (3 * nVar s * (kdeg s + 1)) + 1 * (nVar s * (kdeg s + 1)) + var * (kdeg s + 1) + j) \<and>
            dg_of Y u var i j =
              Y (i * (3 * nVar s * (kdeg s + 1)) + 2 * (nVar s * (kdeg s + 1)) + var * (kdeg s + 1) + j) \<and>
            view_read Y lam (var * (nCells s + 1) + f) =
              Y (3 * nVar s * (kdeg s + 1) * nCells s + var * (nCells s + 1) + f)) \<and>
         snd (mapDGtoSundials_u s [] ! var ! i) =
           (i * (3 * nVar s * (kdeg s + 1)) + 2 * (nVar s * (kdeg s + 1)) + var * (kdeg s + 1),
            kdeg s + 1) \<and>
         fst (mapDGtoSundials_cells s) ! i =
           (i * (3 * nVar s * (kdeg s + 1)), 3 * nVar s * (kdeg s + 1)) \<and>
         snd (mapDGtoSundials_cells s) =
           (3 * nVar s * (kdeg s + 1) * nCells s, nVar s * (nCells s + 1))"
  using v i offsets_fit [OF fits v i]
  by (simp add: mapDGtoSundials_eq mapDGtoSundials_u_def mapDGtoSundials_cells_def forloop_snoc
      dg_of_def view_read_def algebra_simps del: upt_Suc)

theorem C4_block_layout_witness:
  "state_length (ex_solver 1 2 3 True False) < 2 ^ 32 \<and> (1::nat) < nVar (ex_solver 1 2 3 True False) \<and>
   (2::nat) < nCells (ex_solver 1 2 3 True False) \<and>
   snd (fst (snd (snd (mapDGtoSundials (ex_solver 1 2 3 True False) ([], [], [], (0, 0))))) ! 1 ! 2)
     = (34, 2) \<and>
   snd (snd (snd (mapDGtoSundials (ex_solver 1 2 3 True False) ([], [], [], (0, 0))))) = (36, 8) \<and>
   fst (mapDGtoSundials_cells (ex_solver 1 2 3 True False)) ! 2 = (24, 12)"
proof -
  have h: "state_length (ex_solver 1 2 3 True False) < 2 ^ 32"
    "(1::nat) < nVar (ex_solver 1 2 3 True False)" "(2::nat) < nCells (ex_solver 1 2 3 True False)"
    by (simp_all add: state_length_def ex_solver_def)
  from C4_block_layout [OF h, where lamP = "(0, 0)" and Y = "\<lambda>a. 0::real" and j = 0 and f = 0] h
  show ?thesis
    by (simp add: ex_solver_def split: prod.splits)
qed

section \<open>The boundary update\<close>

text \<open>
  C10. On a solver whose \<^verbatim>\<open>RF_cellwise\<close> holds one vector per cell (as it does after
  \<^verbatim>\<open>initialiseMatrices\<close>), the state that \<^verbatim>\<open>updateBoundaryConditions(t)\<close> returns
  does not depend on what \<^verbatim>\<open>RF_cellwise\<close> and \<^verbatim>\<open>L_global\<close> held before, and a
  second call with the same \<open>t\<close> returns the same state.
\<close>

theorem C10_updateBoundaryConditions_idempotent:
  assumes len: "length (RF_cellwise s) = nCells s"
    and len': "length rfs = nCells s"
    and upd: "updateBoundaryConditions ops t s = Inr s1"
  shows "updateBoundaryConditions ops t (s\<lparr>RF_cellwise := rfs, L_global := L\<rparr>) = Inr s1 \<and>
         updateBoundaryConditions ops t s1 = Inr s1"
proof
  show "updateBoundaryConditions ops t (s\<lparr>RF_cellwise := rfs, L_global := L\<rparr>) = Inr s1"
    by (rule updateBC_independent [OF len len' upd])
  from updateBC_changes_RF_L [OF upd] obtain r1 L1 where
    s1: "s1 = s\<lparr>RF_cellwise := r1, L_global := L1\<rparr>" and l: "length r1 = length (RF_cellwise s)"
    by blast
  from l len have "length r1 = nCells s" by simp
  from updateBC_independent [OF len this upd, of L1]
  show "updateBoundaryConditions ops t s1 = Inr s1"
    by (simp add: s1)
qed

section \<open>The configuration reader\<close>

text \<open>
  C9. The claim is that a configuration without \<^verbatim>\<open>Relative_tolerance\<close> (or without
  \<^verbatim>\<open>Absolute_tolerance\<close>) runs with the default \<open>1e-5\<close>. The code reaches the
  default branch only after \<^verbatim>\<open>toml::find\<close> has returned, and \<^verbatim>\<open>toml::find\<close>
  throws for the absent key: on a configuration that holds every required key and no
  tolerance, the reader ends with \<^verbatim>\<open>std::out_of_range\<close> and no run takes place.
\<close>

theorem C9_absent_tolerance_aborts:
  "runSolver_readFile config_no_tolerances = Inl (OutOfRange ''Relative_tolerance'')"
  by (simp add: runSolver_readFile_def read_delta_t_def read_t_final_def
      read_Relative_tolerance_def toml_find_def toml_count_def lnot_def is_integer_def
      is_floating_def as_floating_def config_no_tolerances_def)

theorem C10_updateBoundaryConditions_idempotent_witness:
  "\<exists>s s1. initialiseMatrices (ex_ops 1) mzero mzero (ex_solver 1 1 2 True False) = Inr s \<and>
     length (RF_cellwise s) = nCells s \<and>
     length [\<lambda>j. 5, \<lambda>j. 7 :: real] = nCells s \<and>
     updateBoundaryConditions (ex_ops 1) 3 s = Inr s1 \<and>
     updateBoundaryConditions (ex_ops 1) 3
       (s\<lparr>RF_cellwise := [\<lambda>j. 5, \<lambda>j. 7], L_global := (\<lambda>j. 9)\<rparr>) = Inr s1 \<and>
     updateBoundaryConditions (ex_ops 1) 3 s1 = Inr s1"
proof -
  obtain s where init: "initialiseMatrices (ex_ops 1) mzero mzero (ex_solver 1 1 2 True False) = Inr s"
    using initialiseMatrices_returns [of "ex_solver 1 1 2 True False" "ex_ops 1" mzero mzero]
    by (auto simp: ex_solver_def)
  note I = initialiseMatrices_Inr [OF init]
  from I(1) have cfg: "nCells s = 2" "kdeg s = 1" "gridCells s = gridCells (ex_solver 1 1 2 True False)"
    by (simp_all add: same_config_def ex_solver_def)
  have len: "length (RF_cellwise s) = nCells s"
    using I(5) cfg by (simp add: ex_solver_def)
  have len': "length [\<lambda>j. 5, \<lambda>j. 7 :: real] = nCells s"
    using cfg by simp
  obtain s1 where upd: "updateBoundaryConditions (ex_ops 1) 3 s = Inr s1"
    using updateBoundaryConditions_returns [of s "ex_ops 1" 3] len cfg
    by (auto simp: ex_solver_def)
  from C10_updateBoundaryConditions_idempotent [OF len len' upd, of "\<lambda>j. 9"] init len len' upd
  show ?thesis by blast
qed

section \<open>The cell-local Jacobian\<close>

text \<open>
  C1. The claim gives the middle row of the cell-local Jacobian as
  \<open>[B, D + dF/dq, D + dF/du + \<alpha> M]\<close>. The matrix that \<^verbatim>\<open>updateMForJacSolve\<close>
  assembles has no \<open>D\<close> in the middle block of that row: \<^verbatim>\<open>initialiseMatrices\<close> zeroes
  the block and only source-provider blocks are added to it. Proved instead: for a solver
  that keeps the configuration and the \<^verbatim>\<open>MBlocks\<close> it had after
  \<^verbatim>\<open>initialiseMatrices\<close>, the first row is \<open>[0, -A, -B\<^sup>T]\<close>, the third row is
  \<open>[A, NLq, NLu]\<close> with the blocks of the diffusion provider at \<open>(q + \<delta>q, u + \<delta>u)\<close>,
  the middle row starts with \<open>B\<close>, and when the Jacobian blocks of the source provider
  vanish its other two blocks are \<open>0\<close> and \<open>D + X\<close>, where \<open>A\<close>, \<open>B\<close>, \<open>D\<close> stack the
  mass matrix, the derivative matrix and \<open>D\<^sub>v\<close> block-diagonally over the variables and
  \<open>X\<close> stacks the mass matrix weighted by the constant \<open>\<alpha>\<close>.
\<close>

theorem C1_cell_jacobian_blocks:
  fixes ops :: "real dg_ops"
  assumes init: "initialiseMatrices ops C0 E0 s0 = Inr s1"
    and later: "same_config s1 s" "MBlocks s = MBlocks s1"
    and i: "i < nCells s"
    and a: "a < nVar s * (kdeg s + 1)" and b: "b < nVar s * (kdeg s + 1)"
  shows "(let n = nVar s * (kdeg s + 1);
              I = gridCells s ! i;
              A = blockdiag (nVar s) (kdeg s + 1) (MassMatrix ops I);
              B = blockdiag (nVar s) (kdeg s + 1) (DerivativeMatrix ops I);
              D = blockdiag (nVar s) (kdeg s + 1) (Dv_spec ops s I);
              X = blockdiag (nVar s) (kdeg s + 1) (MassMatrixW ops I (\<lambda>x. alpha));
              newQ = dg_sum (dg_of Ycur (q_coeffs s)) delQ;
              newU = dg_sum (dg_of Ycur (u_coeffs s)) delU;
              MX = updateMForJacSolve ops s Ycur alpha delQ delU ! i
          in MX a b = 0 \<and> MX a (n + b) = - A a b \<and> MX a (2 * n + b) = - B b a \<and>
             MX (n + a) b = B a b \<and>
             MX (2 * n + a) b = A a b \<and>
             MX (2 * n + a) (n + b) = NLqMat (diffObj s) newQ newU I a b \<and>
             MX (2 * n + a) (2 * n + b) = NLuMat (diffObj s) newQ newU I a b \<and>
             (setdFdqMat (sourceObj s) newQ newU I = mzero \<and>
              setdFduMat (sourceObj s) newQ newU I = mzero \<longrightarrow>
                MX (n + a) (n + b) = 0 \<and> MX (n + a) (2 * n + b) = D a b + X a b))"
  using updateMForJacSolve_blocks [OF init later i a b, of alpha Ycur delQ delU]
  by (auto simp: Let_def mzero_def)

theorem C1_cell_jacobian_blocks_witness:
  "(\<exists>s1. initialiseMatrices (ex_ops 0) mzero mzero (ex_solver 0 1 1 False False) = Inr s1 \<and>
      same_config s1 ex_system \<and> MBlocks ex_system = MBlocks s1) \<and>
   0 < nCells ex_system \<and> 0 < nVar ex_system * (kdeg ex_system + 1) \<and>
   (let MX = updateMForJacSolve (ex_ops 0) ex_system (N_VGetArrayPointer ex_Y) 4
                 (\<lambda>var i j. 0) (\<lambda>var i j. 0) ! 0
    in MX 0 0 = 0 \<and> MX 0 1 = - 1 \<and> MX 0 2 = 0 \<and>
       MX 1 0 = 0 \<and> MX 1 1 = 0 \<and> MX 1 2 = 6 \<and>
       MX 2 0 = 1 \<and> MX 2 1 = 0 \<and> MX 2 2 = 0)"
proof -
  from ex_system_assembled obtain s1 where
    init: "initialiseMatrices (ex_ops 0) mzero mzero (ex_solver 0 1 1 False False) = Inr s1"
    and later: "same_config s1 ex_system" "MBlocks ex_system = MBlocks s1"
    by blast
  note f = ex_system_fields
  have i: "0 < nCells ex_system" and a: "0 < nVar ex_system * (kdeg ex_system + 1)"
    by (simp_all add: f)
  from C1_cell_jacobian_blocks [OF init later i a a, of 4 "N_VGetArrayPointer ex_Y"
      "\<lambda>var i j. 0" "\<lambda>var i j. 0"]
  have "(let MX = updateMForJacSolve (ex_ops 0) ex_system (N_VGetArrayPointer ex_Y) 4
                 (\<lambda>var i j. 0) (\<lambda>var i j. 0) ! 0
    in MX 0 0 = 0 \<and> MX 0 1 = - 1 \<and> MX 0 2 = 0 \<and>
       MX 1 0 = 0 \<and> MX 1 1 = 0 \<and> MX 1 2 = 6 \<and>
       MX 2 0 = 1 \<and> MX 2 1 = 0 \<and> MX 2 2 = 0)"
    by (simp add: f Let_def blockdiag_def Dv_spec_def ex_ops_def ex_solver_def mzero_def)
  with init later i a show ?thesis by blast
qed

theorem C1_middle_block_counterexample:
  "(updateMForJacSolve (ex_ops 0) ex_system (N_VGetArrayPointer ex_Y) 4
      (\<lambda>var i j. 0) (\<lambda>var i j. 0) ! 0) 1 1 = 0 \<and>
   M_cell_spec (ex_ops 0) ex_system (gridCells ex_system ! 0) 4
     (dg_sum (dg_of (N_VGetArrayPointer ex_Y) (q_coeffs ex_system)) (\<lambda>var i j. 0))
     (dg_sum (dg_of (N_VGetArrayPointer ex_Y) (u_coeffs ex_system)) (\<lambda>var i j. 0)) 1 1 = 2 \<and>
   updateMForJacSolve (ex_ops 0) ex_system (N_VGetArrayPointer ex_Y) 4
      (\<lambda>var i j. 0) (\<lambda>var i j. 0) ! 0
   \<noteq> M_cell_spec (ex_ops 0) ex_system (gridCells ex_system ! 0) 4
     (dg_sum (dg_of (N_VGetArrayPointer ex_Y) (q_coeffs ex_system)) (\<lambda>var i j. 0))
     (dg_sum (dg_of (N_VGetArrayPointer ex_Y) (u_coeffs ex_system)) (\<lambda>var i j. 0))"
proof -
  from ex_system_assembled obtain s1 where
    init: "initialiseMatrices (ex_ops 0) mzero mzero (ex_solver 0 1 1 False False) = Inr s1"
    and later: "same_config s1 ex_system" "MBlocks ex_system = MBlocks s1"
    by blast
  note f = ex_system_fields
  have i: "0 < nCells ex_system" and a: "0 < nVar ex_system * (kdeg ex_system + 1)"
    by (simp_all add: f)
  from updateMForJacSolve_blocks [OF init later i a a, of 4 "N_VGetArrayPointer ex_Y"
      "\<lambda>var i j. 0" "\<lambda>var i j. 0"]
  have code: "(updateMForJacSolve (ex_ops 0) ex_system (N_VGetArrayPointer ex_Y) 4
      (\<lambda>var i j. 0) (\<lambda>var i j. 0) ! 0) 1 1 = 0"
    by (simp add: f Let_def ex_solver_def mzero_def)
  have spec: "M_cell_spec (ex_ops 0) ex_system (gridCells ex_system ! 0) 4
     (dg_sum (dg_of (N_VGetArrayPointer ex_Y) (q_coeffs ex_system)) (\<lambda>var i j. 0))
     (dg_sum (dg_of (N_VGetArrayPointer ex_Y) (u_coeffs ex_system)) (\<lambda>var i j. 0)) 1 1 = 2"
    by (simp add: M_cell_spec_def f Let_def blockdiag_def Dv_spec_def ex_ops_def ex_solver_def
        mzero_def)
  from code spec show ?thesis by (metis zero_neq_numeral)
qed

text \<open>
  C7. The claim is that the residual changes nothing but the residual vector and the
  \<^verbatim>\<open>RF\<close>/\<^verbatim>\<open>L\<close> refresh. The code also increments the member \<^verbatim>\<open>total_steps\<close>,
  opens the file \<^verbatim>\<open>trial.plot\<close> anew and writes a frame to it, and stores the norm
  of the residual in \<^verbatim>\<open>resNorm\<close> when the solver is testing (it prints to
  \<^verbatim>\<open>std::cerr\<close> as well, which the model leaves out). Proved instead: a residual
  evaluation that returns leaves the solver as the boundary update left it but for
  \<^verbatim>\<open>total_steps\<close>, one higher, and for \<^verbatim>\<open>resNorm\<close> when testing; the files are the
  old ones but for \<^verbatim>\<open>trial.plot\<close>, which holds the one new frame; the residual vector
  keeps its length; the returned value is 0.
\<close>

theorem C7_residual_frame:
  assumes res: "residual ops sys files t Y dydt resval = Inr (res', s', files', ret)"
  shows "\<exists>rfs L.
           updateBoundaryConditions ops t sys = Inr (sys\<lparr>RF_cellwise := rfs, L_global := L\<rparr>) \<and>
           s' = sys\<lparr>RF_cellwise := rfs, L_global := L,
                    total_steps := total_steps sys + 1,
                    resNorm := (if testing sys
                                then vnorm ops (N_VGetLength resval) (N_VGetArrayPointer res')
                                else resNorm sys)\<rparr> \<and>
           files' = files(''trial.plot'' \<mapsto> [print_Y ops sys 0 200 0 (N_VGetArrayPointer dydt)]) \<and>
           N_VGetLength res' = N_VGetLength resval \<and> ret = 0"
proof -
  from residual_Inr [OF res] obtain s where
    upd: "updateBoundaryConditions ops t sys = Inr s"
    and ret: "ret = 0"
    and s': "s' = s\<lparr>total_steps := total_steps s + 1,
                  resNorm := (if testing s then vnorm ops (N_VGetLength resval)
                                 (N_VGetArrayPointer res') else resNorm s)\<rparr>"
    and files: "files' = files(''trial.plot'' \<mapsto> [print_Y ops s 0 200 0 (N_VGetArrayPointer dydt)])"
    and res': "res' = resval\<lparr>N_VGetArrayPointer := residual_values ops s Y dydt resval\<rparr>"
    by blast
  from updateBC_changes_RF_L [OF upd] obtain rfs L where
    s: "s = sys\<lparr>RF_cellwise := rfs, L_global := L\<rparr>"
    by blast
  have cfg: "same_config sys s"
    by (simp add: s same_config_def)
  show ?thesis
  proof (intro exI [of _ rfs] exI [of _ L] conjI)
    show "updateBoundaryConditions ops t sys = Inr (sys\<lparr>RF_cellwise := rfs, L_global := L\<rparr>)"
      using upd s by simp
    show "s' = sys\<lparr>RF_cellwise := rfs, L_global := L,
                    total_steps := total_steps sys + 1,
                    resNorm := (if testing sys
                                then vnorm ops (N_VGetLength resval) (N_VGetArrayPointer res')
                                else resNorm sys)\<rparr>"
      by (simp add: s' s)
    show "files' = files(''trial.plot'' \<mapsto> [print_Y ops sys 0 200 0 (N_VGetArrayPointer dydt)])"
      by (simp add: files print_Y_config [OF cfg])
    show "N_VGetLength res' = N_VGetLength resval"
      by (simp add: res')
    show "ret = 0" by (rule ret)
  qed
qed

theorem C7_residual_frame_witness:
  "residual (ex_ops 0) ex_system (\<lambda>name. None) 0 ex_Y ex_dYdt (zero_vector 5) =
     Inr (fst ex_run, fst (snd ex_run), fst (snd (snd ex_run)), snd (snd (snd ex_run))) \<and>
   (\<exists>rfs L.
      updateBoundaryConditions (ex_ops 0) 0 ex_system =
        Inr (ex_system\<lparr>RF_cellwise := rfs, L_global := L\<rparr>) \<and>
      fst (snd ex_run) = ex_system\<lparr>RF_cellwise := rfs, L_global := L, total_steps := 1\<rparr>) \<and>
   fst (snd (snd ex_run)) =
     (\<lambda>name. None)(''trial.plot'' \<mapsto> [print_Y (ex_ops 0) ex_system 0 200 0 (N_VGetArrayPointer ex_dYdt)]) \<and>
   N_VGetLength (fst ex_run) = 5 \<and> snd (snd (snd ex_run)) = 0"
proof -
  have run: "residual (ex_ops 0) ex_system (\<lambda>name. None) 0 ex_Y ex_dYdt (zero_vector 5) =
     Inr (fst ex_run, fst (snd ex_run), fst (snd (snd ex_run)), snd (snd (snd ex_run)))"
    by (simp add: ex_run_eq)
  from C7_residual_frame [OF run] obtain rfs L where
    a: "updateBoundaryConditions (ex_ops 0) 0 ex_system =
        Inr (ex_system\<lparr>RF_cellwise := rfs, L_global := L\<rparr>)"
    and b: "fst (snd ex_run) = ex_system\<lparr>RF_cellwise := rfs, L_global := L,
                    total_steps := total_steps ex_system + 1,
                    resNorm := (if testing ex_system
                                then vnorm (ex_ops 0) (N_VGetLength (zero_vector 5))
                                       (N_VGetArrayPointer (fst ex_run))
                                else resNorm ex_system)\<rparr>"
    and c: "fst (snd (snd ex_run)) =
     (\<lambda>name. None)(''trial.plot'' \<mapsto> [print_Y (ex_ops 0) ex_system 0 200 0 (N_VGetArrayPointer ex_dYdt)])"
    and d: "N_VGetLength (fst ex_run) = N_VGetLength (zero_vector 5)"
    and e: "snd (snd (snd ex_run)) = 0"
    by blast
  from b have b': "fst (snd ex_run) = ex_system\<lparr>RF_cellwise := rfs, L_global := L, total_steps := 1\<rparr>"
    by (simp add: ex_vectors)
  from d have d': "N_VGetLength (fst ex_run) = 5"
    by (simp add: zero_vector_def)
  from run a b' c d' e show ?thesis
    by blast
qed

theorem C7_total_steps_counterexample:
  "residual (ex_ops 0) ex_system (\<lambda>name. None) 0 ex_Y ex_dYdt (zero_vector 5) = Inr ex_run \<and>
   total_steps ex_system = 0 \<and> total_steps (fst (snd ex_run)) = 1 \<and>
   fst (snd (snd ex_run)) ''trial.plot'' \<noteq> None"
proof -
  have run: "residual (ex_ops 0) ex_system (\<lambda>name. None) 0 ex_Y ex_dYdt (zero_vector 5) =
     Inr (fst ex_run, fst (snd ex_run), fst (snd (snd ex_run)), snd (snd (snd ex_run)))"
    by (simp add: ex_run_eq)
  from residual_Inr [OF run] obtain s where
    upd: "updateBoundaryConditions (ex_ops 0) 0 ex_system = Inr s"
    and s': "fst (snd ex_run) = s\<lparr>total_steps := total_steps s + 1,
                  resNorm := (if testing s then vnorm (ex_ops 0) (N_VGetLength (zero_vector 5))
                                 (N_VGetArrayPointer (fst ex_run)) else resNorm s)\<rparr>"
    and files: "fst (snd (snd ex_run)) = (\<lambda>name. None)(''trial.plot'' \<mapsto>
         [print_Y (ex_ops 0) s 0 200 0 (N_VGetArrayPointer ex_dYdt)])"
    by blast
  from updateBC_changes_RF_L [OF upd] obtain rfs L where
    s: "s = ex_system\<lparr>RF_cellwise := rfs, L_global := L\<rparr>"
    by blast
  show ?thesis
    by (simp add: ex_run_eq ex_vectors s' s files)
qed

text \<open>
  C8. The claim is that a not-a-number of a provider makes the residual return a failure
  code. The code has one \<^verbatim>\<open>return\<close> statement, \<^verbatim>\<open>return 0\<close>, and tests no value:
  with a diffusion provider whose \<open>\<kappa>\<close> is a not-a-number the residual returns 0 and the
  not-a-number is in the residual vector. Proved instead: whenever the residual returns,
  it returns 0.
\<close>

theorem C8_residual_returns_zero:
  assumes "residual ops sys files t Y dydt resval = Inr (res', s', files', ret)"
  shows "ret = 0"
  using residual_Inr [OF assms] by blast

theorem C8_residual_returns_zero_witness:
  "residual (ex_ops 0) ex_system (\<lambda>name. None) 0 ex_Y ex_dYdt (zero_vector 5) =
     Inr (fst ex_run, fst (snd ex_run), fst (snd (snd ex_run)), snd (snd (snd ex_run))) \<and>
   snd (snd (snd ex_run)) = 0"
proof -
  have run: "residual (ex_ops 0) ex_system (\<lambda>name. None) 0 ex_Y ex_dYdt (zero_vector 5) =
     Inr (fst ex_run, fst (snd ex_run), fst (snd (snd ex_run)), snd (snd (snd ex_run)))"
    by (simp add: ex_run_eq)
  from C8_residual_returns_zero [OF run] run show ?thesis
    by simp
qed

theorem C8_not_a_number_counterexample:
  "residual nan_ops (snd (snd nan_initial)) (\<lambda>name. None) 0 (fst nan_initial)
       (fst (snd nan_initial)) nan_vector = Inr nan_run \<and>
   getKappaFunc (diffObj (snd (snd nan_initial))) 0 (1 / 2)
     (dg_of (N_VGetArrayPointer (fst nan_initial)) (q_coeffs (snd (snd nan_initial))))
     (dg_of (N_VGetArrayPointer (fst nan_initial)) (u_coeffs (snd (snd nan_initial)))) = NaN \<and>
   N_VGetArrayPointer (fst nan_run) 2 = NaN \<and>
   snd (snd (snd nan_run)) = 0"
proof -
  from nan_initial_ex have cfg: "same_config nan_solver (snd (snd nan_initial))"
    by blast
  have run: "residual nan_ops (snd (snd nan_initial)) (\<lambda>name. None) 0 (fst nan_initial)
       (fst (snd nan_initial)) nan_vector =
         Inr (fst nan_run, fst (snd nan_run), fst (snd (snd nan_run)), snd (snd (snd nan_run)))"
    by (simp add: nan_run_eq)
  from residual_Inr [OF run] obtain s where
    upd: "updateBoundaryConditions nan_ops 0 (snd (snd nan_initial)) = Inr s"
    and ret: "snd (snd (snd nan_run)) = 0"
    and res: "fst nan_run = nan_vector\<lparr>N_VGetArrayPointer :=
        residual_values nan_ops s (fst nan_initial) (fst (snd nan_initial)) nan_vector\<rparr>"
    by blast
  from updateBC_changes_RF_L [OF upd] obtain rfs L where
    s: "s = (snd (snd nan_initial))\<lparr>RF_cellwise := rfs, L_global := L\<rparr>"
    by blast
  have "same_config (snd (snd nan_initial)) s"
    by (simp add: s same_config_def)
  with cfg have "same_config nan_solver s"
    by (rule same_config_trans)
  then have f: "nCells s = 1" "nVar s = 1" "kdeg s = 0" "gridCells s = [\<lparr>x_l = 0, x_u = 1\<rparr>]"
    "diffObj s = diffObj nan_solver"
    by (simp_all add: same_config_def nan_solver_def)
  have kappa: "getKappaFunc (diffObj (snd (snd nan_initial))) 0 (1 / 2)
     (dg_of (N_VGetArrayPointer (fst nan_initial)) (q_coeffs (snd (snd nan_initial))))
     (dg_of (N_VGetArrayPointer (fst nan_initial)) (u_coeffs (snd (snd nan_initial)))) = NaN"
    using cfg by (simp add: same_config_def nan_solver_def)
  have "residual_values nan_ops s (fst nan_initial) (fst (snd nan_initial)) nan_vector 2 = NaN"
    by (simp add: residual_values_def residual_cells_def mapDGtoSundials_eq mapDGtoSundials_u_def
        f Let_def u32_def view_write_def set_vblock_def vadd_def nan_ops_def nan_solver_def
        times_fpval_def plus_fpval_def split: fpval.splits)
  with run kappa ret show ?thesis
    by (simp add: res nan_run_eq)
qed

text \<open>
  C6. The claim is that a global Dirichlet end \<open>x\<^sub>b\<close> adds \<open>-\<phi>\<^sub>j(x\<^sub>b) n\<^sub>x g\<^sub>D(x\<^sub>b,t)\<close> to the
  \<open>\<sigma>\<close>-row entry \<open>j\<close> of the cell's \<^verbatim>\<open>RF\<close>. At the upper end the code indexes the basis by
  \<^verbatim>\<open>j%k+1\<close>, which is \<open>(j mod k) + 1\<close>, where the lower end and the \<open>u\<close>-row use
  \<^verbatim>\<open>j%(k+1)\<close>. With degree 1, one variable, one cell, \<open>g\<^sub>D = 1\<close> and an upper Dirichlet
  end the entry \<open>j = 0\<close> receives \<open>-\<phi>\<^sub>1(x\<^sub>u) = -\<surd>3\<close>, not \<open>-\<phi>\<^sub>0(x\<^sub>u) = -1\<close>; with degree 0
  the remainder is taken by zero, already in \<^verbatim>\<open>initialiseMatrices\<close>, which holds the same
  statements.
\<close>

theorem C6_upper_sigma_row_basis_index:
  "initialiseMatrices (ex_ops 1) mzero mzero (ex_solver 1 1 1 False True) = Inr ex_upper \<and>
   updateBoundaryConditions (ex_ops 1) 0 ex_upper = Inr ex_upper_updated \<and>
   x_u (gridCells ex_upper ! 0) = UpperBound (BCs ex_upper) \<and> isUBoundDirichlet (BCs ex_upper) \<and>
   (RF_cellwise ex_upper_updated ! 0) 0 = - sqrt 3 \<and>
   - phi (ex_ops 1) (gridCells ex_upper ! 0) 0 (x_u (gridCells ex_upper ! 0)) * 1
     * g_D (BCs ex_upper) (x_u (gridCells ex_upper ! 0)) 0 = - 1 \<and>
   initialiseMatrices (ex_ops 0) mzero mzero (ex_solver 0 1 1 False True) = Inl DivisionByZero"
proof -
  note f = ex_upper_fields
  from ex_upper_updated_eq have
    loop: "forloopE (nCells ex_upper) (updateBoundaryCell (ex_ops 1) 0)
             (ex_upper\<lparr>L_global := vzero\<rparr>) = Inr ex_upper_updated"
    by (simp add: updateBoundaryConditions_def f)
  from updateBC_loop [OF loop] obtain rfs where
    u: "ex_upper_updated = ex_upper\<lparr>L_global := vzero, RF_cellwise := rfs,
          L_global := forloop (nCells ex_upper)
            (\<lambda>i L. boundary_L (ex_upper\<lparr>L_global := vzero\<rparr>)
                     (gridCells (ex_upper\<lparr>L_global := vzero\<rparr>) ! i) i 0 L)
            (L_global (ex_upper\<lparr>L_global := vzero\<rparr>))\<rparr>"
    and rf: "\<forall>i<nCells ex_upper. i < length (RF_cellwise (ex_upper\<lparr>L_global := vzero\<rparr>)) \<longrightarrow>
        boundary_RF (ex_ops 1) (ex_upper\<lparr>L_global := vzero\<rparr>)
          (gridCells (ex_upper\<lparr>L_global := vzero\<rparr>) ! i) 0 = Inr (rfs ! i)"
    by blast
  from rf have "boundary_RF (ex_ops 1) (ex_upper\<lparr>L_global := vzero\<rparr>) \<lparr>x_l = 0, x_u = 1\<rparr> 0
      = Inr (rfs ! 0)"
    by (simp add: f)
  then have r0: "rfs ! 0 = projr (boundary_RF (ex_ops 1) (ex_upper\<lparr>L_global := vzero\<rparr>)
      \<lparr>x_l = 0, x_u = 1\<rparr> 0)"
    by simp
  have "projr (boundary_RF (ex_ops 1) (ex_upper\<lparr>L_global := vzero\<rparr>)
      \<lparr>x_l = 0, x_u = 1\<rparr> 0) 0 = - sqrt 3"
    by (simp add: boundary_RF_def f Let_def ex_solver_def ex_ops_def vzero_def numeral_2_eq_2)
  with r0 have code: "(RF_cellwise ex_upper_updated ! 0) 0 = - sqrt 3"
    by (subst u) simp
  have claim: "- phi (ex_ops 1) (gridCells ex_upper ! 0) 0 (x_u (gridCells ex_upper ! 0)) * 1
     * g_D (BCs ex_upper) (x_u (gridCells ex_upper ! 0)) 0 = - 1"
    by (simp add: f ex_ops_def ex_solver_def)
  have crash: "initialiseMatrices (ex_ops 0) mzero mzero (ex_solver 0 1 1 False True)
      = Inl DivisionByZero"
    by (simp add: initialiseMatrices_def initialiseCell_def boundary_RF_def clearCellwiseVecs_def
        ex_solver_def Let_def split: prod.splits)
  have bd: "x_u (gridCells ex_upper ! 0) = UpperBound (BCs ex_upper)"
    "isUBoundDirichlet (BCs ex_upper)"
    by (simp_all add: f ex_solver_def)
  from ex_upper_eq ex_upper_updated_eq code claim crash bd show ?thesis
    by blast
qed

text \<open>
  C5. The claim is that \<^verbatim>\<open>setInitialConditions\<close> projects the initial data, sets \<open>\<lambda>\<close> to
  the solution of the trace equation, sets the initial \<open>\<partial>\<^sub>t u\<close> to
  \<open>-B \<sigma> - D u - E \<lambda> + RF\<^sub>u - F\<close> with \<open>F\<close> the projected source at the initial state, and
  leaves the other derivative blocks zero. The code evaluates the source with the field
  \<open>q\<close> in both field arguments (\<^verbatim>\<open>sourceFunc(x, q, q)\<close>), where the residual evaluates the
  same term of the same equation with \<open>q\<close> and \<open>u\<close>. On one cell of degree 0 with one
  variable, Neumann ends, the source \<open>f = u\<close>, \<open>u\<^sub>0 = 1\<close> and \<open>u\<^sub>0' = 0\<close> the vector \<open>Y\<close> is
  \<open>(\<sigma>, q, u, \<lambda>\<^sub>0, \<lambda>\<^sub>1) = (0, 0, 1, -1, -1)\<close>, the derivative vector is zero but for the
  entry of \<open>u\<close>, and that entry is \<open>-4\<close>, where the expression of the claim gives \<open>-5\<close>.
\<close>

theorem C5_initial_dudt_source_fields:
  "setInitialConditions (ex_ops 0) mzero mzero (ex_solver 0 1 1 False False)
     (\<lambda>x. 1) (\<lambda>x. 0) (\<lambda>x. 0) (zero_vector 5) (zero_vector 5) = Inr (ex_Y, ex_dYdt, ex_system) \<and>
   map (N_VGetArrayPointer ex_Y) [0, 1, 2, 3, 4] = [0, 0, 1, - 1, - 1] \<and>
   snd (dudt_coeffs ex_system ! 0 ! 0) = (2, 1) \<and>
   map (N_VGetArrayPointer ex_dYdt) [0, 1, 2, 3, 4] = [0, 0, - 4, 0, 0] \<and>
   dudt_spec (ex_ops 0) ex_system (N_VGetArrayPointer ex_Y) 0 0 0 = - 5"
  using ex_initial_eq ex_Y_values ex_dYdt_values ex_dudt_spec ex_system_views(7)
  by simp

text \<open>
  C3. When \<^verbatim>\<open>residual\<close> returns, the trace block of the residual vector, which starts
  after the \<open>3 N (k+1) Nc\<close> cell entries, holds \<open>-\<lambda> + H\<^sub>g\<^sub>l\<^sub>o\<^sub>b\<^sub>a\<^sub>l\<^sup>-\<^sup>1 (L - \<Sigma>\<^sub>i (C\<^sub>i \<sigma>\<^sub>i + G\<^sub>i u\<^sub>i))\<close>, where
  \<open>\<lambda>\<close>, \<open>\<sigma>\<close> and \<open>u\<close> are read from \<open>Y\<close>, \<open>L\<close> is the vector that the boundary update at
  \<open>t\<close> has left in the solver and \<open>H\<^sub>g\<^sub>l\<^sub>o\<^sub>b\<^sub>a\<^sub>l\<^sup>-\<^sup>1\<close> is the solve of the factorisation; so the
  block vanishes exactly when \<open>\<lambda>\<close> is that solution. The code gathers \<open>L\<close> per cell, so
  that an entry of \<open>L\<close> at a face between two cells is added twice; on the cells of a grid
  only the two ends of the interval carry an entry of \<open>L\<close>, and there the sum is the one
  of the claim. The state is taken to fit the 32-bit offsets of the views.
\<close>

theorem C3_trace_block:
  fixes sys :: "real SystemSolver"
  assumes run: "residual ops sys files t Y dydt resval = Inr (res', s', files', ret)"
    and fits: "state_length sys < 2 ^ 32"
    and grid: "grid_ok sys"
  shows "(\<forall>r < nVar sys * (nCells sys + 1).
            N_VGetArrayPointer res' (3 * nVar sys * (kdeg sys + 1) * nCells sys + r) =
              - N_VGetArrayPointer Y (3 * nVar sys * (kdeg sys + 1) * nCells sys + r)
              + lu_solve ops (nVar sys * (nCells sys + 1)) (H_global s')
                  (trace_rhs s' (N_VGetArrayPointer Y)) r) \<and>
         ((\<forall>r < nVar sys * (nCells sys + 1).
            N_VGetArrayPointer res' (3 * nVar sys * (kdeg sys + 1) * nCells sys + r) = 0) \<longleftrightarrow>
          (\<forall>r < nVar sys * (nCells sys + 1).
            N_VGetArrayPointer Y (3 * nVar sys * (kdeg sys + 1) * nCells sys + r) =
              lu_solve ops (nVar sys * (nCells sys + 1)) (H_global s')
                (trace_rhs s' (N_VGetArrayPointer Y)) r))"
proof -
  from residual_Inr [OF run] obtain s where
    upd: "updateBoundaryConditions ops t sys = Inr s"
    and rng: "residual_in_range s Y dydt resval"
    and s': "s' = s\<lparr>total_steps := total_steps s + 1,
                  resNorm := (if testing s then vnorm ops (N_VGetLength resval)
                                 (N_VGetArrayPointer res') else resNorm s)\<rparr>"
    and res': "res' = resval\<lparr>N_VGetArrayPointer := residual_values ops s Y dydt resval\<rparr>"
    by blast
  from updateBC_changes_RF_L [OF upd] obtain rfs L where
    s: "s = sys\<lparr>RF_cellwise := rfs, L_global := L\<rparr>"
    by blast
  have f: "nVar s = nVar sys" "nCells s = nCells sys" "kdeg s = kdeg sys"
    by (simp_all add: s)
  have fits_s: "state_length s < 2 ^ 32"
    using fits by (simp add: state_length_def f)
  from rng have pos: "0 < nVar s"
    by (simp add: residual_in_range_def)
  have Lc: "(\<Sum>i<nCells s. \<Sum>var<nVar s.
            if var * (nCells s + 1) + i \<le> r \<and> r < var * (nCells s + 1) + i + 2
            then L_global s r else 0) = L_global s r" for r
    unfolding f by (rule L_global_counted_once [OF upd grid])
  have tr: "trace_rhs s' Yv = trace_rhs s Yv" for Yv
    by (simp add: s' trace_rhs_def cell_trace_def cong: if_cong)
  have H: "H_global s' = H_global s"
    by (simp add: s')
  have val: "N_VGetArrayPointer res' (3 * nVar sys * (kdeg sys + 1) * nCells sys + r) =
              - N_VGetArrayPointer Y (3 * nVar sys * (kdeg sys + 1) * nCells sys + r)
              + lu_solve ops (nVar sys * (nCells sys + 1)) (H_global s')
                  (trace_rhs s' (N_VGetArrayPointer Y)) r"
    if "r < nVar sys * (nCells sys + 1)" for r
  proof -
    from that have "r < nVar s * (nCells s + 1)"
      by (simp only: f)
    from residual_trace_values [OF fits_s pos Lc this, of ops Y dydt resval]
    show ?thesis
      by (simp add: f tr H res')
  qed
  show ?thesis
  proof (intro conjI allI impI iffI)
    fix r assume "r < nVar sys * (nCells sys + 1)"
    then show "N_VGetArrayPointer res' (3 * nVar sys * (kdeg sys + 1) * nCells sys + r) =
              - N_VGetArrayPointer Y (3 * nVar sys * (kdeg sys + 1) * nCells sys + r)
              + lu_solve ops (nVar sys * (nCells sys + 1)) (H_global s')
                  (trace_rhs s' (N_VGetArrayPointer Y)) r"
      by (rule val)
  next
    fix r
    assume z: "\<forall>r < nVar sys * (nCells sys + 1).
            N_VGetArrayPointer res' (3 * nVar sys * (kdeg sys + 1) * nCells sys + r) = 0"
      and r: "r < nVar sys * (nCells sys + 1)"
    from z r val [OF r]
    show "N_VGetArrayPointer Y (3 * nVar sys * (kdeg sys + 1) * nCells sys + r) =
              lu_solve ops (nVar sys * (nCells sys + 1)) (H_global s')
                (trace_rhs s' (N_VGetArrayPointer Y)) r"
      by simp
  next
    fix r
    assume z: "\<forall>r < nVar sys * (nCells sys + 1).
            N_VGetArrayPointer Y (3 * nVar sys * (kdeg sys + 1) * nCells sys + r) =
              lu_solve ops (nVar sys * (nCells sys + 1)) (H_global s')
                (trace_rhs s' (N_VGetArrayPointer Y)) r"
      and r: "r < nVar sys * (nCells sys + 1)"
    from z r val [OF r]
    show "N_VGetArrayPointer res' (3 * nVar sys * (kdeg sys + 1) * nCells sys + r) = 0"
      by simp
  qed
qed

theorem C3_trace_block_witness:
  "residual (ex_ops 0) ex_system (\<lambda>name. None) 0 ex_Y ex_dYdt (zero_vector 5) =
     Inr (fst ex_run, fst (snd ex_run), fst (snd (snd ex_run)), snd (snd (snd ex_run))) \<and>
   state_length ex_system < 2 ^ 32 \<and> grid_ok ex_system \<and>
   N_VGetArrayPointer (fst ex_run) 3 =
     - N_VGetArrayPointer ex_Y 3
     + lu_solve (ex_ops 0) 2 (H_global (fst (snd ex_run)))
         (trace_rhs (fst (snd ex_run)) (N_VGetArrayPointer ex_Y)) 0 \<and>
   N_VGetArrayPointer (fst ex_run) 4 =
     - N_VGetArrayPointer ex_Y 4
     + lu_solve (ex_ops 0) 2 (H_global (fst (snd ex_run)))
         (trace_rhs (fst (snd ex_run)) (N_VGetArrayPointer ex_Y)) 1"
proof -
  have run: "residual (ex_ops 0) ex_system (\<lambda>name. None) 0 ex_Y ex_dYdt (zero_vector 5) =
     Inr (fst ex_run, fst (snd ex_run), fst (snd (snd ex_run)), snd (snd (snd ex_run)))"
    by (simp add: ex_run_eq)
  have fits: "state_length ex_system < 2 ^ 32"
    by (simp add: state_length_def ex_system_fields)
  have grid: "grid_ok ex_system"
    by (simp add: grid_ok_def ex_system_fields)
  from C3_trace_block [OF run fits grid]
  have "\<forall>r<2. N_VGetArrayPointer (fst ex_run) (3 + r) =
      - N_VGetArrayPointer ex_Y (3 + r)
      + lu_solve (ex_ops 0) 2 (H_global (fst (snd ex_run)))
          (trace_rhs (fst (snd ex_run)) (N_VGetArrayPointer ex_Y)) r"
    by (simp add: ex_system_fields numeral_2_eq_2)
  then have all: "r < 2 \<Longrightarrow> N_VGetArrayPointer (fst ex_run) (3 + r) =
      - N_VGetArrayPointer ex_Y (3 + r)
      + lu_solve (ex_ops 0) 2 (H_global (fst (snd ex_run)))
          (trace_rhs (fst (snd ex_run)) (N_VGetArrayPointer ex_Y)) r" for r
    by blast
  from all [of 0] all [of 1] have
    "N_VGetArrayPointer (fst ex_run) 3 =
      - N_VGetArrayPointer ex_Y 3
      + lu_solve (ex_ops 0) 2 (H_global (fst (snd ex_run)))
          (trace_rhs (fst (snd ex_run)) (N_VGetArrayPointer ex_Y)) 0"
    "N_VGetArrayPointer (fst ex_run) 4 =
      - N_VGetArrayPointer ex_Y 4
      + lu_solve (ex_ops 0) 2 (H_global (fst (snd ex_run)))
          (trace_rhs (fst (snd ex_run)) (N_VGetArrayPointer ex_Y)) 1"
    by simp_all
  with run fits grid show ?thesis
    by simp
qed

end
